theory Spec2Isabelle
  imports Main "HOL-Library.Word"
begin

text \<open>
  A shallow embedding of the boats and loads REST service, and the properties of the
  relationship between a boat and the loads it carries. The repository holds two
  generations of the routers; both are modelled, from these files:
  \<^item> \<open>src/datastore.js\<close>: \<open>findEntity\<close>;
  \<^item> \<open>src/routes/boats.js\<close>: the first boats router (\<open>isBadRequest\<close>, \<open>getBoatProps\<close>,
    \<open>boatRepr\<close>, \<open>checkRegistered\<close>, \<open>POST /\<close>, \<open>PUT\<close> and \<open>DELETE /:boat_id/loads/:load_id\<close>,
    \<open>DELETE /:boat_id\<close>);
  \<^item> \<open>src/unnamed/part_005\<close>: the first loads router (\<open>POST /\<close>, \<open>DELETE /:load_id\<close>);
  \<^item> \<open>src/routes/users.js\<close>, its second module: the authenticated boats router, which
    adds the owner checks and \<open>PUT\<close> and \<open>PATCH /:boat_id\<close>;
  \<^item> \<open>src/unnamed/part_004\<close>, its second module: the loads router that checks the
    \<open>Accept\<close> header (\<open>POST /\<close>, \<open>PUT\<close>, \<open>PATCH\<close> and \<open>DELETE /:load_id\<close>);
  \<^item> \<open>src/unnamed/part_002\<close> and \<open>part_003\<close>: \<open>handleClientError\<close>,
    \<open>handleServerError\<close>, \<open>loadRepr\<close>, \<open>isAcceptable\<close>; \<open>part_000\<close>: the error handler
    that answers a rejected token.
\<close>

section \<open>JavaScript values and built-ins used by the handlers\<close>

text \<open>
  The request bodies and the stored fields are untyped JavaScript values. The handlers
  only test them for truthiness, compare them with \<open>undefined\<close>, copy them and wrap
  them in \<open>new Date(...)\<close>. Numbers are the integers; a \<open>Date\<close> carries its time
  value, \<open>None\<close> for an invalid date; \<open>JObject s\<close> is any other object or array, with
  the string its conversion to a primitive gives.
\<close>

datatype jsval =
    JUndefined
  | JNull
  | JBool bool
  | JNum int
  | JStr string
  | JDate "int option"
  | JObject string

fun truthy :: "jsval \<Rightarrow> bool" where
  "truthy JUndefined = False"
| "truthy JNull = False"
| "truthy (JBool b) = b"
| "truthy (JNum n) = (n \<noteq> 0)"
| "truthy (JStr s) = (s \<noteq> [])"
| "truthy (JDate d) = True"
| "truthy (JObject s) = True"

text \<open>
  \<open>new Date(v)\<close>. Parsing a date string is implementation dependent, so \<open>Date.parse\<close>
  is the parameter \<open>date_parse\<close>.
\<close>

fun new_Date :: "(string \<Rightarrow> int option) \<Rightarrow> jsval \<Rightarrow> jsval" where
  "new_Date date_parse JUndefined = JDate None"
| "new_Date date_parse JNull = JDate (Some 0)"
| "new_Date date_parse (JBool b) = JDate (Some (if b then 1 else 0))"
| "new_Date date_parse (JNum n) =
     JDate (if - 8640000000000000 \<le> n \<and> n \<le> 8640000000000000 then Some n else None)"
| "new_Date date_parse (JStr s) = JDate (date_parse s)"
| "new_Date date_parse (JDate d) = JDate d"
| "new_Date date_parse (JObject s) = JDate (date_parse s)"

text \<open>
  A JavaScript string is a sequence of 16-bit code units; the route parameters are such
  strings (Express has decoded their percent escapes).
\<close>

type_synonym jsstring = "16 word list"

text \<open>
  \<open>parseInt(s, 10)\<close>: the leading white space and line terminators are skipped, a sign
  is read, then the longest run of decimal digits; \<open>None\<close> is \<open>NaN\<close> (no digit was
  read). The code units skipped are those of \<open>StrWhiteSpaceChar\<close>: TAB, LF, VT, FF, CR,
  the space, the no-break space, U+1680, U+2000 to U+200A, U+2028, U+2029, U+202F, U+205F,
  U+3000 and U+FEFF. The result is an exact integer: the rounding of a double beyond
  \<open>2^53\<close> is not modelled, ids are taken to be below it.
\<close>

definition isWhiteSpace :: "16 word \<Rightarrow> bool" where
  "isWhiteSpace c =
     (c \<in> {0x9, 0xA, 0xB, 0xC, 0xD, 0x20, 0xA0, 0x1680, 0x2028, 0x2029, 0x202F, 0x205F,
            0x3000, 0xFEFF} \<or> (0x2000 \<le> c \<and> c \<le> 0x200A))"

definition isDigit :: "16 word \<Rightarrow> bool" where
  "isDigit c = (0x30 \<le> c \<and> c \<le> 0x39)"

definition digitsValue :: "jsstring \<Rightarrow> nat" where
  "digitsValue ds = foldl (\<lambda>a c. 10 * a + (unat c - 48)) 0 ds"

definition parseInt :: "jsstring \<Rightarrow> int option" where
  "parseInt str =
     (let t = dropWhile isWhiteSpace str;
          neg = (case t of c # r \<Rightarrow> c = 0x2D | [] \<Rightarrow> False);
          u = (case t of c # r \<Rightarrow> if c = 0x2D \<or> c = 0x2B then r else t | [] \<Rightarrow> t);
          ds = takeWhile isDigit u
      in if ds = [] then None
         else Some ((if neg then - 1 else 1) * int (digitsValue ds)))"

text \<open>
  The decimal text of an integer, as a template literal prints a number (ids are taken
  to be below \<open>10^21\<close>, where JavaScript turns to the exponent notation).
\<close>

fun natString :: "nat \<Rightarrow> string" where
  "natString n =
     (if n < 10 then [''0123456789'' ! n]
      else natString (n div 10) @ [''0123456789'' ! (n mod 10)])"

definition numString :: "int \<Rightarrow> string" where
  "numString i = (if i < 0 then CHR ''-'' # natString (nat (- i)) else natString (nat i))"

text \<open>
  \<open>Array.prototype.findIndex\<close> (\<open>-1\<close> when no element satisfies the predicate) and
  \<open>arr.splice(start, 1)\<close>: a negative \<open>start\<close> counts from the end, and is clamped
  to the array.
\<close>

fun findIndex :: "('a \<Rightarrow> bool) \<Rightarrow> 'a list \<Rightarrow> int" where
  "findIndex p [] = - 1"
| "findIndex p (x # xs) =
     (if p x then 0 else (let i = findIndex p xs in if i < 0 then - 1 else i + 1))"

definition splice1 :: "int \<Rightarrow> 'a list \<Rightarrow> 'a list" where
  "splice1 start xs =
     (let n = int (length xs);
          k = (if start < 0 then max (n + start) 0 else min start n)
      in take (nat k) xs @ drop (nat k + 1) xs)"

section \<open>Stored entities\<close>

text \<open>
  A boat is \<open>{name, type, length, owner, loads: [{id}]}\<close>; a load is
  \<open>{volume, content, creation_date, carrier: {id, name} | null}\<close>. An entry of
  \<open>boat.loads\<close> is stored as \<open>{id}\<close>; \<open>boatRepr\<close> adds \<open>self\<close> to it in memory.
  A boat of the first boats router has no \<open>owner\<close> (\<open>None\<close> is \<open>undefined\<close>).
\<close>

record load_ref =
  ref_id :: int
  ref_self :: "string option"

record carrier_ref =
  carrier_id :: int
  carrier_name :: jsval

record boat =
  boat_name :: jsval
  boat_type :: jsval
  boat_length :: jsval
  boat_owner :: "string option"
  boat_loads :: "load_ref list"

record load =
  load_volume :: jsval
  load_content :: jsval
  load_creation_date :: jsval
  load_carrier :: "carrier_ref option"

section \<open>The datastore\<close>

text \<open>
  The datastore client is an external collaborator. It is modelled as three key-addressed
  tables together with the list of the calls it has carried out so far, so that "nothing
  was fetched" and "nothing was written" can be stated. A call that names one entity is
  logged with its verb and the entity's kind; a call that is given an array
  (\<open>datastore.get(keys)\<close>, \<open>datastore.update(entities)\<close>) is logged once, with the
  number of elements of the array, also when the array is empty. The datastore is always
  reachable; its only failures are the ones the handlers themselves expect:
  \<^item> a lookup under a key whose id is \<open>NaN\<close> is rejected with code 3, as the
    handlers' comments say (\<open>boat_id was non-int\<close>);
  \<^item> \<open>update\<close> of a key that does not exist is rejected with code 5, and \<open>insert\<close>
    under a key that exists with code 6;
  \<^item> \<open>update\<close> of an object that has no key (\<open>datastore.update({})\<close>) is rejected
    by the client itself.
  A call that is rejected is not logged and changes nothing. An entity read from the store carries its key (\<open>entity[Datastore.KEY]\<close>): a found
  entity is the pair of its id and its data.
\<close>

datatype kind = BOATS | LOADS | USERS

datatype verb = Fetch | Write | Remove | Create | FetchAll nat | WriteAll nat

datatype ds_error = DsError (code: int)

record datastore =
  Boats :: "int \<rightharpoonup> boat"
  Loads :: "int \<rightharpoonup> load"
  Users :: "string set"
  accesses :: "(verb \<times> kind) list"

definition touch :: "verb \<Rightarrow> kind \<Rightarrow> datastore \<Rightarrow> datastore" where
  "touch v k s = s\<lparr>accesses := accesses s @ [(v, k)]\<rparr>"

definition findEntity_BOATS ::
  "int option \<Rightarrow> datastore \<Rightarrow> (ds_error + (int \<times> boat) option) \<times> datastore" where
  "findEntity_BOATS key s =
     (case key of
        None \<Rightarrow> (Inl (DsError 3), s)
      | Some k \<Rightarrow> (Inr (map_option (Pair k) (Boats s k)), touch Fetch BOATS s))"

definition findEntity_LOADS ::
  "int option \<Rightarrow> datastore \<Rightarrow> (ds_error + (int \<times> load) option) \<times> datastore" where
  "findEntity_LOADS key s =
     (case key of
        None \<Rightarrow> (Inl (DsError 3), s)
      | Some k \<Rightarrow> (Inr (map_option (Pair k) (Loads s k)), touch Fetch LOADS s))"

definition findEntity_USERS :: "string \<Rightarrow> datastore \<Rightarrow> (ds_error + bool) \<times> datastore" where
  "findEntity_USERS sub s = (Inr (sub \<in> Users s), touch Fetch USERS s)"

text \<open>\<open>datastore.get(keys)\<close>: the entities found under the keys.\<close>

definition get_LOADS ::
  "int list \<Rightarrow> datastore \<Rightarrow> (ds_error + (int \<times> load) list) \<times> datastore" where
  "get_LOADS keys s =
     (Inr (concat (map (\<lambda>k. case Loads s k of None \<Rightarrow> [] | Some l \<Rightarrow> [(k, l)]) keys)),
      touch (FetchAll (length keys)) LOADS s)"

definition update_BOATS :: "int \<times> boat \<Rightarrow> datastore \<Rightarrow> ds_error option \<times> datastore" where
  "update_BOATS e s =
     (if Boats s (fst e) = None then (Some (DsError 5), s)
      else (None, touch Write BOATS (s\<lparr>Boats := (Boats s)(fst e \<mapsto> snd e)\<rparr>)))"

definition update_LOADS :: "int \<times> load \<Rightarrow> datastore \<Rightarrow> ds_error option \<times> datastore" where
  "update_LOADS e s =
     (if Loads s (fst e) = None then (Some (DsError 5), s)
      else (None, touch Write LOADS (s\<lparr>Loads := (Loads s)(fst e \<mapsto> snd e)\<rparr>)))"

text \<open>
  \<open>datastore.update(entities)\<close> with an array: one commit, all or nothing. With an
  empty array the call is made all the same, and writes no entity.
\<close>

definition putAll :: "(int \<times> load) list \<Rightarrow> (int \<rightharpoonup> load) \<Rightarrow> (int \<rightharpoonup> load)" where
  "putAll es m = foldl (\<lambda>m e. m(fst e \<mapsto> snd e)) m es"

definition update_all_LOADS ::
  "(int \<times> load) list \<Rightarrow> datastore \<Rightarrow> ds_error option \<times> datastore" where
  "update_all_LOADS es s =
     (if \<exists>e \<in> set es. Loads s (fst e) = None then (Some (DsError 5), s)
      else (None, touch (WriteAll (length es)) LOADS (s\<lparr>Loads := putAll es (Loads s)\<rparr>)))"

definition delete_BOATS :: "int \<Rightarrow> datastore \<Rightarrow> ds_error option \<times> datastore" where
  "delete_BOATS k s = (None, touch Remove BOATS (s\<lparr>Boats := (Boats s)(k := None)\<rparr>))"

definition delete_LOADS :: "int \<Rightarrow> datastore \<Rightarrow> ds_error option \<times> datastore" where
  "delete_LOADS k s = (None, touch Remove LOADS (s\<lparr>Loads := (Loads s)(k := None)\<rparr>))"

text \<open>
  \<open>datastore.insert({key, data})\<close> with an incomplete key: the datastore allocates the
  id. Which id it allocates is the environment's choice, the parameter \<open>newId\<close>.
\<close>

definition insert_BOATS :: "int \<Rightarrow> boat \<Rightarrow> datastore \<Rightarrow> ds_error option \<times> datastore" where
  "insert_BOATS newId b s =
     (if Boats s newId \<noteq> None then (Some (DsError 6), s)
      else (None, touch Create BOATS (s\<lparr>Boats := (Boats s)(newId \<mapsto> b)\<rparr>)))"

definition insert_LOADS :: "int \<Rightarrow> load \<Rightarrow> datastore \<Rightarrow> ds_error option \<times> datastore" where
  "insert_LOADS newId l s =
     (if Loads s newId \<noteq> None then (Some (DsError 6), s)
      else (None, touch Create LOADS (s\<lparr>Loads := (Loads s)(newId \<mapsto> l)\<rparr>)))"

text \<open>\<open>Promise.all\<close> over two writes: both are issued; it rejects when one of them does.\<close>

definition firstError :: "ds_error option \<Rightarrow> ds_error option \<Rightarrow> ds_error option" where
  "firstError a b = (case a of Some e \<Rightarrow> Some e | None \<Rightarrow> b)"

section \<open>Requests and responses\<close>

text \<open>
  What a handler reads from the request: the subject of the bearer token once
  \<open>checkJwt\<close> has verified it (\<open>None\<close>: the token is missing or invalid), whether the
  client accepts JSON, the \<open>Accept\<close> header, the parsed JSON body as a lookup of its
  properties (\<open>JUndefined\<close> for one that is absent) and \<open>req.serverName()\<close>. The route
  parameters are passed to the handlers as strings of code units.
\<close>

record request =
  req_user_sub :: "string option"
  req_accepts_json :: bool
  req_accept_header :: string
  req_body :: "string \<Rightarrow> jsval"
  req_serverName :: string

record carrier_repr =
  crepr_id :: int
  crepr_name :: jsval
  crepr_self :: string

record load_repr =
  lrepr_id :: int
  lrepr_volume :: jsval
  lrepr_carrier :: "carrier_repr option"
  lrepr_content :: jsval
  lrepr_creation_date :: string
  lrepr_self :: string

record boat_repr =
  brepr_id :: int
  brepr_name :: jsval
  brepr_type :: jsval
  brepr_length :: jsval
  brepr_loads :: "load_ref list option"
  brepr_owner :: "string option"
  brepr_self :: string

datatype body = NoBody | ErrorBody string | BoatBody boat_repr | LoadBody load_repr

text \<open>
  A handler either sends a response, or throws: an exception in an \<open>async\<close> handler
  that nothing catches (\<open>Uncaught\<close>), after which the handler sends nothing.
\<close>

datatype outcome = Responded nat body | Uncaught

text \<open>
  \<open>handleClientError\<close> sets the status and the message and the response is sent with the
  body \<open>{Error: message}\<close>, by the function itself or by the application's last
  middleware. \<open>handleServerError\<close> passes the error on; the application's error handler
  sends status 500 with the fixed message.
\<close>

definition handleClientError :: "nat \<Rightarrow> string \<Rightarrow> outcome" where
  "handleClientError statusCode message = Responded statusCode (ErrorBody message)"

definition handleServerError :: outcome where
  "handleServerError = Responded 500 (ErrorBody ''Something went wrong. We will fix it shortly.'')"

definition BAD_REQUEST :: string where
  "BAD_REQUEST = ''The request object is missing at least one of the required attributes''"

definition BOAT_NOT_FOUND :: string where
  "BOAT_NOT_FOUND = ''No boat with this boat_id exists''"

definition BOAT_OR_LOAD_NOT_FOUND :: string where
  "BOAT_OR_LOAD_NOT_FOUND = ''The specified boat and/or load does not exist''"

definition LOAD_ALREADY_ASSIGNED :: string where
  "LOAD_ALREADY_ASSIGNED = ''The load is already assigned''"

definition LOAD_ELSEWHERE :: string where
  "LOAD_ELSEWHERE = ''The load is not on this boat''"

definition LOAD_NOT_FOUND :: string where
  "LOAD_NOT_FOUND = ''No load with this load_id exists''"

definition NOT_REGISTERED :: string where
  "NOT_REGISTERED = ''The associated user is not registered''"

definition NOT_OWNER :: string where
  "NOT_OWNER = ''The associated user does not own the boat with the requested boat_id''"

section \<open>The representation builders\<close>

text \<open>
  \<open>loadRepr(id, load, baseUrl)\<close>. The date is printed by
  \<open>toLocaleDateString('en-US')\<close>, which depends on the host's locale data and time zone:
  the parameter \<open>fmt\<close>. A \<open>creation_date\<close> that is not a \<open>Date\<close> has no such method,
  and the call throws a \<open>TypeError\<close> (\<open>None\<close>).
\<close>

definition loadRepr :: "(int option \<Rightarrow> string) \<Rightarrow> int \<Rightarrow> load \<Rightarrow> string \<Rightarrow> load_repr option" where
  "loadRepr fmt i load baseUrl =
     (let carrier =
            (case load_carrier load of
               Some c \<Rightarrow>
                 Some \<lparr>crepr_id = carrier_id c, crepr_name = carrier_name c,
                       crepr_self = baseUrl @ ''/boats/'' @ numString (carrier_id c)\<rparr>
             | None \<Rightarrow> None)
      in case load_creation_date load of
           JDate d \<Rightarrow>
             Some \<lparr>lrepr_id = i, lrepr_volume = load_volume load, lrepr_carrier = carrier,
                   lrepr_content = load_content load, lrepr_creation_date = fmt d,
                   lrepr_self = baseUrl @ ''/loads/'' @ numString i\<rparr>
         | _ \<Rightarrow> None)"

text \<open>
  \<open>boatRepr(id, boat, baseUrl, singleton)\<close> of the first boats router. For a singleton
  it assigns \<open>load.self\<close> on every entry of \<open>boat.loads\<close> and makes that same array
  the representation's \<open>loads\<close>: the call changes its argument. The model returns the
  representation together with the boat as the call leaves it.
\<close>

definition addSelf :: "string \<Rightarrow> load_ref \<Rightarrow> load_ref" where
  "addSelf baseUrl l = l\<lparr>ref_self := Some (baseUrl @ ''/loads/'' @ numString (ref_id l))\<rparr>"

definition boatRepr :: "int \<Rightarrow> boat \<Rightarrow> string \<Rightarrow> bool \<Rightarrow> boat_repr \<times> boat" where
  "boatRepr i boat baseUrl singleton =
     (let boat' = (if singleton then boat\<lparr>boat_loads := map (addSelf baseUrl) (boat_loads boat)\<rparr>
                   else boat)
      in (\<lparr>brepr_id = i, brepr_name = boat_name boat, brepr_type = boat_type boat,
           brepr_length = boat_length boat,
           brepr_loads = (if singleton then Some (boat_loads boat') else None),
           brepr_owner = None,
           brepr_self = baseUrl @ ''/boats/'' @ numString i\<rparr>, boat'))"

text \<open>The authenticated boats router's \<open>boatRepr\<close> also emits \<open>owner\<close>.\<close>

definition boatRepr_owned :: "int \<Rightarrow> boat \<Rightarrow> string \<Rightarrow> bool \<Rightarrow> boat_repr \<times> boat" where
  "boatRepr_owned i boat baseUrl singleton =
     (let boat' = (if singleton then boat\<lparr>boat_loads := map (addSelf baseUrl) (boat_loads boat)\<rparr>
                   else boat)
      in (\<lparr>brepr_id = i, brepr_name = boat_name boat, brepr_type = boat_type boat,
           brepr_length = boat_length boat,
           brepr_loads = (if singleton then Some (boat_loads boat') else None),
           brepr_owner = boat_owner boat,
           brepr_self = baseUrl @ ''/boats/'' @ numString i\<rparr>, boat'))"

section \<open>The relationship handlers of the first boats router\<close>

text \<open>
  The \<open>catch\<close> of the two lookups: code 3 (a route parameter that is not an integer)
  is answered as not found, any other failure as a server error.
\<close>

definition onLookupError :: "string \<Rightarrow> ds_error \<Rightarrow> outcome" where
  "onLookupError notFound e =
     (if code e = 3 then handleClientError 404 notFound else handleServerError)"

definition afterWrites :: "ds_error option \<Rightarrow> ds_error option \<Rightarrow> outcome" where
  "afterWrites e1 e2 =
     (case firstError e1 e2 of None \<Rightarrow> Responded 204 NoBody | Some e \<Rightarrow> handleServerError)"

text \<open>
  The two statements every handler uses to take a load out of a boat:
  \<open>index = boat.loads.findIndex(load => load.id === loadId); boat.loads.splice(index, 1)\<close>.
\<close>

definition spliceOut :: "int \<Rightarrow> boat \<Rightarrow> boat" where
  "spliceOut lk carrier =
     (let index = findIndex (\<lambda>l. ref_id l = lk) (boat_loads carrier)
      in carrier\<lparr>boat_loads := splice1 index (boat_loads carrier)\<rparr>)"

text \<open>
  \<open>PUT /boats/:boat_id/loads/:load_id\<close>: add a load to a boat. \<open>Promise.all\<close> issues
  both lookups and rejects when one of them does. In the branch where both entities are
  found, \<open>bk\<close> and \<open>lk\<close> are their keys, which are \<open>boatId\<close> and \<open>loadId\<close>: an entity
  is found under the key that was asked for.
\<close>

definition put_boat_load :: "datastore \<Rightarrow> jsstring \<Rightarrow> jsstring \<Rightarrow> outcome \<times> datastore" where
  "put_boat_load s boat_id load_id =
     (let boatId = parseInt boat_id;
          loadId = parseInt load_id;
          (fb, s1) = findEntity_BOATS boatId s;
          (fl, s2) = findEntity_LOADS loadId s1
      in case fb of
           Inl e \<Rightarrow> (onLookupError BOAT_OR_LOAD_NOT_FOUND e, s2)
         | Inr boat \<Rightarrow>
        (case fl of
           Inl e \<Rightarrow> (onLookupError BOAT_OR_LOAD_NOT_FOUND e, s2)
         | Inr load \<Rightarrow>
        (case (boat, load) of
           (Some (bk, boat), Some (lk, load)) \<Rightarrow>
             if load_carrier load \<noteq> None
             then (handleClientError 403 LOAD_ALREADY_ASSIGNED, s2)
             else
               (let load' = load\<lparr>load_carrier :=
                              Some \<lparr>carrier_id = bk, carrier_name = boat_name boat\<rparr>\<rparr>;
                    boat' = boat\<lparr>boat_loads :=
                              boat_loads boat @ [\<lparr>ref_id = lk, ref_self = None\<rparr>]\<rparr>;
                    (e1, s3) = update_LOADS (lk, load') s2;
                    (e2, s4) = update_BOATS (bk, boat') s3
                in (afterWrites e1 e2, s4))
         | _ \<Rightarrow> (handleClientError 404 BOAT_OR_LOAD_NOT_FOUND, s2))))"

text \<open>\<open>DELETE /boats/:boat_id/loads/:load_id\<close>: remove a load from a boat.\<close>

definition delete_boat_load :: "datastore \<Rightarrow> jsstring \<Rightarrow> jsstring \<Rightarrow> outcome \<times> datastore" where
  "delete_boat_load s boat_id load_id =
     (let boatId = parseInt boat_id;
          loadId = parseInt load_id;
          (fb, s1) = findEntity_BOATS boatId s;
          (fl, s2) = findEntity_LOADS loadId s1
      in case fb of
           Inl e \<Rightarrow> (onLookupError BOAT_OR_LOAD_NOT_FOUND e, s2)
         | Inr boat \<Rightarrow>
        (case fl of
           Inl e \<Rightarrow> (onLookupError BOAT_OR_LOAD_NOT_FOUND e, s2)
         | Inr load \<Rightarrow>
        (case (boat, load) of
           (Some (bk, boat), Some (lk, load)) \<Rightarrow>
             if (case load_carrier load of None \<Rightarrow> True | Some c \<Rightarrow> carrier_id c \<noteq> bk)
             then (handleClientError 403 LOAD_ELSEWHERE, s2)
             else
               (let load' = load\<lparr>load_carrier := None\<rparr>;
                    boat' = spliceOut lk boat;
                    (e1, s3) = update_LOADS (lk, load') s2;
                    (e2, s4) = update_BOATS (bk, boat') s3
                in (afterWrites e1 e2, s4))
         | _ \<Rightarrow> (handleClientError 404 BOAT_OR_LOAD_NOT_FOUND, s2))))"

section \<open>Authentication and content negotiation\<close>

text \<open>
  \<open>checkJwt\<close> (the \<open>express-jwt\<close> middleware): a request without a valid bearer token
  is passed to the application's error handler, which answers 401; otherwise the
  handlers read the subject from \<open>req.user.sub\<close>.
\<close>

definition checkJwt :: "request \<Rightarrow> outcome + string" where
  "checkJwt req =
     (case req_user_sub req of
        None \<Rightarrow> Inl (Responded 401 (ErrorBody ''Missing/invalid authorization''))
      | Some sub \<Rightarrow> Inr sub)"

text \<open>
  \<open>checkRegistered\<close>: the subject must be a stored user. The two boats routers differ
  in the message only, which is the first argument; \<open>None\<close> is \<open>next()\<close>.
\<close>

definition checkRegistered :: "string \<Rightarrow> string \<Rightarrow> datastore \<Rightarrow> outcome option \<times> datastore" where
  "checkRegistered message sub s =
     (case findEntity_USERS sub s of
        (Inl err, s1) \<Rightarrow> (Some handleServerError, s1)
      | (Inr user, s1) \<Rightarrow>
          (if \<not> user then Some (handleClientError 403 message) else None, s1))"

definition isAcceptable :: "request \<Rightarrow> outcome option" where
  "isAcceptable req =
     (if \<not> req_accepts_json req
      then Some (handleClientError 406
             (''Unsupported '' @ [CHR 0x27] @ ''Accept'' @ [CHR 0x27] @ '' header: '' @ [CHR 0x27]
              @ req_accept_header req @ [CHR 0x27] @ ''. Must accept '' @ [CHR 0x27]
              @ ''application/json'' @ [CHR 0x27]))
      else None)"

section \<open>Deleting a boat (first boats router)\<close>

text \<open>
  The last step of the handler: \<open>Promise.all([datastore.delete(boat[Datastore.KEY]),
  datastore.update(loads || [])])\<close>, where \<open>loads\<close> is \<open>undefined\<close> (\<open>None\<close>) when
  nothing was fetched; \<open>update\<close> is then called with an empty array, which writes no
  entity.
\<close>

definition deleteBoatAndUpdateLoads ::
  "int \<Rightarrow> (int \<times> load) list option \<Rightarrow> datastore \<Rightarrow> outcome \<times> datastore" where
  "deleteBoatAndUpdateLoads bk loads s =
     (let (e1, s1) = delete_BOATS bk s;
          (e2, s2) = update_all_LOADS (case loads of None \<Rightarrow> [] | Some ls \<Rightarrow> ls) s1
      in (afterWrites e1 e2, s2))"

definition clearCarrier :: "int \<times> load \<Rightarrow> int \<times> load" where
  "clearCarrier e = (fst e, (snd e)\<lparr>load_carrier := None\<rparr>)"

text \<open>What the handler does once the boat is found (and, where ownership is enforced, owned).\<close>

definition nullLoadsAndDelete :: "int \<Rightarrow> boat \<Rightarrow> datastore \<Rightarrow> outcome \<times> datastore" where
  "nullLoadsAndDelete bk boat s =
     (let toNull = map ref_id (boat_loads boat)
      in if length toNull > 0
         then (case get_LOADS toNull s of
                 (Inl e, s1) \<Rightarrow> (handleServerError, s1)
               | (Inr loads, s1) \<Rightarrow> deleteBoatAndUpdateLoads bk (Some (map clearCarrier loads)) s1)
         else deleteBoatAndUpdateLoads bk None s)"

definition delete_boat_handler :: "datastore \<Rightarrow> jsstring \<Rightarrow> outcome \<times> datastore" where
  "delete_boat_handler s boat_id =
     (let (fb, s1) = findEntity_BOATS (parseInt boat_id) s
      in case fb of
           Inl e \<Rightarrow> (onLookupError BOAT_NOT_FOUND e, s1)
         | Inr None \<Rightarrow> (handleClientError 404 BOAT_NOT_FOUND, s1)
         | Inr (Some (bk, boat)) \<Rightarrow> nullLoadsAndDelete bk boat s1)"

text \<open>\<open>DELETE /boats/:boat_id\<close> with its middleware \<open>checkJwt, checkRegistered\<close>.\<close>

definition delete_boat :: "datastore \<Rightarrow> request \<Rightarrow> jsstring \<Rightarrow> outcome \<times> datastore" where
  "delete_boat s req boat_id =
     (case checkJwt req of
        Inl r \<Rightarrow> (r, s)
      | Inr sub \<Rightarrow>
          (case checkRegistered ''The associated user is not registered.'' sub s of
             (Some r, s0) \<Rightarrow> (r, s0)
           | (None, s0) \<Rightarrow> delete_boat_handler s0 boat_id))"

section \<open>Creating a boat (first boats router)\<close>

record boat_props =
  p_name :: jsval
  p_type :: jsval
  p_length :: jsval

definition getBoatProps :: "request \<Rightarrow> boat_props" where
  "getBoatProps req =
     \<lparr>p_name = req_body req ''name'', p_type = req_body req ''type'',
      p_length = req_body req ''length''\<rparr>"

definition isBadRequest_boat :: "boat_props \<Rightarrow> bool" where
  "isBadRequest_boat boatBody =
     (\<not> (truthy (p_name boatBody) \<and> truthy (p_type boatBody) \<and> truthy (p_length boatBody)))"

definition post_boat :: "int \<Rightarrow> datastore \<Rightarrow> request \<Rightarrow> outcome \<times> datastore" where
  "post_boat newId s req =
     (case checkJwt req of
        Inl r \<Rightarrow> (r, s)
      | Inr sub \<Rightarrow>
          (case checkRegistered ''The associated user is not registered.'' sub s of
             (Some r, s0) \<Rightarrow> (r, s0)
           | (None, s0) \<Rightarrow>
               (let props = getBoatProps req
                in if isBadRequest_boat props then (handleClientError 400 BAD_REQUEST, s0)
                   else
                     (let boat = \<lparr>boat_name = p_name props, boat_type = p_type props,
                                  boat_length = p_length props, boat_owner = None,
                                  boat_loads = []\<rparr>;
                          (e, s1) = insert_BOATS newId boat s0
                      in case e of
                           Some err \<Rightarrow> (handleServerError, s1)
                         | None \<Rightarrow>
                             (Responded 201
                                (BoatBody (fst (boatRepr newId boat (req_serverName req) True))),
                              s1)))))"

section \<open>The first loads router\<close>

record load_props =
  p_volume :: jsval
  p_content :: jsval
  p_creation_date :: jsval

text \<open>
  This router's \<open>getLoadProps\<close> already wraps \<open>creation_date\<close> in \<open>new Date(...)\<close>;
  \<open>isBadRequest\<close> is applied to its result.
\<close>

definition getLoadProps :: "(string \<Rightarrow> int option) \<Rightarrow> request \<Rightarrow> load_props" where
  "getLoadProps date_parse req =
     \<lparr>p_volume = req_body req ''volume'', p_content = req_body req ''content'',
      p_creation_date = new_Date date_parse (req_body req ''creation_date'')\<rparr>"

definition isBadRequest_load :: "load_props \<Rightarrow> bool" where
  "isBadRequest_load loadBody =
     (\<not> (truthy (p_volume loadBody) \<and> truthy (p_content loadBody)
          \<and> truthy (p_creation_date loadBody)))"

text \<open>\<open>POST /loads\<close>.\<close>

definition post_load ::
  "(string \<Rightarrow> int option) \<Rightarrow> (int option \<Rightarrow> string) \<Rightarrow> int \<Rightarrow> datastore \<Rightarrow> request
     \<Rightarrow> outcome \<times> datastore" where
  "post_load date_parse fmt newId s req =
     (let props = getLoadProps date_parse req
      in if isBadRequest_load props then (handleClientError 400 BAD_REQUEST, s)
         else
           (let load = \<lparr>load_volume = p_volume props, load_content = p_content props,
                        load_creation_date = p_creation_date props, load_carrier = None\<rparr>;
                (e, s1) = insert_LOADS newId load s
            in case e of
                 Some err \<Rightarrow> (handleServerError, s1)
               | None \<Rightarrow>
                   (case loadRepr fmt newId load (req_serverName req) of
                      None \<Rightarrow> (Uncaught, s1)
                    | Some r \<Rightarrow> (Responded 201 (LoadBody r), s1))))"

text \<open>
  \<open>DELETE /loads/:load_id\<close>. With a carrier, the boat is fetched and its entry spliced
  out; a carrier that is not stored makes \<open>carrier.loads\<close> throw. Without a carrier the
  handler still calls \<open>datastore.update(carrier || {})\<close>, after \<open>datastore.delete\<close>
  was issued: the client rejects an object that has no key, so \<open>Promise.all\<close> rejects
  and the \<open>catch\<close> answers with the server error, although the load is removed.
\<close>

definition delete_load :: "datastore \<Rightarrow> jsstring \<Rightarrow> outcome \<times> datastore" where
  "delete_load s load_id =
     (let (fl, s1) = findEntity_LOADS (parseInt load_id) s
      in case fl of
           Inl e \<Rightarrow> (onLookupError LOAD_NOT_FOUND e, s1)
         | Inr None \<Rightarrow> (handleClientError 404 LOAD_NOT_FOUND, s1)
         | Inr (Some (lk, load)) \<Rightarrow>
             (case load_carrier load of
                Some c \<Rightarrow>
                  (case findEntity_BOATS (Some (carrier_id c)) s1 of
                     (Inl e, s2) \<Rightarrow> (handleServerError, s2)
                   | (Inr None, s2) \<Rightarrow> (Uncaught, s2)
                   | (Inr (Some (bk, carrier)), s2) \<Rightarrow>
                       (let (e1, s3) = delete_LOADS lk s2;
                            (e2, s4) = update_BOATS (bk, spliceOut lk carrier) s3
                        in (afterWrites e1 e2, s4)))
              | None \<Rightarrow>
                  (let (e1, s2) = delete_LOADS lk s1
                   in (handleServerError, s2))))"

section \<open>The authenticated boats router\<close>

text \<open>
  Every route of this router runs \<open>checkJwt\<close>, \<open>checkRegistered\<close> and \<open>isAcceptable\<close>
  first (\<open>router.use\<close>, in this order). \<open>Inr sub\<close>: all three called \<open>next()\<close>.
\<close>

definition boats_router_use :: "request \<Rightarrow> datastore \<Rightarrow> (outcome + string) \<times> datastore" where
  "boats_router_use req s =
     (case checkJwt req of
        Inl r \<Rightarrow> (Inl r, s)
      | Inr sub \<Rightarrow>
          (case checkRegistered NOT_REGISTERED sub s of
             (Some r, s0) \<Rightarrow> (Inl r, s0)
           | (None, s0) \<Rightarrow>
               (case isAcceptable req of
                  Some r \<Rightarrow> (Inl r, s0)
                | None \<Rightarrow> (Inr sub, s0))))"

text \<open>\<open>PUT /boats/:boat_id/loads/:load_id\<close>: the owner check comes before the carrier check.\<close>

definition put_boat_load_owned ::
  "datastore \<Rightarrow> request \<Rightarrow> jsstring \<Rightarrow> jsstring \<Rightarrow> outcome \<times> datastore" where
  "put_boat_load_owned s req boat_id load_id =
     (case boats_router_use req s of
        (Inl r, s0) \<Rightarrow> (r, s0)
      | (Inr sub, s0) \<Rightarrow>
     (let boatId = parseInt boat_id;
          loadId = parseInt load_id;
          (fb, s1) = findEntity_BOATS boatId s0;
          (fl, s2) = findEntity_LOADS loadId s1
      in case fb of
           Inl e \<Rightarrow> (onLookupError BOAT_OR_LOAD_NOT_FOUND e, s2)
         | Inr boat \<Rightarrow>
        (case fl of
           Inl e \<Rightarrow> (onLookupError BOAT_OR_LOAD_NOT_FOUND e, s2)
         | Inr load \<Rightarrow>
        (case (boat, load) of
           (Some (bk, boat), Some (lk, load)) \<Rightarrow>
             if boat_owner boat \<noteq> Some sub
             then (handleClientError 403 NOT_OWNER, s2)
             else if load_carrier load \<noteq> None
             then (handleClientError 403 LOAD_ALREADY_ASSIGNED, s2)
             else
               (let load' = load\<lparr>load_carrier :=
                              Some \<lparr>carrier_id = bk, carrier_name = JUndefined\<rparr>\<rparr>;
                    boat' = boat\<lparr>boat_loads :=
                              boat_loads boat @ [\<lparr>ref_id = lk, ref_self = None\<rparr>]\<rparr>;
                    (e1, s3) = update_LOADS (lk, load') s2;
                    (e2, s4) = update_BOATS (bk, boat') s3
                in (afterWrites e1 e2, s4))
         | _ \<Rightarrow> (handleClientError 404 BOAT_OR_LOAD_NOT_FOUND, s2)))))"

text \<open>\<open>DELETE /boats/:boat_id/loads/:load_id\<close>.\<close>

definition delete_boat_load_owned ::
  "datastore \<Rightarrow> request \<Rightarrow> jsstring \<Rightarrow> jsstring \<Rightarrow> outcome \<times> datastore" where
  "delete_boat_load_owned s req boat_id load_id =
     (case boats_router_use req s of
        (Inl r, s0) \<Rightarrow> (r, s0)
      | (Inr sub, s0) \<Rightarrow>
     (let boatId = parseInt boat_id;
          loadId = parseInt load_id;
          (fb, s1) = findEntity_BOATS boatId s0;
          (fl, s2) = findEntity_LOADS loadId s1
      in case fb of
           Inl e \<Rightarrow> (onLookupError BOAT_OR_LOAD_NOT_FOUND e, s2)
         | Inr boat \<Rightarrow>
        (case fl of
           Inl e \<Rightarrow> (onLookupError BOAT_OR_LOAD_NOT_FOUND e, s2)
         | Inr load \<Rightarrow>
        (case (boat, load) of
           (Some (bk, boat), Some (lk, load)) \<Rightarrow>
             if boat_owner boat \<noteq> Some sub
             then (handleClientError 403 NOT_OWNER, s2)
             else if (case load_carrier load of None \<Rightarrow> True | Some c \<Rightarrow> carrier_id c \<noteq> bk)
             then (handleClientError 403 LOAD_ELSEWHERE, s2)
             else
               (let load' = load\<lparr>load_carrier := None\<rparr>;
                    boat' = spliceOut lk boat;
                    (e1, s3) = update_LOADS (lk, load') s2;
                    (e2, s4) = update_BOATS (bk, boat') s3
                in (afterWrites e1 e2, s4))
         | _ \<Rightarrow> (handleClientError 404 BOAT_OR_LOAD_NOT_FOUND, s2)))))"

text \<open>\<open>DELETE /boats/:boat_id\<close>.\<close>

definition delete_boat_owned :: "datastore \<Rightarrow> request \<Rightarrow> jsstring \<Rightarrow> outcome \<times> datastore" where
  "delete_boat_owned s req boat_id =
     (case boats_router_use req s of
        (Inl r, s0) \<Rightarrow> (r, s0)
      | (Inr sub, s0) \<Rightarrow>
     (let (fb, s1) = findEntity_BOATS (parseInt boat_id) s0
      in case fb of
           Inl e \<Rightarrow> (onLookupError BOAT_NOT_FOUND e, s1)
         | Inr None \<Rightarrow> (handleClientError 404 BOAT_NOT_FOUND, s1)
         | Inr (Some (bk, boat)) \<Rightarrow>
             if boat_owner boat \<noteq> Some sub then (handleClientError 403 NOT_OWNER, s1)
             else nullLoadsAndDelete bk boat s1))"

text \<open>
  \<open>PUT /boats/:boat_id\<close> and \<open>PATCH /boats/:boat_id\<close>. The stored document becomes
  \<open>{owner: stored.owner, loads: stored.loads, ...boat}\<close>, where \<open>boat\<close> has the three
  properties \<open>name\<close>, \<open>type\<close> and \<open>length\<close> only. The \<open>catch\<close> around the update
  names a variable that is not in scope, so a rejected update ends in an exception.
\<close>

definition replaceBoat :: "boat \<Rightarrow> boat_props \<Rightarrow> boat" where
  "replaceBoat stored props =
     \<lparr>boat_name = p_name props, boat_type = p_type props, boat_length = p_length props,
      boat_owner = boat_owner stored, boat_loads = boat_loads stored\<rparr>"

definition orStored :: "jsval \<Rightarrow> jsval \<Rightarrow> jsval" where
  "orStored given stored = (if given = JUndefined then stored else given)"

definition missingBoatProps :: "boat \<Rightarrow> boat_props \<Rightarrow> boat_props" where
  "missingBoatProps stored props =
     \<lparr>p_name = orStored (p_name props) (boat_name stored),
      p_type = orStored (p_type props) (boat_type stored),
      p_length = orStored (p_length props) (boat_length stored)\<rparr>"

definition updateBoatAndReply ::
  "int \<Rightarrow> boat \<Rightarrow> request \<Rightarrow> datastore \<Rightarrow> outcome \<times> datastore" where
  "updateBoatAndReply k updated req s =
     (let (e, s1) = update_BOATS (k, updated) s
      in case e of
           Some err \<Rightarrow> (Uncaught, s1)
         | None \<Rightarrow>
             (Responded 200 (BoatBody (fst (boatRepr_owned k updated (req_serverName req) True))),
              s1))"

definition put_boat :: "datastore \<Rightarrow> request \<Rightarrow> jsstring \<Rightarrow> outcome \<times> datastore" where
  "put_boat s req boat_id =
     (case boats_router_use req s of
        (Inl r, s0) \<Rightarrow> (r, s0)
      | (Inr sub, s0) \<Rightarrow>
     (let props = getBoatProps req
      in if isBadRequest_boat props then (handleClientError 400 BAD_REQUEST, s0)
         else
           (let (fb, s1) = findEntity_BOATS (parseInt boat_id) s0
            in case fb of
                 Inl e \<Rightarrow> (onLookupError BOAT_NOT_FOUND e, s1)
               | Inr None \<Rightarrow> (handleClientError 404 BOAT_NOT_FOUND, s1)
               | Inr (Some (k, stored)) \<Rightarrow>
                   if boat_owner stored \<noteq> Some sub then (handleClientError 403 NOT_OWNER, s1)
                   else updateBoatAndReply k (replaceBoat stored props) req s1)))"

definition patch_boat :: "datastore \<Rightarrow> request \<Rightarrow> jsstring \<Rightarrow> outcome \<times> datastore" where
  "patch_boat s req boat_id =
     (case boats_router_use req s of
        (Inl r, s0) \<Rightarrow> (r, s0)
      | (Inr sub, s0) \<Rightarrow>
     (let props = getBoatProps req;
          (fb, s1) = findEntity_BOATS (parseInt boat_id) s0
      in case fb of
           Inl e \<Rightarrow> (onLookupError BOAT_NOT_FOUND e, s1)
         | Inr None \<Rightarrow> (handleClientError 404 BOAT_NOT_FOUND, s1)
         | Inr (Some (k, stored)) \<Rightarrow>
             if boat_owner stored \<noteq> Some sub then (handleClientError 403 NOT_OWNER, s1)
             else updateBoatAndReply k (replaceBoat stored (missingBoatProps stored props)) req s1))"

section \<open>The loads router that checks the Accept header\<close>

text \<open>
  This router's \<open>getLoadProps\<close> copies the three properties as they are; the handlers
  wrap \<open>creation_date\<close> in \<open>new Date(...)\<close> after validation (\<open>PATCH\<close> does not).
\<close>

definition getLoadProps_raw :: "request \<Rightarrow> load_props" where
  "getLoadProps_raw req =
     \<lparr>p_volume = req_body req ''volume'', p_content = req_body req ''content'',
      p_creation_date = req_body req ''creation_date''\<rparr>"

definition replaceLoad :: "load \<Rightarrow> load_props \<Rightarrow> load" where
  "replaceLoad stored props =
     \<lparr>load_volume = p_volume props, load_content = p_content props,
      load_creation_date = p_creation_date props, load_carrier = load_carrier stored\<rparr>"

definition missingLoadProps :: "load \<Rightarrow> load_props \<Rightarrow> load_props" where
  "missingLoadProps stored props =
     \<lparr>p_volume = orStored (p_volume props) (load_volume stored),
      p_content = orStored (p_content props) (load_content stored),
      p_creation_date = orStored (p_creation_date props) (load_creation_date stored)\<rparr>"

definition updateLoadAndReply ::
  "(int option \<Rightarrow> string) \<Rightarrow> int \<Rightarrow> load \<Rightarrow> request \<Rightarrow> datastore \<Rightarrow> outcome \<times> datastore" where
  "updateLoadAndReply fmt k updated req s =
     (let (e, s1) = update_LOADS (k, updated) s
      in case e of
           Some err \<Rightarrow> (Uncaught, s1)
         | None \<Rightarrow>
             (case loadRepr fmt k updated (req_serverName req) of
                None \<Rightarrow> (Uncaught, s1)
              | Some r \<Rightarrow> (Responded 200 (LoadBody r), s1)))"

definition put_load ::
  "(string \<Rightarrow> int option) \<Rightarrow> (int option \<Rightarrow> string) \<Rightarrow> datastore \<Rightarrow> request \<Rightarrow> jsstring
     \<Rightarrow> outcome \<times> datastore" where
  "put_load date_parse fmt s req load_id =
     (case isAcceptable req of
        Some r \<Rightarrow> (r, s)
      | None \<Rightarrow>
     (let props = getLoadProps_raw req
      in if isBadRequest_load props then (handleClientError 400 BAD_REQUEST, s)
         else
           (let (fl, s1) = findEntity_LOADS (parseInt load_id) s
            in case fl of
                 Inl e \<Rightarrow> (onLookupError LOAD_NOT_FOUND e, s1)
               | Inr None \<Rightarrow> (handleClientError 404 LOAD_NOT_FOUND, s1)
               | Inr (Some (k, stored)) \<Rightarrow>
                   updateLoadAndReply fmt k
                     (replaceLoad stored
                        (props\<lparr>p_creation_date := new_Date date_parse (p_creation_date props)\<rparr>))
                     req s1)))"

definition patch_load ::
  "(int option \<Rightarrow> string) \<Rightarrow> datastore \<Rightarrow> request \<Rightarrow> jsstring \<Rightarrow> outcome \<times> datastore" where
  "patch_load fmt s req load_id =
     (case isAcceptable req of
        Some r \<Rightarrow> (r, s)
      | None \<Rightarrow>
     (let props = getLoadProps_raw req;
          (fl, s1) = findEntity_LOADS (parseInt load_id) s
      in case fl of
           Inl e \<Rightarrow> (onLookupError LOAD_NOT_FOUND e, s1)
         | Inr None \<Rightarrow> (handleClientError 404 LOAD_NOT_FOUND, s1)
         | Inr (Some (k, stored)) \<Rightarrow>
             updateLoadAndReply fmt k (replaceLoad stored (missingLoadProps stored props)) req s1))"

text \<open>\<open>POST /loads\<close>: validation comes before \<open>new Date(...)\<close>.\<close>

definition post_load_acc ::
  "(string \<Rightarrow> int option) \<Rightarrow> (int option \<Rightarrow> string) \<Rightarrow> int \<Rightarrow> datastore \<Rightarrow> request
     \<Rightarrow> outcome \<times> datastore" where
  "post_load_acc date_parse fmt newId s req =
     (case isAcceptable req of
        Some r \<Rightarrow> (r, s)
      | None \<Rightarrow>
     (let props = getLoadProps_raw req
      in if isBadRequest_load props then (handleClientError 400 BAD_REQUEST, s)
         else
           (let load = \<lparr>load_volume = p_volume props, load_content = p_content props,
                        load_creation_date = new_Date date_parse (p_creation_date props),
                        load_carrier = None\<rparr>;
                (e, s1) = insert_LOADS newId load s
            in case e of
                 Some err \<Rightarrow> (handleServerError, s1)
               | None \<Rightarrow>
                   (case loadRepr fmt newId load (req_serverName req) of
                      None \<Rightarrow> (Uncaught, s1)
                    | Some r \<Rightarrow> (Responded 201 (LoadBody r), s1)))))"

text \<open>
  \<open>DELETE /loads/:load_id\<close>: as in the first loads router, but without a carrier the
  second action is \<open>Promise.resolve\<close>, no datastore call.
\<close>

definition delete_load_acc :: "datastore \<Rightarrow> request \<Rightarrow> jsstring \<Rightarrow> outcome \<times> datastore" where
  "delete_load_acc s req load_id =
     (case isAcceptable req of
        Some r \<Rightarrow> (r, s)
      | None \<Rightarrow>
     (let (fl, s1) = findEntity_LOADS (parseInt load_id) s
      in case fl of
           Inl e \<Rightarrow> (onLookupError LOAD_NOT_FOUND e, s1)
         | Inr None \<Rightarrow> (handleClientError 404 LOAD_NOT_FOUND, s1)
         | Inr (Some (lk, load)) \<Rightarrow>
             (case load_carrier load of
                Some c \<Rightarrow>
                  (case findEntity_BOATS (Some (carrier_id c)) s1 of
                     (Inl e, s2) \<Rightarrow> (handleServerError, s2)
                   | (Inr None, s2) \<Rightarrow> (Uncaught, s2)
                   | (Inr (Some (bk, carrier)), s2) \<Rightarrow>
                       (let (e1, s3) = delete_LOADS lk s2;
                            (e2, s4) = update_BOATS (bk, spliceOut lk carrier) s3
                        in (afterWrites e1 e2, s4)))
              | None \<Rightarrow>
                  (let (e1, s2) = delete_LOADS lk s1
                   in (afterWrites e1 None, s2)))))"

section \<open>Predicates the properties are stated with\<close>

text \<open>The calls a handler made, between the datastore it got and the one it left.\<close>

definition issued :: "datastore \<Rightarrow> datastore \<Rightarrow> (verb \<times> kind) list" where
  "issued s s' = drop (length (accesses s)) (accesses s')"

text \<open>No table changed, and every call made was the lookup of one entity.\<close>

definition noWrites :: "datastore \<Rightarrow> datastore \<Rightarrow> bool" where
  "noWrites s s' =
     (Boats s' = Boats s \<and> Loads s' = Loads s \<and> Users s' = Users s \<and>
      list_all (\<lambda>a. fst a = Fetch) (issued s s'))"

text \<open>
  The bidirectional consistency of boats and loads, as the data model words it: a load
  whose carrier is a stored boat is listed by that boat, and every entry of a stored
  boat's \<open>loads\<close> names a stored load whose carrier is that boat.
\<close>

definition carriedListed :: "datastore \<Rightarrow> bool" where
  "carriedListed s =
     (\<forall>lid l c b. Loads s lid = Some l \<and> load_carrier l = Some c \<and> Boats s (carrier_id c) = Some b
        \<longrightarrow> lid \<in> ref_id ` set (boat_loads b))"

definition listedCarried :: "datastore \<Rightarrow> bool" where
  "listedCarried s =
     (\<forall>bid b e. Boats s bid = Some b \<and> e \<in> set (boat_loads b)
        \<longrightarrow> (\<exists>l c. Loads s (ref_id e) = Some l \<and> load_carrier l = Some c \<and> carrier_id c = bid))"

definition bidirectional :: "datastore \<Rightarrow> bool" where
  "bidirectional s = (carriedListed s \<and> listedCarried s)"

text \<open>No boat lists the same load twice.\<close>

definition noRepeats :: "datastore \<Rightarrow> bool" where
  "noRepeats s = (\<forall>bid b. Boats s bid = Some b \<longrightarrow> distinct (map ref_id (boat_loads b)))"

text \<open>
  The four operations that change the relationship, as the first routers serve them and
  as the authenticated boats router and the second loads router serve them.
\<close>

datatype relationship_op =
    Assign jsstring jsstring
  | Unassign jsstring jsstring
  | DeleteBoat request jsstring
  | DeleteLoad jsstring
  | AssignOwned request jsstring jsstring
  | UnassignOwned request jsstring jsstring
  | DeleteBoatOwned request jsstring
  | DeleteLoadAcc request jsstring

fun perform :: "datastore \<Rightarrow> relationship_op \<Rightarrow> outcome \<times> datastore" where
  "perform s (Assign boat_id load_id) = put_boat_load s boat_id load_id"
| "perform s (Unassign boat_id load_id) = delete_boat_load s boat_id load_id"
| "perform s (DeleteBoat req boat_id) = delete_boat s req boat_id"
| "perform s (DeleteLoad load_id) = delete_load s load_id"
| "perform s (AssignOwned req boat_id load_id) = put_boat_load_owned s req boat_id load_id"
| "perform s (UnassignOwned req boat_id load_id) = delete_boat_load_owned s req boat_id load_id"
| "perform s (DeleteBoatOwned req boat_id) = delete_boat_owned s req boat_id"
| "perform s (DeleteLoadAcc req load_id) = delete_load_acc s req load_id"

section \<open>Example datastores\<close>

definition emptyStore :: datastore where
  "emptyStore = \<lparr>Boats = Map.empty, Loads = Map.empty, Users = {}, accesses = []\<rparr>"

definition sloop :: boat where
  "sloop = \<lparr>boat_name = JStr ''Orca'', boat_type = JStr ''sail'', boat_length = JNum 12,
            boat_owner = Some ''alice'', boat_loads = []\<rparr>"

definition crate :: load where
  "crate = \<lparr>load_volume = JNum 5, load_content = JStr ''LEGO'',
            load_creation_date = JDate (Some 0), load_carrier = None\<rparr>"

text \<open>Boat 1 and load 7, not assigned.\<close>

definition moored :: datastore where
  "moored = \<lparr>Boats = [1 \<mapsto> sloop], Loads = [7 \<mapsto> crate], Users = {''alice'', ''bob''},
             accesses = []\<rparr>"

text \<open>Boat 1 carries load 7.\<close>

definition laden :: datastore where
  "laden =
     \<lparr>Boats = [1 \<mapsto> sloop\<lparr>boat_loads := [\<lparr>ref_id = 7, ref_self = None\<rparr>]\<rparr>],
      Loads = [7 \<mapsto> crate\<lparr>load_carrier := Some \<lparr>carrier_id = 1, carrier_name = JStr ''Orca''\<rparr>\<rparr>],
      Users = {''alice'', ''bob''}, accesses = []\<rparr>"

text \<open>Boat 1 lists load 7 twice.\<close>

definition doubled :: datastore where
  "doubled =
     \<lparr>Boats = [1 \<mapsto> sloop\<lparr>boat_loads := [\<lparr>ref_id = 7, ref_self = None\<rparr>,
                                           \<lparr>ref_id = 7, ref_self = None\<rparr>]\<rparr>],
      Loads = [7 \<mapsto> crate\<lparr>load_carrier := Some \<lparr>carrier_id = 1, carrier_name = JStr ''Orca''\<rparr>\<rparr>],
      Users = {''alice'', ''bob''}, accesses = []\<rparr>"

text \<open>Load 7 names boat 1, but boat 1 lists load 8 only.\<close>

definition astray :: datastore where
  "astray =
     \<lparr>Boats = [1 \<mapsto> sloop\<lparr>boat_loads := [\<lparr>ref_id = 8, ref_self = None\<rparr>]\<rparr>],
      Loads = [7 \<mapsto> crate\<lparr>load_carrier := Some \<lparr>carrier_id = 1, carrier_name = JStr ''Orca''\<rparr>\<rparr>,
               8 \<mapsto> crate\<lparr>load_carrier := Some \<lparr>carrier_id = 1, carrier_name = JStr ''Orca''\<rparr>\<rparr>],
      Users = {''alice'', ''bob''}, accesses = []\<rparr>"

section \<open>Example requests\<close>

text \<open>Alice owns the example boat; Bob is registered too.\<close>

definition aliceAsks :: request where
  "aliceAsks = \<lparr>req_user_sub = Some ''alice'', req_accepts_json = True,
                req_accept_header = ''application/json'', req_body = (\<lambda>p. JUndefined),
                req_serverName = ''http://localhost:8080''\<rparr>"

definition bobAsks :: request where
  "bobAsks = \<lparr>req_user_sub = Some ''bob'', req_accepts_json = True,
              req_accept_header = ''application/json'', req_body = (\<lambda>p. JUndefined),
              req_serverName = ''http://localhost:8080''\<rparr>"

text \<open>Requests that replace or patch the example boat and load.\<close>

definition renameAll :: request where
  "renameAll = aliceAsks\<lparr>req_body :=
     (\<lambda>p. if p = ''name'' then JStr ''Nessie'' else if p = ''type'' then JStr ''ketch''
          else if p = ''length'' then JNum 9 else JUndefined)\<rparr>"

definition renameOnly :: request where
  "renameOnly = aliceAsks\<lparr>req_body := (\<lambda>p. if p = ''name'' then JStr ''Nessie'' else JUndefined)\<rparr>"

definition refill :: request where
  "refill = \<lparr>req_user_sub = None, req_accepts_json = True,
             req_accept_header = ''application/json'',
             req_body = (\<lambda>p. if p = ''volume'' then JNum 9 else if p = ''content'' then JStr ''bricks''
                            else if p = ''creation_date'' then JStr ''10/18/2021'' else JUndefined),
             req_serverName = ''http://localhost:8080''\<rparr>"

definition refillVolume :: request where
  "refillVolume = refill\<lparr>req_body := (\<lambda>p. if p = ''volume'' then JNum 9 else JUndefined)\<rparr>"

text \<open>A new load whose \<open>creation_date\<close> is the number 0.\<close>

definition epochLoad :: request where
  "epochLoad = refill\<lparr>req_body :=
     (\<lambda>p. if p = ''volume'' then JNum 5 else if p = ''content'' then JStr ''LEGO''
          else if p = ''creation_date'' then JNum 0 else JUndefined)\<rparr>"

text \<open>The loads table after the carrier of every load an array of references names was set to \<open>null\<close>.\<close>

definition cleared :: "load_ref list \<Rightarrow> (int \<rightharpoonup> load) \<Rightarrow> (int \<rightharpoonup> load)" where
  "cleared refs m =
     (\<lambda>k. if k \<in> ref_id ` set refs then map_option (\<lambda>l. l\<lparr>load_carrier := None\<rparr>) (m k) else m k)"

section \<open>Arrays: \<open>findIndex\<close> followed by \<open>splice\<close>\<close>

lemma findIndex_none: "(\<forall>x \<in> set xs. \<not> p x) \<Longrightarrow> findIndex p xs = - 1"
  by (induction xs) (auto simp: Let_def)

lemma findIndex_first:
  "p e \<Longrightarrow> \<forall>y \<in> set ys. \<not> p y \<Longrightarrow> findIndex p (ys @ e # zs) = int (length ys)"
  by (induction ys) (auto simp: Let_def)

lemma splice1_nat: "0 \<le> i \<Longrightarrow> splice1 i xs = take (nat i) xs @ drop (Suc (nat i)) xs"
  by (auto simp: splice1_def Let_def min_def)

lemma splice1_minus1: "splice1 (- 1) xs = butlast xs"
  by (cases xs rule: rev_cases) (auto simp: splice1_def Let_def max_def)

lemma splice_first:
  "p e \<Longrightarrow> \<forall>y \<in> set ys. \<not> p y \<Longrightarrow>
   splice1 (findIndex p (ys @ e # zs)) (ys @ e # zs) = ys @ zs"
  by (simp add: findIndex_first splice1_nat)

lemma splice_missing:
  "\<forall>x \<in> set xs. \<not> p x \<Longrightarrow> splice1 (findIndex p xs) xs = butlast xs"
  by (simp add: findIndex_none splice1_minus1)

lemma splice_found_split:
  assumes "\<exists>x \<in> set xs. p x"
  shows "\<exists>ys e zs. xs = ys @ e # zs \<and> p e \<and> (\<forall>y \<in> set ys. \<not> p y) \<and>
           splice1 (findIndex p xs) xs = ys @ zs"
proof -
  from assms obtain ys e zs where split: "xs = ys @ e # zs" "p e" "\<forall>y \<in> set ys. \<not> p y"
    using split_list_first_prop[of xs p] by blast
  then show ?thesis using splice_first[of p e ys zs] by blast
qed

lemma map_splice_found:
  assumes "k \<in> f ` set xs"
  shows "map f (splice1 (findIndex (\<lambda>x. f x = k) xs) xs) = remove1 k (map f xs)"
proof -
  from assms have "\<exists>x \<in> set xs. f x = k" by auto
  from splice_found_split[OF this] obtain ys e zs where
    s: "xs = ys @ e # zs" "f e = k" "\<forall>y \<in> set ys. f y \<noteq> k"
       "splice1 (findIndex (\<lambda>x. f x = k) xs) xs = ys @ zs" by blast
  then have "k \<notin> set (map f ys)" by auto
  with s show ?thesis by (simp add: remove1_append)
qed

section \<open>Assigning a load keeps the boats and the loads consistent\<close>

lemma unlisted_when_free:
  assumes "listedCarried s" "Loads s lk = Some l" "load_carrier l = None" "Boats s bid = Some b"
  shows "lk \<notin> ref_id ` set (boat_loads b)"
  using assms unfolding listedCarried_def by fastforce

lemma assign_keeps:
  assumes "bidirectional s" "noRepeats s"
    and "Boats s bk = Some b" "Loads s lk = Some l" "load_carrier l = None"
    and B: "Boats s' = (Boats s)(bk \<mapsto> b\<lparr>boat_loads := boat_loads b @ [e]\<rparr>)" and "ref_id e = lk"
    and L: "Loads s' = (Loads s)(lk \<mapsto> l\<lparr>load_carrier := Some c\<rparr>)" and "carrier_id c = bk"
  shows "bidirectional s' \<and> noRepeats s'"
proof -
  from assms have cl: "carriedListed s" and lc: "listedCarried s" by (auto simp: bidirectional_def)
  have fresh: "lk \<notin> ref_id ` set (boat_loads b)"
    using unlisted_when_free[OF lc assms(4,5,3)] .
  have "carriedListed s'"
    unfolding carriedListed_def
  proof (intro allI impI)
    fix lid l' c' b'
    assume h: "Loads s' lid = Some l' \<and> load_carrier l' = Some c' \<and> Boats s' (carrier_id c') = Some b'"
    show "lid \<in> ref_id ` set (boat_loads b')"
    proof (cases "lid = lk")
      case True
      with h L have "l' = l\<lparr>load_carrier := Some c\<rparr>" by simp
      with h have "c' = c" by simp
      with h B assms(9) have "b' = b\<lparr>boat_loads := boat_loads b @ [e]\<rparr>" by simp
      with True assms(7) show ?thesis by simp
    next
      case False
      with h L have old: "Loads s lid = Some l'" by simp
      show ?thesis
      proof (cases "carrier_id c' = bk")
        case True
        with h B have b': "b' = b\<lparr>boat_loads := boat_loads b @ [e]\<rparr>" by simp
        from cl old h True assms(3) have "lid \<in> ref_id ` set (boat_loads b)"
          unfolding carriedListed_def by blast
        with b' show ?thesis by auto
      next
        case False
        with h B have "Boats s (carrier_id c') = Some b'" by simp
        with cl old h show ?thesis unfolding carriedListed_def by blast
      qed
    qed
  qed
  moreover have "listedCarried s'"
    unfolding listedCarried_def
  proof (intro allI impI)
    fix bid b' e'
    assume h: "Boats s' bid = Some b' \<and> e' \<in> set (boat_loads b')"
    show "\<exists>l c. Loads s' (ref_id e') = Some l \<and> load_carrier l = Some c \<and> carrier_id c = bid"
    proof (cases "ref_id e' = lk")
      case True
      have "bid = bk"
      proof (rule ccontr)
        assume "bid \<noteq> bk"
        with h B have "Boats s bid = Some b'" by simp
        from unlisted_when_free[OF lc assms(4,5) this] h True show False by auto
      qed
      with True L assms(9) show ?thesis by simp
    next
      case False
      have "\<exists>b0. Boats s bid = Some b0 \<and> e' \<in> set (boat_loads b0)"
      proof (cases "bid = bk")
        case True
        with h B have "b' = b\<lparr>boat_loads := boat_loads b @ [e]\<rparr>" by simp
        with h False assms(7) have "e' \<in> set (boat_loads b)" by auto
        with True assms(3) show ?thesis by simp
      next
        case False
        with h B show ?thesis by simp
      qed
      with lc obtain l0 c0 where "Loads s (ref_id e') = Some l0" "load_carrier l0 = Some c0" "carrier_id c0 = bid"
        unfolding listedCarried_def by blast
      with False L show ?thesis by simp
    qed
  qed
  moreover have "noRepeats s'"
    unfolding noRepeats_def
  proof (intro allI impI)
    fix bid b' assume h: "Boats s' bid = Some b'"
    show "distinct (map ref_id (boat_loads b'))"
    proof (cases "bid = bk")
      case True
      with h B have "b' = b\<lparr>boat_loads := boat_loads b @ [e]\<rparr>" by simp
      moreover from assms(2,3) have "distinct (map ref_id (boat_loads b))" unfolding noRepeats_def by blast
      ultimately show ?thesis using fresh assms(7) by auto
    next
      case False
      with h B have "Boats s bid = Some b'" by simp
      with assms(2) show ?thesis unfolding noRepeats_def by blast
    qed
  qed
  ultimately show ?thesis by (simp add: bidirectional_def)
qed

lemma put_boat_load_204:
  assumes "put_boat_load s boat_id load_id = (Responded 204 NoBody, s')"
  shows "\<exists>bk lk b l. parseInt boat_id = Some bk \<and> parseInt load_id = Some lk \<and>
           Boats s bk = Some b \<and> Loads s lk = Some l \<and> load_carrier l = None \<and>
           Boats s' = (Boats s)(bk \<mapsto> b\<lparr>boat_loads := boat_loads b @ [\<lparr>ref_id = lk, ref_self = None\<rparr>]\<rparr>) \<and>
           Loads s' = (Loads s)(lk \<mapsto> l\<lparr>load_carrier := Some \<lparr>carrier_id = bk, carrier_name = boat_name b\<rparr>\<rparr>) \<and>
           Users s' = Users s"
  using assms
  by (auto simp: put_boat_load_def findEntity_BOATS_def findEntity_LOADS_def onLookupError_def
        handleClientError_def handleServerError_def afterWrites_def firstError_def
        update_LOADS_def update_BOATS_def touch_def Let_def
      split: option.splits sum.splits prod.splits if_splits)

lemma put_boat_load_ok:
  assumes "parseInt boat_id = Some bk" "parseInt load_id = Some lk"
          "Boats s bk = Some b" "Loads s lk = Some l" "load_carrier l = None"
  shows "put_boat_load s boat_id load_id =
          (Responded 204 NoBody,
           s\<lparr>Boats := (Boats s)(bk \<mapsto> b\<lparr>boat_loads := boat_loads b @ [\<lparr>ref_id = lk, ref_self = None\<rparr>]\<rparr>),
             Loads := (Loads s)(lk \<mapsto> l\<lparr>load_carrier := Some \<lparr>carrier_id = bk, carrier_name = boat_name b\<rparr>\<rparr>),
             accesses := accesses s @ [(Fetch, BOATS), (Fetch, LOADS), (Write, LOADS), (Write, BOATS)]\<rparr>)"
  using assms
  by (simp add: put_boat_load_def findEntity_BOATS_def findEntity_LOADS_def
        afterWrites_def firstError_def
        update_LOADS_def update_BOATS_def touch_def Let_def)

section \<open>Route parameters that are not integers\<close>

text \<open>
  What \<open>parseInt\<close> reads: \<open>"1"\<close> after a no-break space; \<open>"+42x"\<close> after U+FEFF, a
  line separator and a space; \<open>"-7"\<close>; \<open>"1.5"\<close> up to the point. What it does not
  read: the empty string, a space alone, a sign alone, \<open>"seven"\<close>, and \<open>"1"\<close> after a
  zero-width space (U+200B), which is not white space.
\<close>

lemma parseInt_examples:
  "parseInt [0xA0, 0x31] = Some 1"
  "parseInt [0xFEFF, 0x2028, 0x20, 0x2B, 0x34, 0x32, 0x78] = Some 42"
  "parseInt [0x2D, 0x37] = Some (- 7)"
  "parseInt [0x31, 0x2E, 0x35] = Some 1"
  "parseInt [] = None"
  "parseInt [0x20] = None"
  "parseInt [0x2D] = None"
  "parseInt [0x73, 0x65, 0x76, 0x65, 0x6E] = None"
  "parseInt [0x200B, 0x31] = None"
  by (simp_all add: parseInt_def isWhiteSpace_def isDigit_def digitsValue_def)



section \<open>Removing a load from a boat keeps them consistent\<close>

lemma spliceOut_fields:
  "boat_name (spliceOut lk b) = boat_name b" "boat_type (spliceOut lk b) = boat_type b"
  "boat_length (spliceOut lk b) = boat_length b" "boat_owner (spliceOut lk b) = boat_owner b"
  by (simp_all add: spliceOut_def Let_def)

lemma spliceOut_split:
  assumes "lk \<in> ref_id ` set (boat_loads b)"
  shows "\<exists>ys e zs. boat_loads b = ys @ e # zs \<and> ref_id e = lk \<and> (\<forall>y \<in> set ys. ref_id y \<noteq> lk) \<and>
           boat_loads (spliceOut lk b) = ys @ zs"
proof -
  from assms have "\<exists>x \<in> set (boat_loads b). ref_id x = lk" by auto
  from splice_found_split[OF this] show ?thesis by (simp add: spliceOut_def Let_def)
qed

lemma spliceOut_distinct:
  assumes "lk \<in> ref_id ` set (boat_loads b)" "distinct (map ref_id (boat_loads b))"
  shows "set (boat_loads (spliceOut lk b)) = {e \<in> set (boat_loads b). ref_id e \<noteq> lk}"
    and "distinct (map ref_id (boat_loads (spliceOut lk b)))"
proof -
  from spliceOut_split[OF assms(1)] obtain ys e zs where
    s: "boat_loads b = ys @ e # zs" "ref_id e = lk" "boat_loads (spliceOut lk b) = ys @ zs" by blast
  from assms(2) s(1,2) have "lk \<notin> ref_id ` set ys" "lk \<notin> ref_id ` set zs" by auto
  then have "\<forall>x \<in> set ys \<union> set zs. ref_id x \<noteq> lk" by blast
  with s show "set (boat_loads (spliceOut lk b)) = {e \<in> set (boat_loads b). ref_id e \<noteq> lk}"
    by auto
  from assms(2) s show "distinct (map ref_id (boat_loads (spliceOut lk b)))" by simp
qed

lemma unassign_keeps:
  assumes "bidirectional s" "noRepeats s"
    and b: "Boats s bk = Some b" and l: "Loads s lk = Some l"
    and c: "load_carrier l = Some c" "carrier_id c = bk"
    and B: "Boats s' = (Boats s)(bk \<mapsto> spliceOut lk b)"
    and L: "Loads s' = (Loads s)(lk \<mapsto> l\<lparr>load_carrier := None\<rparr>)"
  shows "bidirectional s' \<and> noRepeats s'"
proof -
  from assms have cl: "carriedListed s" and lc: "listedCarried s" by (auto simp: bidirectional_def)
  from cl l c b have listed: "lk \<in> ref_id ` set (boat_loads b)"
    unfolding carriedListed_def by blast
  from assms(2) b have dist: "distinct (map ref_id (boat_loads b))"
    unfolding noRepeats_def by blast
  note rest = spliceOut_distinct[OF listed dist]
  have "carriedListed s'"
    unfolding carriedListed_def
  proof (intro allI impI)
    fix lid l' c' b'
    assume h: "Loads s' lid = Some l' \<and> load_carrier l' = Some c' \<and> Boats s' (carrier_id c') = Some b'"
    have ne: "lid \<noteq> lk"
    proof
      assume "lid = lk"
      with h L have "l' = l\<lparr>load_carrier := None\<rparr>" by simp
      with h show False by simp
    qed
    with h L have old: "Loads s lid = Some l'" by simp
    show "lid \<in> ref_id ` set (boat_loads b')"
    proof (cases "carrier_id c' = bk")
      case True
      with h B have b': "b' = spliceOut lk b" by simp
      from cl old h True b have "lid \<in> ref_id ` set (boat_loads b)"
        unfolding carriedListed_def by blast
      with ne b' rest(1) show ?thesis by auto
    next
      case False
      with h B have "Boats s (carrier_id c') = Some b'" by simp
      with cl old h show ?thesis unfolding carriedListed_def by blast
    qed
  qed
  moreover have "listedCarried s'"
    unfolding listedCarried_def
  proof (intro allI impI)
    fix bid b' e'
    assume h: "Boats s' bid = Some b' \<and> e' \<in> set (boat_loads b')"
    have old: "\<exists>b0. Boats s bid = Some b0 \<and> e' \<in> set (boat_loads b0)"
    proof (cases "bid = bk")
      case True
      with h B have "b' = spliceOut lk b" by simp
      with h rest(1) have "e' \<in> set (boat_loads b)" by simp
      with True b show ?thesis by simp
    next
      case False
      with h B show ?thesis by simp
    qed
    with lc obtain l0 c0 where
      o: "Loads s (ref_id e') = Some l0" "load_carrier l0 = Some c0" "carrier_id c0 = bid"
      unfolding listedCarried_def by blast
    have "ref_id e' \<noteq> lk"
    proof
      assume eq: "ref_id e' = lk"
      with o l c have "bid = bk" by simp
      with h B have "b' = spliceOut lk b" by simp
      with h rest(1) eq show False by simp
    qed
    with o L show "\<exists>l c. Loads s' (ref_id e') = Some l \<and> load_carrier l = Some c \<and> carrier_id c = bid"
      by simp
  qed
  moreover have "noRepeats s'"
    unfolding noRepeats_def
  proof (intro allI impI)
    fix bid b' assume h: "Boats s' bid = Some b'"
    show "distinct (map ref_id (boat_loads b'))"
    proof (cases "bid = bk")
      case True
      with h B have "b' = spliceOut lk b" by simp
      with rest(2) show ?thesis by simp
    next
      case False
      with h B have "Boats s bid = Some b'" by simp
      with assms(2) show ?thesis unfolding noRepeats_def by blast
    qed
  qed
  ultimately show ?thesis by (simp add: bidirectional_def)
qed

lemma delete_boat_load_204:
  assumes "delete_boat_load s boat_id load_id = (Responded 204 NoBody, s')"
  shows "\<exists>bk lk b l c. parseInt boat_id = Some bk \<and> parseInt load_id = Some lk \<and>
           Boats s bk = Some b \<and> Loads s lk = Some l \<and> load_carrier l = Some c \<and> carrier_id c = bk \<and>
           Boats s' = (Boats s)(bk \<mapsto> spliceOut lk b) \<and>
           Loads s' = (Loads s)(lk \<mapsto> l\<lparr>load_carrier := None\<rparr>) \<and>
           Users s' = Users s"
  using assms
  by (auto simp: delete_boat_load_def findEntity_BOATS_def findEntity_LOADS_def onLookupError_def
        handleClientError_def handleServerError_def afterWrites_def firstError_def
        update_LOADS_def update_BOATS_def touch_def Let_def
      split: option.splits sum.splits prod.splits if_splits)

lemma delete_boat_load_ok:
  assumes "parseInt boat_id = Some bk" "parseInt load_id = Some lk"
          "Boats s bk = Some b" "Loads s lk = Some l" "load_carrier l = Some c" "carrier_id c = bk"
  shows "delete_boat_load s boat_id load_id =
          (Responded 204 NoBody,
           s\<lparr>Boats := (Boats s)(bk \<mapsto> spliceOut lk b),
             Loads := (Loads s)(lk \<mapsto> l\<lparr>load_carrier := None\<rparr>),
             accesses := accesses s @ [(Fetch, BOATS), (Fetch, LOADS), (Write, LOADS), (Write, BOATS)]\<rparr>)"
  using assms
  by (simp add: delete_boat_load_def findEntity_BOATS_def findEntity_LOADS_def
        afterWrites_def firstError_def
        update_LOADS_def update_BOATS_def touch_def Let_def)

section \<open>Deleting a load keeps the boats and the loads consistent\<close>

lemma delete_load_keeps:
  assumes "bidirectional s" "noRepeats s"
    and l: "Loads s lk = Some l"
    and c: "load_carrier l = Some c"
    and b: "Boats s (carrier_id c) = Some b"
    and B: "Boats s' = (Boats s)(carrier_id c \<mapsto> spliceOut lk b)"
    and L: "Loads s' = (Loads s)(lk := None)"
  shows "bidirectional s' \<and> noRepeats s'"
proof -
  let ?bk = "carrier_id c"
  from assms have cl: "carriedListed s" and lc: "listedCarried s" by (auto simp: bidirectional_def)
  from cl l c b have listed: "lk \<in> ref_id ` set (boat_loads b)"
    unfolding carriedListed_def by blast
  from assms(2) b have dist: "distinct (map ref_id (boat_loads b))"
    unfolding noRepeats_def by blast
  note rest = spliceOut_distinct[OF listed dist]
  have "carriedListed s'"
    unfolding carriedListed_def
  proof (intro allI impI)
    fix lid l' c' b'
    assume h: "Loads s' lid = Some l' \<and> load_carrier l' = Some c' \<and> Boats s' (carrier_id c') = Some b'"
    with L have ne: "lid \<noteq> lk" by auto
    with h L have old: "Loads s lid = Some l'" by simp
    show "lid \<in> ref_id ` set (boat_loads b')"
    proof (cases "carrier_id c' = ?bk")
      case True
      with h B have b': "b' = spliceOut lk b" by simp
      from cl old h True b have "lid \<in> ref_id ` set (boat_loads b)"
        unfolding carriedListed_def by metis
      with ne b' rest(1) show ?thesis by auto
    next
      case False
      with h B have "Boats s (carrier_id c') = Some b'" by simp
      with cl old h show ?thesis unfolding carriedListed_def by blast
    qed
  qed
  moreover have "listedCarried s'"
    unfolding listedCarried_def
  proof (intro allI impI)
    fix bid b' e'
    assume h: "Boats s' bid = Some b' \<and> e' \<in> set (boat_loads b')"
    have old: "\<exists>b0. Boats s bid = Some b0 \<and> e' \<in> set (boat_loads b0)"
    proof (cases "bid = ?bk")
      case True
      with h B have "b' = spliceOut lk b" by simp
      with h rest(1) have "e' \<in> set (boat_loads b)" by simp
      with True b show ?thesis by simp
    next
      case False
      with h B show ?thesis by simp
    qed
    with lc obtain l0 c0 where
      o: "Loads s (ref_id e') = Some l0" "load_carrier l0 = Some c0" "carrier_id c0 = bid"
      unfolding listedCarried_def by blast
    have "ref_id e' \<noteq> lk"
    proof
      assume eq: "ref_id e' = lk"
      with o l c have "bid = ?bk" by simp
      with h B have "b' = spliceOut lk b" by simp
      with h rest(1) eq show False by simp
    qed
    with o L show "\<exists>l c. Loads s' (ref_id e') = Some l \<and> load_carrier l = Some c \<and> carrier_id c = bid"
      by simp
  qed
  moreover have "noRepeats s'"
    unfolding noRepeats_def
  proof (intro allI impI)
    fix bid b' assume h: "Boats s' bid = Some b'"
    show "distinct (map ref_id (boat_loads b'))"
    proof (cases "bid = ?bk")
      case True
      with h B have "b' = spliceOut lk b" by simp
      with rest(2) show ?thesis by simp
    next
      case False
      with h B have "Boats s bid = Some b'" by simp
      with assms(2) show ?thesis unfolding noRepeats_def by blast
    qed
  qed
  ultimately show ?thesis by (simp add: bidirectional_def)
qed

lemma delete_free_load_keeps:
  assumes "bidirectional s" "noRepeats s"
    and l: "Loads s lk = Some l"
    and c: "load_carrier l = None"
    and B: "Boats s' = Boats s"
    and L: "Loads s' = (Loads s)(lk := None)"
  shows "bidirectional s' \<and> noRepeats s'"
proof -
  from assms have cl: "carriedListed s" and lc: "listedCarried s" by (auto simp: bidirectional_def)
  have "carriedListed s'"
    unfolding carriedListed_def
  proof (intro allI impI)
    fix lid l' c' b'
    assume h: "Loads s' lid = Some l' \<and> load_carrier l' = Some c' \<and> Boats s' (carrier_id c') = Some b'"
    with L have "lid \<noteq> lk" by auto
    with h L B have "Loads s lid = Some l'" "Boats s (carrier_id c') = Some b'" by simp_all
    with cl h show "lid \<in> ref_id ` set (boat_loads b')" unfolding carriedListed_def by blast
  qed
  moreover have "listedCarried s'"
    unfolding listedCarried_def
  proof (intro allI impI)
    fix bid b' e'
    assume h: "Boats s' bid = Some b' \<and> e' \<in> set (boat_loads b')"
    with B have hb: "Boats s bid = Some b'" by simp
    with lc h obtain l0 c0 where
      o: "Loads s (ref_id e') = Some l0" "load_carrier l0 = Some c0" "carrier_id c0 = bid"
      unfolding listedCarried_def by blast
    from unlisted_when_free[OF lc l c hb] h have "ref_id e' \<noteq> lk" by auto
    with o L show "\<exists>l c. Loads s' (ref_id e') = Some l \<and> load_carrier l = Some c \<and> carrier_id c = bid"
      by simp
  qed
  moreover from assms(2) B have "noRepeats s'" by (simp add: noRepeats_def)
  ultimately show ?thesis by (simp add: bidirectional_def)
qed

lemma delete_load_204:
  assumes "delete_load s load_id = (Responded 204 NoBody, s')"
  shows "\<exists>lk l. parseInt load_id = Some lk \<and> Loads s lk = Some l \<and>
           Loads s' = (Loads s)(lk := None) \<and> Users s' = Users s \<and>
           (case load_carrier l of
              None \<Rightarrow> Boats s' = Boats s
            | Some c \<Rightarrow> (\<exists>b. Boats s (carrier_id c) = Some b \<and>
                          Boats s' = (Boats s)(carrier_id c \<mapsto> spliceOut lk b)))"
  using assms
  by (auto simp: delete_load_def findEntity_BOATS_def findEntity_LOADS_def onLookupError_def
        handleClientError_def handleServerError_def afterWrites_def firstError_def
        delete_LOADS_def update_BOATS_def touch_def Let_def
      split: option.splits sum.splits prod.splits if_splits)

lemma delete_load_acc_204:
  assumes "delete_load_acc s req load_id = (Responded 204 NoBody, s')"
  shows "\<exists>lk l. parseInt load_id = Some lk \<and> Loads s lk = Some l \<and>
           Loads s' = (Loads s)(lk := None) \<and> Users s' = Users s \<and>
           (case load_carrier l of
              None \<Rightarrow> Boats s' = Boats s
            | Some c \<Rightarrow> (\<exists>b. Boats s (carrier_id c) = Some b \<and>
                          Boats s' = (Boats s)(carrier_id c \<mapsto> spliceOut lk b)))"
  using assms
  by (auto simp: delete_load_acc_def isAcceptable_def findEntity_BOATS_def findEntity_LOADS_def onLookupError_def
        handleClientError_def handleServerError_def afterWrites_def firstError_def
        delete_LOADS_def update_BOATS_def touch_def Let_def
      split: option.splits sum.splits prod.splits if_splits)

section \<open>Deleting a boat\<close>

lemma putAll_Cons: "putAll (e # es) m = putAll es (m(fst e \<mapsto> snd e))"
  by (simp add: putAll_def)

lemma putAll_Nil: "putAll [] m = m"
  by (simp add: putAll_def)

lemma putAll_found:
  "putAll (map clearCarrier (concat (map (\<lambda>k. case m0 k of None \<Rightarrow> [] | Some l \<Rightarrow> [(k, l)]) keys))) m k =
     (if k \<in> set keys \<and> m0 k \<noteq> None then map_option (\<lambda>l. l\<lparr>load_carrier := None\<rparr>) (m0 k) else m k)"
proof (induction keys arbitrary: m)
  case Nil
  show ?case by (simp add: putAll_Nil)
next
  case (Cons key ks)
  let ?found = "\<lambda>ks. map clearCarrier (concat (map (\<lambda>k. case m0 k of None \<Rightarrow> [] | Some l \<Rightarrow> [(k, l)]) ks))"
  show ?case
  proof (cases "m0 key")
    case None
    then have "?found (key # ks) = ?found ks" by simp
    with Cons.IH[of m] None show ?thesis by auto
  next
    case (Some l)
    define m' where "m' = m(key \<mapsto> l\<lparr>load_carrier := None\<rparr>)"
    from Some have "?found (key # ks) = (key, l\<lparr>load_carrier := None\<rparr>) # ?found ks"
      by (simp add: clearCarrier_def)
    then have step: "putAll (?found (key # ks)) m k = putAll (?found ks) m' k"
      by (simp add: putAll_Cons m'_def)
    have at: "m' k = (if k = key then Some (l\<lparr>load_carrier := None\<rparr>) else m k)"
      by (simp add: m'_def)
    show ?thesis unfolding step Cons.IH[of m'] at using Some by auto
  qed
qed

lemma found_are_stored:
  "e \<in> set (map clearCarrier (concat (map (\<lambda>k. case m0 k of None \<Rightarrow> [] | Some l \<Rightarrow> [(k, l)]) keys)))
   \<Longrightarrow> m0 (fst e) \<noteq> None"
proof (induction keys)
  case Nil
  then show ?case by simp
next
  case (Cons key ks)
  show ?case
  proof (cases "m0 key")
    case None
    with Cons show ?thesis by simp
  next
    case (Some l)
    with Cons show ?thesis by (auto simp: clearCarrier_def)
  qed
qed

lemma nullLoadsAndDelete_result:
  "fst (nullLoadsAndDelete bk boat s) = Responded 204 NoBody \<and>
   Boats (snd (nullLoadsAndDelete bk boat s)) = (Boats s)(bk := None) \<and>
   Loads (snd (nullLoadsAndDelete bk boat s)) = cleared (boat_loads boat) (Loads s) \<and>
   Users (snd (nullLoadsAndDelete bk boat s)) = Users s"
proof (cases "boat_loads boat = []")
  case True
  then show ?thesis
    by (simp add: nullLoadsAndDelete_def deleteBoatAndUpdateLoads_def delete_BOATS_def
          update_all_LOADS_def afterWrites_def firstError_def touch_def putAll_Nil cleared_def)
next
  case False
  let ?found = "map clearCarrier (concat (map (\<lambda>k. case Loads s k of None \<Rightarrow> [] | Some l \<Rightarrow> [(k, l)])
                   (map ref_id (boat_loads boat))))"
  have stored: "\<not> (\<exists>e \<in> set ?found. Loads s (fst e) = None)"
    using found_are_stored[of _ "Loads s"] by blast
  have "putAll ?found (Loads s) = cleared (boat_loads boat) (Loads s)"
  proof
    fix k
    show "putAll ?found (Loads s) k = cleared (boat_loads boat) (Loads s) k"
      unfolding putAll_found cleared_def by (cases "Loads s k") auto
  qed
  moreover have "update_all_LOADS ?found (snd (delete_BOATS bk (snd (get_LOADS (map ref_id (boat_loads boat)) s))))
      = (None, (snd (delete_BOATS bk (snd (get_LOADS (map ref_id (boat_loads boat)) s))))
                 \<lparr>Loads := putAll ?found (Loads s),
                  accesses := accesses (snd (delete_BOATS bk (snd (get_LOADS (map ref_id (boat_loads boat)) s))))
                     @ [(WriteAll (length ?found), LOADS)]\<rparr>)"
    using stored by (simp add: update_all_LOADS_def delete_BOATS_def get_LOADS_def touch_def)
  ultimately show ?thesis using False
    by (simp add: nullLoadsAndDelete_def get_LOADS_def deleteBoatAndUpdateLoads_def delete_BOATS_def
          afterWrites_def firstError_def touch_def)
qed

lemma delete_boat_keeps:
  assumes "bidirectional s" "noRepeats s"
    and b: "Boats s bk = Some b"
    and B: "Boats s' = (Boats s)(bk := None)"
    and L: "Loads s' = cleared (boat_loads b) (Loads s)"
  shows "bidirectional s' \<and> noRepeats s'"
proof -
  from assms have cl: "carriedListed s" and lc: "listedCarried s" by (auto simp: bidirectional_def)
  have other: "Loads s' (ref_id e') = Loads s (ref_id e')"
    if h: "Boats s bid = Some b'" "e' \<in> set (boat_loads b')" "bid \<noteq> bk" for bid b' e'
  proof -
    from lc h obtain l0 c0 where
      o: "Loads s (ref_id e') = Some l0" "load_carrier l0 = Some c0" "carrier_id c0 = bid"
      unfolding listedCarried_def by blast
    have "ref_id e' \<notin> ref_id ` set (boat_loads b)"
    proof
      assume "ref_id e' \<in> ref_id ` set (boat_loads b)"
      then obtain e where "e \<in> set (boat_loads b)" "ref_id e = ref_id e'" by auto
      with lc b obtain l1 c1 where "Loads s (ref_id e') = Some l1" "load_carrier l1 = Some c1" "carrier_id c1 = bk"
        unfolding listedCarried_def by metis
      with o h(3) show False by simp
    qed
    with L show ?thesis by (simp add: cleared_def)
  qed
  have "carriedListed s'"
    unfolding carriedListed_def
  proof (intro allI impI)
    fix lid l' c' b'
    assume h: "Loads s' lid = Some l' \<and> load_carrier l' = Some c' \<and> Boats s' (carrier_id c') = Some b'"
    have "lid \<notin> ref_id ` set (boat_loads b)"
    proof
      assume "lid \<in> ref_id ` set (boat_loads b)"
      with L h have "\<exists>l0. l' = l0\<lparr>load_carrier := None\<rparr>" by (auto simp: cleared_def)
      with h show False by auto
    qed
    with L h have "Loads s lid = Some l'" by (simp add: cleared_def)
    moreover from h B have "Boats s (carrier_id c') = Some b'" by (simp split: if_splits)
    ultimately show "lid \<in> ref_id ` set (boat_loads b')"
      using cl h unfolding carriedListed_def by blast
  qed
  moreover have "listedCarried s'"
    unfolding listedCarried_def
  proof (intro allI impI)
    fix bid b' e'
    assume h: "Boats s' bid = Some b' \<and> e' \<in> set (boat_loads b')"
    with B have ne: "bid \<noteq> bk" and hb: "Boats s bid = Some b'" by (simp_all split: if_splits)
    from lc hb h obtain l0 c0 where
      o: "Loads s (ref_id e') = Some l0" "load_carrier l0 = Some c0" "carrier_id c0 = bid"
      unfolding listedCarried_def by blast
    from other[OF hb _ ne] h have "Loads s' (ref_id e') = Loads s (ref_id e')" by simp
    with o show "\<exists>l c. Loads s' (ref_id e') = Some l \<and> load_carrier l = Some c \<and> carrier_id c = bid"
      by simp
  qed
  moreover have "noRepeats s'"
    unfolding noRepeats_def
  proof (intro allI impI)
    fix bid b' assume "Boats s' bid = Some b'"
    with B have "Boats s bid = Some b'" by (simp split: if_splits)
    with assms(2) show "distinct (map ref_id (boat_loads b'))" unfolding noRepeats_def by blast
  qed
  ultimately show ?thesis by (simp add: bidirectional_def)
qed

lemma checkRegistered_tables:
  "Boats (snd (checkRegistered m sub s)) = Boats s \<and> Loads (snd (checkRegistered m sub s)) = Loads s \<and>
   Users (snd (checkRegistered m sub s)) = Users s \<and>
   accesses (snd (checkRegistered m sub s)) = accesses s @ [(Fetch, USERS)] \<and>
   fst (checkRegistered m sub s) = (if sub \<in> Users s then None else Some (handleClientError 403 m))"
  by (simp add: checkRegistered_def findEntity_USERS_def touch_def)

lemma delete_boat_handler_204:
  assumes "delete_boat_handler s boat_id = (Responded 204 NoBody, s')"
  shows "\<exists>bk b. parseInt boat_id = Some bk \<and> Boats s bk = Some b \<and>
           Boats s' = (Boats s)(bk := None) \<and> Loads s' = cleared (boat_loads b) (Loads s) \<and>
           Users s' = Users s"
proof (cases "parseInt boat_id")
  case None
  with assms show ?thesis
    by (simp add: delete_boat_handler_def findEntity_BOATS_def onLookupError_def handleClientError_def)
next
  case (Some bk)
  show ?thesis
  proof (cases "Boats s bk")
    case None
    with Some assms show ?thesis
      by (simp add: delete_boat_handler_def findEntity_BOATS_def handleClientError_def)
  next
    case (Some b)
    let ?s1 = "touch Fetch BOATS s"
    from Some \<open>parseInt boat_id = Some bk\<close> assms
    have "nullLoadsAndDelete bk b ?s1 = (Responded 204 NoBody, s')"
      by (simp add: delete_boat_handler_def findEntity_BOATS_def)
    with nullLoadsAndDelete_result[of bk b ?s1]
    have "Boats s' = (Boats s)(bk := None) \<and> Loads s' = cleared (boat_loads b) (Loads s) \<and> Users s' = Users s"
      by (simp add: touch_def)
    with Some \<open>parseInt boat_id = Some bk\<close> show ?thesis by simp
  qed
qed

lemma delete_boat_204:
  assumes "delete_boat s req boat_id = (Responded 204 NoBody, s')"
  shows "\<exists>bk b. parseInt boat_id = Some bk \<and> Boats s bk = Some b \<and>
           Boats s' = (Boats s)(bk := None) \<and> Loads s' = cleared (boat_loads b) (Loads s) \<and>
           Users s' = Users s"
proof (cases "req_user_sub req")
  case None
  with assms show ?thesis by (simp add: delete_boat_def checkJwt_def)
next
  case (Some sub)
  let ?m = "''The associated user is not registered.''"
  let ?s0 = "snd (checkRegistered ?m sub s)"
  note reg = checkRegistered_tables[of ?m sub s]
  show ?thesis
  proof (cases "sub \<in> Users s")
    case False
    with Some assms reg show ?thesis
      by (simp add: delete_boat_def checkJwt_def handleClientError_def split: prod.splits)
  next
    case True
    with Some assms reg have "delete_boat_handler ?s0 boat_id = (Responded 204 NoBody, s')"
      by (simp add: delete_boat_def checkJwt_def split: prod.splits)
    from delete_boat_handler_204[OF this] reg show ?thesis by simp
  qed
qed

section \<open>The handlers of the authenticated boats router\<close>

lemma boats_router_use_tables:
  "Boats (snd (boats_router_use req s)) = Boats s \<and> Loads (snd (boats_router_use req s)) = Loads s \<and>
   Users (snd (boats_router_use req s)) = Users s"
  by (simp add: boats_router_use_def checkJwt_def checkRegistered_def findEntity_USERS_def touch_def
      split: option.splits)

lemma boats_router_use_Inr:
  "fst (boats_router_use req s) = Inr sub \<longleftrightarrow>
     (req_user_sub req = Some sub \<and> sub \<in> Users s \<and> req_accepts_json req)"
  by (auto simp: boats_router_use_def checkJwt_def checkRegistered_def findEntity_USERS_def
        isAcceptable_def touch_def split: option.splits)

lemma boats_router_use_not_204:
  "fst (boats_router_use req s) \<noteq> Inl (Responded 204 NoBody)"
  by (auto simp: boats_router_use_def checkJwt_def checkRegistered_def findEntity_USERS_def
        isAcceptable_def touch_def handleClientError_def split: option.splits)

lemma put_boat_load_owned_204:
  assumes "put_boat_load_owned s req boat_id load_id = (Responded 204 NoBody, s')"
  shows "\<exists>bk lk b l. parseInt boat_id = Some bk \<and> parseInt load_id = Some lk \<and>
           Boats s bk = Some b \<and> Loads s lk = Some l \<and> load_carrier l = None \<and>
           boat_owner b = req_user_sub req \<and>
           Boats s' = (Boats s)(bk \<mapsto> b\<lparr>boat_loads := boat_loads b @ [\<lparr>ref_id = lk, ref_self = None\<rparr>]\<rparr>) \<and>
           Loads s' = (Loads s)(lk \<mapsto> l\<lparr>load_carrier := Some \<lparr>carrier_id = bk, carrier_name = JUndefined\<rparr>\<rparr>) \<and>
           Users s' = Users s"
proof (cases "boats_router_use req s")
  case (Pair g s0)
  note t = boats_router_use_tables[of req s] boats_router_use_not_204[of req s]
  show ?thesis
  proof (cases g)
    case (Inl r)
    with Pair assms t show ?thesis by (simp add: put_boat_load_owned_def)
  next
    case (Inr sub)
    with Pair boats_router_use_Inr[of req s sub] have sub: "req_user_sub req = Some sub" by simp
    from Pair t have s0: "Boats s0 = Boats s" "Loads s0 = Loads s" "Users s0 = Users s" by simp_all
    from Inr Pair assms have
      "\<exists>bk lk b l. parseInt boat_id = Some bk \<and> parseInt load_id = Some lk \<and>
           Boats s0 bk = Some b \<and> Loads s0 lk = Some l \<and> load_carrier l = None \<and>
           boat_owner b = Some sub \<and>
           Boats s' = (Boats s0)(bk \<mapsto> b\<lparr>boat_loads := boat_loads b @ [\<lparr>ref_id = lk, ref_self = None\<rparr>]\<rparr>) \<and>
           Loads s' = (Loads s0)(lk \<mapsto> l\<lparr>load_carrier := Some \<lparr>carrier_id = bk, carrier_name = JUndefined\<rparr>\<rparr>) \<and>
           Users s' = Users s0"
      by (auto simp: put_boat_load_owned_def findEntity_BOATS_def findEntity_LOADS_def onLookupError_def
        handleClientError_def handleServerError_def afterWrites_def firstError_def
        update_LOADS_def update_BOATS_def touch_def Let_def
      split: option.splits sum.splits prod.splits if_splits)
    with s0 sub show ?thesis by simp
  qed
qed

lemma delete_boat_load_owned_204:
  assumes "delete_boat_load_owned s req boat_id load_id = (Responded 204 NoBody, s')"
  shows "\<exists>bk lk b l c. parseInt boat_id = Some bk \<and> parseInt load_id = Some lk \<and>
           Boats s bk = Some b \<and> Loads s lk = Some l \<and> load_carrier l = Some c \<and> carrier_id c = bk \<and>
           boat_owner b = req_user_sub req \<and>
           Boats s' = (Boats s)(bk \<mapsto> spliceOut lk b) \<and>
           Loads s' = (Loads s)(lk \<mapsto> l\<lparr>load_carrier := None\<rparr>) \<and>
           Users s' = Users s"
proof (cases "boats_router_use req s")
  case (Pair g s0)
  note t = boats_router_use_tables[of req s] boats_router_use_not_204[of req s]
  show ?thesis
  proof (cases g)
    case (Inl r)
    with Pair assms t show ?thesis by (simp add: delete_boat_load_owned_def)
  next
    case (Inr sub)
    with Pair boats_router_use_Inr[of req s sub] have sub: "req_user_sub req = Some sub" by simp
    from Pair t have s0: "Boats s0 = Boats s" "Loads s0 = Loads s" "Users s0 = Users s" by simp_all
    from Inr Pair assms have
      "\<exists>bk lk b l c. parseInt boat_id = Some bk \<and> parseInt load_id = Some lk \<and>
           Boats s0 bk = Some b \<and> Loads s0 lk = Some l \<and> load_carrier l = Some c \<and> carrier_id c = bk \<and>
           boat_owner b = Some sub \<and>
           Boats s' = (Boats s0)(bk \<mapsto> spliceOut lk b) \<and>
           Loads s' = (Loads s0)(lk \<mapsto> l\<lparr>load_carrier := None\<rparr>) \<and>
           Users s' = Users s0"
      by (auto simp: delete_boat_load_owned_def findEntity_BOATS_def findEntity_LOADS_def onLookupError_def
        handleClientError_def handleServerError_def afterWrites_def firstError_def
        update_LOADS_def update_BOATS_def touch_def Let_def
      split: option.splits sum.splits prod.splits if_splits)
    with s0 sub show ?thesis by simp
  qed
qed

lemma delete_boat_owned_204:
  assumes "delete_boat_owned s req boat_id = (Responded 204 NoBody, s')"
  shows "\<exists>bk b. parseInt boat_id = Some bk \<and> Boats s bk = Some b \<and> boat_owner b = req_user_sub req \<and>
           Boats s' = (Boats s)(bk := None) \<and> Loads s' = cleared (boat_loads b) (Loads s) \<and>
           Users s' = Users s"
proof (cases "boats_router_use req s")
  case (Pair g s0)
  note t = boats_router_use_tables[of req s] boats_router_use_not_204[of req s]
  show ?thesis
  proof (cases g)
    case (Inl r)
    with Pair assms t show ?thesis by (simp add: delete_boat_owned_def)
  next
    case (Inr sub)
    with Pair boats_router_use_Inr[of req s sub] have sub: "req_user_sub req = Some sub" by simp
    from Pair t have s0: "Boats s0 = Boats s" "Loads s0 = Loads s" "Users s0 = Users s" by simp_all
    show ?thesis
    proof (cases "parseInt boat_id")
      case None
      with Inr Pair assms show ?thesis
        by (simp add: delete_boat_owned_def findEntity_BOATS_def onLookupError_def handleClientError_def)
    next
      case (Some bk)
      show ?thesis
      proof (cases "Boats s0 bk")
        case None
        with Some Inr Pair assms show ?thesis
          by (simp add: delete_boat_owned_def findEntity_BOATS_def handleClientError_def)
      next
        case b: (Some b)
        let ?s1 = "touch Fetch BOATS s0"
        from b Some Inr Pair assms
        have own: "boat_owner b = Some sub" and run: "nullLoadsAndDelete bk b ?s1 = (Responded 204 NoBody, s')"
          by (simp_all add: delete_boat_owned_def findEntity_BOATS_def handleClientError_def split: if_splits)
        with nullLoadsAndDelete_result[of bk b ?s1]
        have "Boats s' = (Boats s0)(bk := None) \<and> Loads s' = cleared (boat_loads b) (Loads s0) \<and> Users s' = Users s0"
          by (simp add: touch_def)
        with b Some s0 sub own show ?thesis by simp
      qed
    qed
  qed
qed

section \<open>The consistency of boats and loads is kept by every operation\<close>

lemma parse_1_7: "parseInt [0x31] = Some 1" "parseInt [0x37] = Some 7" "parseInt [0x38] = Some 8"
  by (simp_all add: parseInt_def isWhiteSpace_def isDigit_def digitsValue_def)

lemma spliceOut_eval:
  "spliceOut 7 (sloop\<lparr>boat_loads := [\<lparr>ref_id = 7, ref_self = None\<rparr>, \<lparr>ref_id = 7, ref_self = None\<rparr>]\<rparr>)
     = sloop\<lparr>boat_loads := [\<lparr>ref_id = 7, ref_self = None\<rparr>]\<rparr>"
  "spliceOut 7 (sloop\<lparr>boat_loads := [\<lparr>ref_id = 7, ref_self = None\<rparr>]\<rparr>) = sloop\<lparr>boat_loads := []\<rparr>"
  by (simp_all add: spliceOut_def splice1_def Let_def sloop_def)

lemma bidirectional_doubled: "bidirectional doubled"
  by (auto simp: bidirectional_def carriedListed_def listedCarried_def doubled_def split: if_splits)

lemma bidirectional_laden: "bidirectional laden \<and> noRepeats laden"
  by (auto simp: bidirectional_def carriedListed_def listedCarried_def noRepeats_def laden_def split: if_splits)

text \<open>
  C1, as stated, fails: the two sentences of the invariant allow a boat to list a load twice,
  and unassigning removes the first entry only. From \<open>doubled\<close>, where boat 1 lists
  load 7 twice and load 7 names boat 1, \<open>DELETE /boats/1/loads/7\<close> answers 204 and leaves
  boat 1 listing load 7, whose carrier is now \<open>null\<close>.
\<close>

theorem unassign_breaks_bidirectional:
  "bidirectional doubled \<and>
   fst (perform doubled (Unassign [0x31] [0x37])) = Responded 204 NoBody \<and>
   \<not> bidirectional (snd (perform doubled (Unassign [0x31] [0x37])))"
proof -
  have run: "perform doubled (Unassign [0x31] [0x37]) =
     (Responded 204 NoBody,
      doubled\<lparr>Boats := (Boats doubled)(1 \<mapsto> sloop\<lparr>boat_loads := [\<lparr>ref_id = 7, ref_self = None\<rparr>]\<rparr>),
              Loads := (Loads doubled)(7 \<mapsto> crate\<lparr>load_carrier := None\<rparr>),
              accesses := accesses doubled @ [(Fetch, BOATS), (Fetch, LOADS), (Write, LOADS), (Write, BOATS)]\<rparr>)"
    using delete_boat_load_ok[of "[0x31]" 1 "[0x37]" 7 doubled
        "sloop\<lparr>boat_loads := [\<lparr>ref_id = 7, ref_self = None\<rparr>, \<lparr>ref_id = 7, ref_self = None\<rparr>]\<rparr>"
        "crate\<lparr>load_carrier := Some \<lparr>carrier_id = 1, carrier_name = JStr ''Orca''\<rparr>\<rparr>"
        "\<lparr>carrier_id = 1, carrier_name = JStr ''Orca''\<rparr>"]
    by (simp add: parse_1_7 spliceOut_eval) (simp add: doubled_def)
  have "\<not> listedCarried (snd (perform doubled (Unassign [0x31] [0x37])))"
    unfolding run listedCarried_def
    by (simp add: doubled_def)
  with run bidirectional_doubled show ?thesis by (simp add: bidirectional_def)
qed


text \<open>
  C1, amended. Let every load whose carrier is a stored boat be listed by that boat, every
  entry of a stored boat name a stored load carried by that boat, and no boat list a load
  twice. Then the same three facts hold after every assign, unassign, delete-boat and
  delete-load request that is answered 204, on the first routers and on the authenticated
  ones.
\<close>

theorem relationship_ops_keep_consistency:
  assumes "bidirectional s \<and> noRepeats s"
    and "perform s op = (Responded 204 NoBody, s')"
  shows "bidirectional s' \<and> noRepeats s'"
proof -
  from assms(1) have inv: "bidirectional s" "noRepeats s" by simp_all
  show ?thesis
  proof (cases op)
    case (Assign boat_id load_id)
    with assms(2) put_boat_load_204[of s boat_id load_id s'] obtain bk lk b l where
      o: "Boats s bk = Some b" "Loads s lk = Some l" "load_carrier l = None"
      "Boats s' = (Boats s)(bk \<mapsto> b\<lparr>boat_loads := boat_loads b @ [\<lparr>ref_id = lk, ref_self = None\<rparr>]\<rparr>)"
      "Loads s' = (Loads s)(lk \<mapsto> l\<lparr>load_carrier := Some \<lparr>carrier_id = bk, carrier_name = boat_name b\<rparr>\<rparr>)"
      by auto
    show ?thesis by (rule assign_keeps[OF inv o(1,2,3,4) _ o(5)]) simp_all
  next
    case (AssignOwned req boat_id load_id)
    with assms(2) put_boat_load_owned_204[of s req boat_id load_id s'] obtain bk lk b l where
      o: "Boats s bk = Some b" "Loads s lk = Some l" "load_carrier l = None"
      "Boats s' = (Boats s)(bk \<mapsto> b\<lparr>boat_loads := boat_loads b @ [\<lparr>ref_id = lk, ref_self = None\<rparr>]\<rparr>)"
      "Loads s' = (Loads s)(lk \<mapsto> l\<lparr>load_carrier := Some \<lparr>carrier_id = bk, carrier_name = JUndefined\<rparr>\<rparr>)"
      by auto
    show ?thesis by (rule assign_keeps[OF inv o(1,2,3,4) _ o(5)]) simp_all
  next
    case (Unassign boat_id load_id)
    with assms(2) delete_boat_load_204[of s boat_id load_id s'] obtain bk lk b l c where
      o: "Boats s bk = Some b" "Loads s lk = Some l" "load_carrier l = Some c" "carrier_id c = bk"
      "Boats s' = (Boats s)(bk \<mapsto> spliceOut lk b)"
      "Loads s' = (Loads s)(lk \<mapsto> l\<lparr>load_carrier := None\<rparr>)"
      by auto
    show ?thesis by (rule unassign_keeps[OF inv o])
  next
    case (UnassignOwned req boat_id load_id)
    with assms(2) delete_boat_load_owned_204[of s req boat_id load_id s'] obtain bk lk b l c where
      o: "Boats s bk = Some b" "Loads s lk = Some l" "load_carrier l = Some c" "carrier_id c = bk"
      "Boats s' = (Boats s)(bk \<mapsto> spliceOut lk b)"
      "Loads s' = (Loads s)(lk \<mapsto> l\<lparr>load_carrier := None\<rparr>)"
      by auto
    show ?thesis by (rule unassign_keeps[OF inv o])
  next
    case (DeleteBoat req boat_id)
    with assms(2) delete_boat_204[of s req boat_id s'] obtain bk b where
      o: "Boats s bk = Some b" "Boats s' = (Boats s)(bk := None)"
      "Loads s' = cleared (boat_loads b) (Loads s)"
      by auto
    show ?thesis by (rule delete_boat_keeps[OF inv o])
  next
    case (DeleteBoatOwned req boat_id)
    with assms(2) delete_boat_owned_204[of s req boat_id s'] obtain bk b where
      o: "Boats s bk = Some b" "Boats s' = (Boats s)(bk := None)"
      "Loads s' = cleared (boat_loads b) (Loads s)"
      by auto
    show ?thesis by (rule delete_boat_keeps[OF inv o])
  next
    case (DeleteLoad load_id)
    with assms(2) delete_load_204[of s load_id s'] obtain lk l where
      d: "Loads s lk = Some l" "Loads s' = (Loads s)(lk := None)"
         "case load_carrier l of None \<Rightarrow> Boats s' = Boats s
          | Some c \<Rightarrow> (\<exists>b. Boats s (carrier_id c) = Some b \<and>
                        Boats s' = (Boats s)(carrier_id c \<mapsto> spliceOut lk b))"
      by auto
    show ?thesis
    proof (cases "load_carrier l")
      case None
      with d have "Boats s' = Boats s" by simp
      from delete_free_load_keeps[OF inv d(1) None this d(2)] show ?thesis .
    next
      case (Some c)
      with d obtain b where b: "Boats s (carrier_id c) = Some b"
        "Boats s' = (Boats s)(carrier_id c \<mapsto> spliceOut lk b)" by auto
      from delete_load_keeps[OF inv d(1) Some b d(2)] show ?thesis .
    qed
  next
    case (DeleteLoadAcc req load_id)
    with assms(2) delete_load_acc_204[of s req load_id s'] obtain lk l where
      d: "Loads s lk = Some l" "Loads s' = (Loads s)(lk := None)"
         "case load_carrier l of None \<Rightarrow> Boats s' = Boats s
          | Some c \<Rightarrow> (\<exists>b. Boats s (carrier_id c) = Some b \<and>
                        Boats s' = (Boats s)(carrier_id c \<mapsto> spliceOut lk b))"
      by auto
    show ?thesis
    proof (cases "load_carrier l")
      case None
      with d have "Boats s' = Boats s" by simp
      from delete_free_load_keeps[OF inv d(1) None this d(2)] show ?thesis .
    next
      case (Some c)
      with d obtain b where b: "Boats s (carrier_id c) = Some b"
        "Boats s' = (Boats s)(carrier_id c \<mapsto> spliceOut lk b)" by auto
      from delete_load_keeps[OF inv d(1) Some b d(2)] show ?thesis .
    qed
  qed
qed

theorem relationship_ops_keep_consistency_witness:
  "(bidirectional laden \<and> noRepeats laden) \<and>
   fst (perform laden (Unassign [0x31] [0x37])) = Responded 204 NoBody \<and>
   bidirectional (snd (perform laden (Unassign [0x31] [0x37]))) \<and>
   noRepeats (snd (perform laden (Unassign [0x31] [0x37])))"
proof -
  obtain s' where run: "perform laden (Unassign [0x31] [0x37]) = (Responded 204 NoBody, s')"
    using delete_boat_load_ok[of "[0x31]" 1 "[0x37]" 7 laden
        "sloop\<lparr>boat_loads := [\<lparr>ref_id = 7, ref_self = None\<rparr>]\<rparr>"
        "crate\<lparr>load_carrier := Some \<lparr>carrier_id = 1, carrier_name = JStr ''Orca''\<rparr>\<rparr>"
        "\<lparr>carrier_id = 1, carrier_name = JStr ''Orca''\<rparr>"]
    by (simp add: parse_1_7 laden_def)
  from relationship_ops_keep_consistency[OF bidirectional_laden run] bidirectional_laden run
  show ?thesis by simp
qed

section \<open>Assigning and unassigning again\<close>

lemma spliceOut_appended:
  assumes "lk \<notin> ref_id ` set (boat_loads b)"
  shows "spliceOut lk (b\<lparr>boat_loads := boat_loads b @ [\<lparr>ref_id = lk, ref_self = None\<rparr>]\<rparr>) = b"
proof -
  from assms have "\<forall>y \<in> set (boat_loads b). \<not> ref_id y = lk" by auto
  from splice_first[of "\<lambda>l. ref_id l = lk" "\<lparr>ref_id = lk, ref_self = None\<rparr>" "boat_loads b" "[]", OF _ this]
  show ?thesis by (simp add: spliceOut_def Let_def)
qed

text \<open>
  C2. Let boat \<open>boat_id\<close> and load \<open>load_id\<close> be stored, the load have no carrier,
  and the bidirectional invariant hold. Then \<open>PUT /boats/boat_id/loads/load_id\<close> is
  answered 204, the \<open>DELETE\<close> of the same path that follows is answered 204, and
  afterwards the load is stored as before (its carrier \<open>null\<close>) and the boat is stored
  as before (its \<open>loads\<close> as they were); indeed both tables are as they were.
\<close>

theorem assign_then_unassign_restores:
  assumes "parseInt boat_id = Some bk \<and> Boats s bk = Some b"
    and "parseInt load_id = Some lk \<and> Loads s lk = Some l"
    and "load_carrier l = None"
    and "bidirectional s"
  shows "fst (put_boat_load s boat_id load_id) = Responded 204 NoBody \<and>
         fst (delete_boat_load (snd (put_boat_load s boat_id load_id)) boat_id load_id)
           = Responded 204 NoBody \<and>
         Loads (snd (delete_boat_load (snd (put_boat_load s boat_id load_id)) boat_id load_id)) lk
           = Some l \<and>
         Boats (snd (delete_boat_load (snd (put_boat_load s boat_id load_id)) boat_id load_id)) bk
           = Some b \<and>
         Loads (snd (delete_boat_load (snd (put_boat_load s boat_id load_id)) boat_id load_id))
           = Loads s \<and>
         Boats (snd (delete_boat_load (snd (put_boat_load s boat_id load_id)) boat_id load_id))
           = Boats s"
proof -
  let ?b1 = "b\<lparr>boat_loads := boat_loads b @ [\<lparr>ref_id = lk, ref_self = None\<rparr>]\<rparr>"
  let ?c = "\<lparr>carrier_id = bk, carrier_name = boat_name b\<rparr>"
  let ?l1 = "l\<lparr>load_carrier := Some ?c\<rparr>"
  let ?s1 = "s\<lparr>Boats := (Boats s)(bk \<mapsto> ?b1), Loads := (Loads s)(lk \<mapsto> ?l1),
               accesses := accesses s @ [(Fetch, BOATS), (Fetch, LOADS), (Write, LOADS), (Write, BOATS)]\<rparr>"
  from assms have p: "parseInt boat_id = Some bk" "parseInt load_id = Some lk"
    and b: "Boats s bk = Some b" and l: "Loads s lk = Some l" by simp_all
  have put: "put_boat_load s boat_id load_id = (Responded 204 NoBody, ?s1)"
    using put_boat_load_ok[OF p b l assms(3)] .
  from assms(4) have "listedCarried s" by (simp add: bidirectional_def)
  from unlisted_when_free[OF this l assms(3) b] have fresh: "lk \<notin> ref_id ` set (boat_loads b)" .
  have del: "delete_boat_load ?s1 boat_id load_id =
      (Responded 204 NoBody,
       ?s1\<lparr>Boats := (Boats ?s1)(bk \<mapsto> spliceOut lk ?b1),
           Loads := (Loads ?s1)(lk \<mapsto> ?l1\<lparr>load_carrier := None\<rparr>),
           accesses := accesses ?s1 @ [(Fetch, BOATS), (Fetch, LOADS), (Write, LOADS), (Write, BOATS)]\<rparr>)"
    by (rule delete_boat_load_ok[OF p, of ?s1 ?b1 ?l1 ?c]) simp_all
  have back_l: "?l1\<lparr>load_carrier := None\<rparr> = l" using assms(3) by simp
  have back_b: "spliceOut lk ?b1 = b" using spliceOut_appended[OF fresh] .
  have tl: "(Loads s)(lk \<mapsto> l) = Loads s" using l by (simp add: map_upd_triv)
  have tb: "(Boats s)(bk \<mapsto> b) = Boats s" using b by (simp add: map_upd_triv)
  show ?thesis
    unfolding put snd_conv fst_conv del back_l back_b
    using l b by (simp add: tl tb)
qed

theorem assign_then_unassign_restores_witness:
  "(parseInt [0x31] = Some 1 \<and> Boats moored 1 = Some sloop) \<and>
   (parseInt [0x37] = Some 7 \<and> Loads moored 7 = Some crate) \<and>
   load_carrier crate = None \<and> bidirectional moored \<and>
   fst (put_boat_load moored [0x31] [0x37]) = Responded 204 NoBody \<and>
   fst (delete_boat_load (snd (put_boat_load moored [0x31] [0x37])) [0x31] [0x37]) = Responded 204 NoBody \<and>
   Loads (snd (delete_boat_load (snd (put_boat_load moored [0x31] [0x37])) [0x31] [0x37])) 7 = Some crate \<and>
   Boats (snd (delete_boat_load (snd (put_boat_load moored [0x31] [0x37])) [0x31] [0x37])) 1 = Some sloop \<and>
   Loads (snd (delete_boat_load (snd (put_boat_load moored [0x31] [0x37])) [0x31] [0x37])) = Loads moored \<and>
   Boats (snd (delete_boat_load (snd (put_boat_load moored [0x31] [0x37])) [0x31] [0x37])) = Boats moored"
proof -
  have h1: "parseInt [0x31] = Some 1 \<and> Boats moored 1 = Some sloop"
    and h2: "parseInt [0x37] = Some 7 \<and> Loads moored 7 = Some crate"
    by (simp_all add: parse_1_7 moored_def)
  have h3: "load_carrier crate = None" by (simp add: crate_def)
  have h4: "bidirectional moored"
    by (auto simp: bidirectional_def carriedListed_def listedCarried_def moored_def crate_def sloop_def
        split: if_splits)
  from assign_then_unassign_restores[OF h1 h2 h3 h4] h1 h2 h3 h4 show ?thesis by simp
qed

section \<open>Unassigning a load its boat does not list\<close>

lemma spliceOut_unlisted:
  assumes "lk \<notin> ref_id ` set (boat_loads b)"
  shows "spliceOut lk b = b\<lparr>boat_loads := butlast (boat_loads b)\<rparr>"
proof -
  from assms have "\<forall>x \<in> set (boat_loads b). \<not> ref_id x = lk" by auto
  from splice_missing[of "boat_loads b" "\<lambda>l. ref_id l = lk", OF this]
  show ?thesis by (simp add: spliceOut_def Let_def)
qed

text \<open>
  C9. Let the load's carrier name the boat while the boat's \<open>loads\<close> has no entry for
  the load. Then \<open>findIndex\<close> gives \<open>-1\<close>, \<open>DELETE /boats/boat_id/loads/load_id\<close> is
  still answered 204, the load's carrier is set to \<open>null\<close>, and the boat is stored with
  the last element of its \<open>loads\<close> removed (\<open>splice(-1, 1)\<close>): an entry for another
  load.
\<close>

theorem unassign_unlisted_drops_last:
  assumes "parseInt boat_id = Some bk \<and> Boats s bk = Some b"
    and "parseInt load_id = Some lk \<and> Loads s lk = Some l"
    and "load_carrier l = Some c \<and> carrier_id c = bk"
    and "lk \<notin> ref_id ` set (boat_loads b)"
  shows "findIndex (\<lambda>e. ref_id e = lk) (boat_loads b) = - 1 \<and>
         fst (delete_boat_load s boat_id load_id) = Responded 204 NoBody \<and>
         Loads (snd (delete_boat_load s boat_id load_id)) lk = Some (l\<lparr>load_carrier := None\<rparr>) \<and>
         Boats (snd (delete_boat_load s boat_id load_id)) bk
           = Some (b\<lparr>boat_loads := butlast (boat_loads b)\<rparr>) \<and>
         (boat_loads b \<noteq> [] \<longrightarrow> ref_id (last (boat_loads b)) \<noteq> lk)"
proof -
  from assms have p: "parseInt boat_id = Some bk" "parseInt load_id = Some lk"
    and b: "Boats s bk = Some b" and l: "Loads s lk = Some l"
    and c: "load_carrier l = Some c" "carrier_id c = bk" by simp_all
  from assms(4) have none: "\<forall>x \<in> set (boat_loads b). \<not> ref_id x = lk" by auto
  have i: "findIndex (\<lambda>e. ref_id e = lk) (boat_loads b) = - 1"
    using findIndex_none[of "boat_loads b" "\<lambda>e. ref_id e = lk", OF none] .
  have lastne: "boat_loads b \<noteq> [] \<longrightarrow> ref_id (last (boat_loads b)) \<noteq> lk"
    using none last_in_set by blast
  show ?thesis
    unfolding delete_boat_load_ok[OF p b l c] spliceOut_unlisted[OF assms(4)]
    using i lastne by simp
qed

theorem unassign_unlisted_drops_last_witness:
  "(parseInt [0x31] = Some 1 \<and>
      Boats astray 1 = Some (sloop\<lparr>boat_loads := [\<lparr>ref_id = 8, ref_self = None\<rparr>]\<rparr>)) \<and>
   (parseInt [0x37] = Some 7 \<and>
      Loads astray 7 = Some (crate\<lparr>load_carrier := Some \<lparr>carrier_id = 1, carrier_name = JStr ''Orca''\<rparr>\<rparr>)) \<and>
   (7::int) \<notin> ref_id ` set [\<lparr>ref_id = 8, ref_self = None\<rparr>] \<and>
   fst (delete_boat_load astray [0x31] [0x37]) = Responded 204 NoBody \<and>
   Loads (snd (delete_boat_load astray [0x31] [0x37])) 7 = Some crate \<and>
   Boats (snd (delete_boat_load astray [0x31] [0x37])) 1 = Some sloop"
proof -
  let ?b = "sloop\<lparr>boat_loads := [\<lparr>ref_id = 8, ref_self = None\<rparr>]\<rparr>"
  let ?c = "\<lparr>carrier_id = 1, carrier_name = JStr ''Orca''\<rparr>"
  let ?l = "crate\<lparr>load_carrier := Some ?c\<rparr>"
  have h1: "parseInt [0x31] = Some 1 \<and> Boats astray 1 = Some ?b"
    and h2: "parseInt [0x37] = Some 7 \<and> Loads astray 7 = Some ?l"
    by (simp_all add: parse_1_7 astray_def)
  have h3: "load_carrier ?l = Some ?c \<and> carrier_id ?c = 1" by simp
  have h4: "(7::int) \<notin> ref_id ` set (boat_loads ?b)" by simp
  from unassign_unlisted_drops_last[OF h1 h2 h3 h4] h1 h2 h4 show ?thesis
    by (simp add: sloop_def crate_def)
qed

section \<open>Assigning a load that already has a carrier\<close>

lemma put_boat_load_assigned:
  assumes "parseInt boat_id = Some bk" "Boats s bk = Some b"
    and "parseInt load_id = Some lk" "Loads s lk = Some l"
    and "load_carrier l \<noteq> None"
  shows "put_boat_load s boat_id load_id =
           (Responded 403 (ErrorBody ''The load is already assigned''),
            s\<lparr>accesses := accesses s @ [(Fetch, BOATS), (Fetch, LOADS)]\<rparr>)"
  using assms
  by (simp add: put_boat_load_def findEntity_BOATS_def findEntity_LOADS_def touch_def
        handleClientError_def LOAD_ALREADY_ASSIGNED_def Let_def)

lemma boats_router_use_pass:
  assumes "req_user_sub req = Some sub" "sub \<in> Users s" "req_accepts_json req"
  shows "boats_router_use req s = (Inr sub, s\<lparr>accesses := accesses s @ [(Fetch, USERS)]\<rparr>)"
  using assms
  by (simp add: boats_router_use_def checkJwt_def checkRegistered_def findEntity_USERS_def
        isAcceptable_def touch_def)

lemma put_boat_load_owned_assigned:
  assumes "parseInt boat_id = Some bk" "Boats s bk = Some b"
    and "parseInt load_id = Some lk" "Loads s lk = Some l"
    and "load_carrier l \<noteq> None"
    and "req_user_sub req = Some sub" "sub \<in> Users s" "req_accepts_json req"
  shows "put_boat_load_owned s req boat_id load_id =
           (if boat_owner b = Some sub
            then Responded 403 (ErrorBody ''The load is already assigned'')
            else Responded 403
                   (ErrorBody ''The associated user does not own the boat with the requested boat_id''),
            s\<lparr>accesses := accesses s @ [(Fetch, USERS), (Fetch, BOATS), (Fetch, LOADS)]\<rparr>)"
  using assms(1-5)
  by (simp add: put_boat_load_owned_def boats_router_use_pass[OF assms(6-8)]
        findEntity_BOATS_def findEntity_LOADS_def touch_def
        handleClientError_def LOAD_ALREADY_ASSIGNED_def NOT_OWNER_def Let_def)

lemma noWrites_fetches:
  "list_all (\<lambda>a. fst a = Fetch) as \<Longrightarrow> noWrites s (s\<lparr>accesses := accesses s @ as\<rparr>)"
  by (simp add: noWrites_def issued_def)

text \<open>
  C3, as stated, fails on the authenticated boats router: there the owner check comes
  before the carrier check. Bob is registered and asks to put load 7, which is already
  on Alice's boat 1, on that boat: the answer is 403 with the not-owner message, not
  \<open>The load is already assigned\<close>.
\<close>

theorem assigned_load_not_owner_message:
  "(parseInt [0x31] = Some 1 \<and>
      Boats laden 1 = Some (sloop\<lparr>boat_loads := [\<lparr>ref_id = 7, ref_self = None\<rparr>]\<rparr>)) \<and>
   (parseInt [0x37] = Some 7 \<and>
      Loads laden 7 = Some (crate\<lparr>load_carrier := Some \<lparr>carrier_id = 1, carrier_name = JStr ''Orca''\<rparr>\<rparr>)) \<and>
   req_user_sub bobAsks = Some ''bob'' \<and> ''bob'' \<in> Users laden \<and> req_accepts_json bobAsks \<and>
   fst (put_boat_load_owned laden bobAsks [0x31] [0x37]) =
     Responded 403 (ErrorBody ''The associated user does not own the boat with the requested boat_id'') \<and>
   fst (put_boat_load_owned laden bobAsks [0x31] [0x37]) \<noteq>
     Responded 403 (ErrorBody ''The load is already assigned'')"
proof -
  let ?b = "sloop\<lparr>boat_loads := [\<lparr>ref_id = 7, ref_self = None\<rparr>]\<rparr>"
  let ?l = "crate\<lparr>load_carrier := Some \<lparr>carrier_id = 1, carrier_name = JStr ''Orca''\<rparr>\<rparr>"
  have b: "Boats laden 1 = Some ?b" and l: "Loads laden 7 = Some ?l" by (simp_all add: laden_def)
  have c: "load_carrier ?l \<noteq> None" by simp
  have r: "req_user_sub bobAsks = Some ''bob''" "''bob'' \<in> Users laden" "req_accepts_json bobAsks"
    by (simp_all add: bobAsks_def laden_def)
  have o: "boat_owner ?b \<noteq> Some ''bob''" by (simp add: sloop_def)
  from put_boat_load_owned_assigned[OF parse_1_7(1) b parse_1_7(2) l c r] o b l r parse_1_7
  show ?thesis by simp
qed

text \<open>
  C3, amended. Let the boat and the load be stored and the load have a carrier. On the
  first boats router, whose assign route checks no token, \<open>PUT\<close> is answered 403
  \<open>{"Error": "The load is already assigned"}\<close> whoever asks. On the authenticated
  boats router a registered requester who accepts JSON gets that answer when the boat is
  theirs, and 403 with the not-owner message otherwise. In all these cases no table
  changes and only lookups are made.
\<close>

theorem assigned_load_is_refused:
  assumes "parseInt boat_id = Some bk \<and> Boats s bk = Some b"
    and "parseInt load_id = Some lk \<and> Loads s lk = Some l"
    and "load_carrier l \<noteq> None"
  shows "fst (put_boat_load s boat_id load_id) =
           Responded 403 (ErrorBody ''The load is already assigned'') \<and>
         noWrites s (snd (put_boat_load s boat_id load_id)) \<and>
         (req_user_sub req = Some sub \<and> sub \<in> Users s \<and> req_accepts_json req \<longrightarrow>
            fst (put_boat_load_owned s req boat_id load_id) =
              (if boat_owner b = Some sub
               then Responded 403 (ErrorBody ''The load is already assigned'')
               else Responded 403
                      (ErrorBody ''The associated user does not own the boat with the requested boat_id'')) \<and>
            noWrites s (snd (put_boat_load_owned s req boat_id load_id)))"
proof -
  from assms have h: "parseInt boat_id = Some bk" "Boats s bk = Some b"
    "parseInt load_id = Some lk" "Loads s lk = Some l" by simp_all
  note first = put_boat_load_assigned[OF h assms(3)]
  have "fst (put_boat_load_owned s req boat_id load_id) =
              (if boat_owner b = Some sub
               then Responded 403 (ErrorBody ''The load is already assigned'')
               else Responded 403
                      (ErrorBody ''The associated user does not own the boat with the requested boat_id'')) \<and>
            noWrites s (snd (put_boat_load_owned s req boat_id load_id))"
    if r: "req_user_sub req = Some sub" "sub \<in> Users s" "req_accepts_json req"
    unfolding put_boat_load_owned_assigned[OF h assms(3) r]
    by (simp add: noWrites_fetches)
  then show ?thesis unfolding first by (simp add: noWrites_fetches)
qed

theorem assigned_load_is_refused_witness:
  "(parseInt [0x31] = Some 1 \<and>
      Boats laden 1 = Some (sloop\<lparr>boat_loads := [\<lparr>ref_id = 7, ref_self = None\<rparr>]\<rparr>)) \<and>
   (parseInt [0x37] = Some 7 \<and>
      Loads laden 7 = Some (crate\<lparr>load_carrier := Some \<lparr>carrier_id = 1, carrier_name = JStr ''Orca''\<rparr>\<rparr>)) \<and>
   (req_user_sub aliceAsks = Some ''alice'' \<and> ''alice'' \<in> Users laden \<and> req_accepts_json aliceAsks) \<and>
   fst (put_boat_load laden [0x31] [0x37]) = Responded 403 (ErrorBody ''The load is already assigned'') \<and>
   noWrites laden (snd (put_boat_load laden [0x31] [0x37])) \<and>
   fst (put_boat_load_owned laden aliceAsks [0x31] [0x37]) =
     Responded 403 (ErrorBody ''The load is already assigned'') \<and>
   noWrites laden (snd (put_boat_load_owned laden aliceAsks [0x31] [0x37]))"
proof -
  let ?b = "sloop\<lparr>boat_loads := [\<lparr>ref_id = 7, ref_self = None\<rparr>]\<rparr>"
  let ?l = "crate\<lparr>load_carrier := Some \<lparr>carrier_id = 1, carrier_name = JStr ''Orca''\<rparr>\<rparr>"
  have h1: "parseInt [0x31] = Some 1 \<and> Boats laden 1 = Some ?b"
    and h2: "parseInt [0x37] = Some 7 \<and> Loads laden 7 = Some ?l"
    by (simp_all add: parse_1_7 laden_def)
  have h3: "load_carrier ?l \<noteq> None" by simp
  have r: "req_user_sub aliceAsks = Some ''alice'' \<and> ''alice'' \<in> Users laden \<and> req_accepts_json aliceAsks"
    by (simp add: aliceAsks_def laden_def)
  have o: "boat_owner ?b = Some ''alice''" by (simp add: sloop_def)
  from assigned_load_is_refused[OF h1 h2 h3, of aliceAsks "''alice''"] h1 h2 r o
  show ?thesis by simp
qed

section \<open>Deleting a boat clears the carrier of its loads\<close>

lemma nullLoadsAndDelete_empty:
  assumes "boat_loads boat = []"
  shows "nullLoadsAndDelete bk boat s =
           (Responded 204 NoBody,
            s\<lparr>Boats := (Boats s)(bk := None),
              accesses := accesses s @ [(Remove, BOATS), (WriteAll 0, LOADS)]\<rparr>)"
  using assms
  by (simp add: nullLoadsAndDelete_def deleteBoatAndUpdateLoads_def delete_BOATS_def
        update_all_LOADS_def afterWrites_def firstError_def touch_def putAll_Nil)

lemma found_length:
  "length (map clearCarrier
             (concat (map (\<lambda>k. case m k of None \<Rightarrow> [] | Some l \<Rightarrow> [(k, l)]) (map ref_id refs))))
     = length (filter (\<lambda>e. m (ref_id e) \<noteq> None) refs)"
  by (induction refs) (auto split: option.splits)

text \<open>
  The calls of the last part of the handler: with an empty \<open>loads\<close> the removal of the
  boat and an update of no entity; otherwise one \<open>get\<close> of all the keys, the removal,
  and one update of the loads that were found.
\<close>

lemma nullLoadsAndDelete_calls:
  "accesses (snd (nullLoadsAndDelete bk boat s)) =
     accesses s @
       (if boat_loads boat = [] then [(Remove, BOATS), (WriteAll 0, LOADS)]
        else [(FetchAll (length (boat_loads boat)), LOADS), (Remove, BOATS),
              (WriteAll (length (filter (\<lambda>e. Loads s (ref_id e) \<noteq> None) (boat_loads boat))),
               LOADS)])"
proof (cases "boat_loads boat = []")
  case True
  then show ?thesis by (simp add: nullLoadsAndDelete_empty)
next
  case False
  let ?found = "map clearCarrier (concat (map (\<lambda>k. case Loads s k of None \<Rightarrow> [] | Some l \<Rightarrow> [(k, l)])
                   (map ref_id (boat_loads boat))))"
  let ?t = "snd (delete_BOATS bk (snd (get_LOADS (map ref_id (boat_loads boat)) s)))"
  have stored: "\<not> (\<exists>e \<in> set ?found. Loads s (fst e) = None)"
    using found_are_stored[of _ "Loads s"] by blast
  have t: "accesses ?t = accesses s @ [(FetchAll (length (boat_loads boat)), LOADS), (Remove, BOATS)]"
    "Loads ?t = Loads s"
    by (simp_all add: delete_BOATS_def get_LOADS_def touch_def)
  have "accesses (snd (update_all_LOADS ?found ?t)) = accesses ?t @ [(WriteAll (length ?found), LOADS)]"
    using stored t(2) by (simp add: update_all_LOADS_def touch_def)
  then have "accesses (snd (update_all_LOADS ?found ?t)) =
      accesses s @ [(FetchAll (length (boat_loads boat)), LOADS), (Remove, BOATS),
                    (WriteAll (length (filter (\<lambda>e. Loads s (ref_id e) \<noteq> None) (boat_loads boat))),
                     LOADS)]"
    unfolding t(1) found_length by simp
  moreover have "snd (nullLoadsAndDelete bk boat s) = snd (update_all_LOADS ?found ?t)"
    using False
    by (simp add: nullLoadsAndDelete_def get_LOADS_def deleteBoatAndUpdateLoads_def delete_BOATS_def
          split_def Let_def)
  ultimately show ?thesis using False by simp
qed

lemma cleared_listed:
  "e \<in> set refs \<Longrightarrow>
   cleared refs m (ref_id e) = map_option (\<lambda>l. l\<lparr>load_carrier := None\<rparr>) (m (ref_id e))"
  by (simp add: cleared_def)

lemma cleared_unlisted: "k \<notin> ref_id ` set refs \<Longrightarrow> cleared refs m k = m k"
  by (simp add: cleared_def)

lemma cleared_Nil: "cleared [] m = m"
  by (simp add: cleared_def)

lemma delete_boat_run:
  assumes "parseInt boat_id = Some bk" "Boats s bk = Some b"
    and "req_user_sub req = Some sub" "sub \<in> Users s"
  shows "delete_boat s req boat_id =
           nullLoadsAndDelete bk b (s\<lparr>accesses := accesses s @ [(Fetch, USERS), (Fetch, BOATS)]\<rparr>)"
  using assms
  by (simp add: delete_boat_def checkJwt_def checkRegistered_def findEntity_USERS_def
        delete_boat_handler_def findEntity_BOATS_def touch_def)

lemma delete_boat_owned_run:
  assumes "parseInt boat_id = Some bk" "Boats s bk = Some b"
    and "req_user_sub req = Some sub" "sub \<in> Users s" "req_accepts_json req"
    and "boat_owner b = Some sub"
  shows "delete_boat_owned s req boat_id =
           nullLoadsAndDelete bk b (s\<lparr>accesses := accesses s @ [(Fetch, USERS), (Fetch, BOATS)]\<rparr>)"
  using assms(1,2,6)
  by (simp add: delete_boat_owned_def boats_router_use_pass[OF assms(3-5)]
        findEntity_BOATS_def touch_def)

text \<open>
  What deleting a boat leaves behind, for a datastore \<open>s'\<close> reached from \<open>s\<close>: the boat
  is absent; every load the boat's \<open>loads\<close> names that was stored is stored with carrier
  \<open>null\<close> (and is otherwise as it was), and no load appears that was not stored; every
  other load and every other boat is as it was.
\<close>

lemma after_delete_boat:
  assumes B: "Boats s' = (Boats s)(bk := None)"
    and L: "Loads s' = cleared (boat_loads b) (Loads s)"
  shows "Boats s' bk = None \<and>
         list_all (\<lambda>e. Loads s' (ref_id e) =
                        map_option (\<lambda>l. l\<lparr>load_carrier := None\<rparr>) (Loads s (ref_id e)))
                  (boat_loads b) \<and>
         list_all (\<lambda>e. case Loads s' (ref_id e) of
                          None \<Rightarrow> Loads s (ref_id e) = None
                        | Some l \<Rightarrow> load_carrier l = None)
                  (boat_loads b)"
proof -
  have 1: "Loads s' (ref_id e) = map_option (\<lambda>l. l\<lparr>load_carrier := None\<rparr>) (Loads s (ref_id e))"
    if "e \<in> set (boat_loads b)" for e
    using that L by (simp add: cleared_listed)
  have 2: "(case Loads s' (ref_id e) of None \<Rightarrow> Loads s (ref_id e) = None
            | Some l \<Rightarrow> load_carrier l = None)"
    if "e \<in> set (boat_loads b)" for e
    using 1[OF that] by (cases "Loads s (ref_id e)") simp_all
  from B 1 2 show ?thesis by (simp add: list_all_iff)
qed

lemma issued_appended: "issued s (t\<lparr>accesses := accesses s @ as\<rparr>) = as"
  by (simp add: issued_def)

lemma nullLoadsAndDelete_summary:
  assumes "Boats t = Boats s" "Loads t = Loads s"
  shows "fst (nullLoadsAndDelete bk b t) = Responded 204 NoBody \<and>
   Boats (snd (nullLoadsAndDelete bk b t)) = (Boats s)(bk := None) \<and>
   Boats (snd (nullLoadsAndDelete bk b t)) bk = None \<and>
   list_all (\<lambda>e. case Loads (snd (nullLoadsAndDelete bk b t)) (ref_id e) of
                    None \<Rightarrow> Loads s (ref_id e) = None
                  | Some l \<Rightarrow> load_carrier l = None)
            (boat_loads b) \<and>
   Loads (snd (nullLoadsAndDelete bk b t)) = cleared (boat_loads b) (Loads s)"
proof -
  note r = nullLoadsAndDelete_result[of bk b t]
  from r assms have B: "Boats (snd (nullLoadsAndDelete bk b t)) = (Boats s)(bk := None)"
    and L: "Loads (snd (nullLoadsAndDelete bk b t)) = cleared (boat_loads b) (Loads s)"
    by simp_all
  from after_delete_boat[OF B L] r B L show ?thesis by blast
qed

text \<open>
  The calls of the whole request, after the two lookups of the user and of the boat.
\<close>

lemma nullLoadsAndDelete_issued:
  assumes "accesses t = accesses s @ [(Fetch, USERS), (Fetch, BOATS)]" "Loads t = Loads s"
  shows "(boat_loads b = [] \<longrightarrow>
            issued s (snd (nullLoadsAndDelete bk b t))
              = [(Fetch, USERS), (Fetch, BOATS), (Remove, BOATS), (WriteAll 0, LOADS)]) \<and>
         (boat_loads b \<noteq> [] \<longrightarrow>
            issued s (snd (nullLoadsAndDelete bk b t))
              = [(Fetch, USERS), (Fetch, BOATS), (FetchAll (length (boat_loads b)), LOADS),
                 (Remove, BOATS),
                 (WriteAll (length (filter (\<lambda>e. Loads s (ref_id e) \<noteq> None) (boat_loads b))),
                  LOADS)])"
  unfolding issued_def nullLoadsAndDelete_calls assms by simp

text \<open>
  C4, as stated, fails in its last part: with an empty \<open>loads\<close> the fetch of loads is
  skipped, but the update is not. The handler ends with
  \<open>datastore.update(loads || [])\<close>, whatever \<open>loads\<close> is. Boat 1 of the example lists no
  load; deleting it makes four calls, the last of them the update of an empty array.
\<close>

theorem delete_boat_updates_also_no_loads:
  "boat_loads sloop = [] \<and> Boats moored 1 = Some sloop \<and>
   fst (delete_boat moored aliceAsks [0x31]) = Responded 204 NoBody \<and>
   issued moored (snd (delete_boat moored aliceAsks [0x31]))
     = [(Fetch, USERS), (Fetch, BOATS), (Remove, BOATS), (WriteAll 0, LOADS)] \<and>
   issued moored (snd (delete_boat moored aliceAsks [0x31]))
     \<noteq> [(Fetch, USERS), (Fetch, BOATS), (Remove, BOATS)] \<and>
   fst (delete_boat_owned moored aliceAsks [0x31]) = Responded 204 NoBody \<and>
   issued moored (snd (delete_boat_owned moored aliceAsks [0x31]))
     = [(Fetch, USERS), (Fetch, BOATS), (Remove, BOATS), (WriteAll 0, LOADS)] \<and>
   issued moored (snd (delete_boat_owned moored aliceAsks [0x31]))
     \<noteq> [(Fetch, USERS), (Fetch, BOATS), (Remove, BOATS)]"
proof -
  have e: "boat_loads sloop = []" by (simp add: sloop_def)
  have b: "Boats moored 1 = Some sloop" by (simp add: moored_def)
  have r: "req_user_sub aliceAsks = Some ''alice''" "''alice'' \<in> Users moored"
    "req_accepts_json aliceAsks" "boat_owner sloop = Some ''alice''"
    by (simp_all add: aliceAsks_def moored_def sloop_def)
  have first: "delete_boat moored aliceAsks [0x31] =
      (Responded 204 NoBody,
       moored\<lparr>Boats := (Boats moored)(1 := None),
              accesses := accesses moored @
                [(Fetch, USERS), (Fetch, BOATS), (Remove, BOATS), (WriteAll 0, LOADS)]\<rparr>)"
    unfolding delete_boat_run[OF parse_1_7(1) b r(1,2)] nullLoadsAndDelete_empty[OF e] by simp
  have owned: "delete_boat_owned moored aliceAsks [0x31] =
      (Responded 204 NoBody,
       moored\<lparr>Boats := (Boats moored)(1 := None),
              accesses := accesses moored @
                [(Fetch, USERS), (Fetch, BOATS), (Remove, BOATS), (WriteAll 0, LOADS)]\<rparr>)"
    unfolding delete_boat_owned_run[OF parse_1_7(1) b r] nullLoadsAndDelete_empty[OF e] by simp
  from e b show ?thesis unfolding first owned by (simp add: issued_def)
qed

text \<open>
  C4, amended. Let the boat be stored and the requester hold a valid token of a
  registered user (on the authenticated router: accept JSON and own the boat). Then
  \<open>DELETE /boats/boat_id\<close> is answered 204; afterwards the boat is absent and every other
  boat is as it was; every load named in the boat's \<open>loads\<close> that was stored is stored
  with carrier \<open>null\<close>, and the loads are otherwise as they were. When the boat's \<open>loads\<close>
  is empty, the loads table is untouched and no load is fetched; the calls are the lookup
  of the user, the lookup of the boat, the boat's removal and an update of an empty array
  of entities. Otherwise the calls are the two lookups, one \<open>get\<close> of the keys of all the
  entries, the boat's removal and one update of the loads that were found.
\<close>

theorem delete_boat_clears_carriers:
  assumes "parseInt boat_id = Some bk \<and> Boats s bk = Some b"
    and "req_user_sub req = Some sub \<and> sub \<in> Users s"
  shows "(fst (delete_boat s req boat_id) = Responded 204 NoBody \<and>
          Boats (snd (delete_boat s req boat_id)) = (Boats s)(bk := None) \<and>
          Boats (snd (delete_boat s req boat_id)) bk = None \<and>
          list_all (\<lambda>e. case Loads (snd (delete_boat s req boat_id)) (ref_id e) of
                           None \<Rightarrow> Loads s (ref_id e) = None
                         | Some l \<Rightarrow> load_carrier l = None)
                   (boat_loads b) \<and>
          Loads (snd (delete_boat s req boat_id)) = cleared (boat_loads b) (Loads s) \<and>
          (boat_loads b = [] \<longrightarrow>
             Loads (snd (delete_boat s req boat_id)) = Loads s \<and>
             issued s (snd (delete_boat s req boat_id))
               = [(Fetch, USERS), (Fetch, BOATS), (Remove, BOATS), (WriteAll 0, LOADS)]) \<and>
          (boat_loads b \<noteq> [] \<longrightarrow>
             issued s (snd (delete_boat s req boat_id))
               = [(Fetch, USERS), (Fetch, BOATS), (FetchAll (length (boat_loads b)), LOADS),
                  (Remove, BOATS),
                  (WriteAll (length (filter (\<lambda>e. Loads s (ref_id e) \<noteq> None) (boat_loads b))),
                   LOADS)])) \<and>
         (req_accepts_json req \<and> boat_owner b = Some sub \<longrightarrow>
          fst (delete_boat_owned s req boat_id) = Responded 204 NoBody \<and>
          Boats (snd (delete_boat_owned s req boat_id)) = (Boats s)(bk := None) \<and>
          Boats (snd (delete_boat_owned s req boat_id)) bk = None \<and>
          list_all (\<lambda>e. case Loads (snd (delete_boat_owned s req boat_id)) (ref_id e) of
                           None \<Rightarrow> Loads s (ref_id e) = None
                         | Some l \<Rightarrow> load_carrier l = None)
                   (boat_loads b) \<and>
          Loads (snd (delete_boat_owned s req boat_id)) = cleared (boat_loads b) (Loads s) \<and>
          (boat_loads b = [] \<longrightarrow>
             Loads (snd (delete_boat_owned s req boat_id)) = Loads s \<and>
             issued s (snd (delete_boat_owned s req boat_id))
               = [(Fetch, USERS), (Fetch, BOATS), (Remove, BOATS), (WriteAll 0, LOADS)]) \<and>
          (boat_loads b \<noteq> [] \<longrightarrow>
             issued s (snd (delete_boat_owned s req boat_id))
               = [(Fetch, USERS), (Fetch, BOATS), (FetchAll (length (boat_loads b)), LOADS),
                  (Remove, BOATS),
                  (WriteAll (length (filter (\<lambda>e. Loads s (ref_id e) \<noteq> None) (boat_loads b))),
                   LOADS)]))"
proof -
  let ?t = "s\<lparr>accesses := accesses s @ [(Fetch, USERS), (Fetch, BOATS)]\<rparr>"
  from assms have h: "parseInt boat_id = Some bk" "Boats s bk = Some b"
    "req_user_sub req = Some sub" "sub \<in> Users s" by simp_all
  have sum: "fst (nullLoadsAndDelete bk b ?t) = Responded 204 NoBody \<and>
     Boats (snd (nullLoadsAndDelete bk b ?t)) = (Boats s)(bk := None) \<and>
     Boats (snd (nullLoadsAndDelete bk b ?t)) bk = None \<and>
     list_all (\<lambda>e. case Loads (snd (nullLoadsAndDelete bk b ?t)) (ref_id e) of
                      None \<Rightarrow> Loads s (ref_id e) = None
                    | Some l \<Rightarrow> load_carrier l = None)
              (boat_loads b) \<and>
     Loads (snd (nullLoadsAndDelete bk b ?t)) = cleared (boat_loads b) (Loads s)"
    by (rule nullLoadsAndDelete_summary) simp_all
  have calls: "(boat_loads b = [] \<longrightarrow>
            issued s (snd (nullLoadsAndDelete bk b ?t))
              = [(Fetch, USERS), (Fetch, BOATS), (Remove, BOATS), (WriteAll 0, LOADS)]) \<and>
         (boat_loads b \<noteq> [] \<longrightarrow>
            issued s (snd (nullLoadsAndDelete bk b ?t))
              = [(Fetch, USERS), (Fetch, BOATS), (FetchAll (length (boat_loads b)), LOADS),
                 (Remove, BOATS),
                 (WriteAll (length (filter (\<lambda>e. Loads s (ref_id e) \<noteq> None) (boat_loads b))),
                  LOADS)])"
    by (rule nullLoadsAndDelete_issued) simp_all
  have untouched: "Loads (snd (nullLoadsAndDelete bk b ?t)) = Loads s" if "boat_loads b = []"
    using sum that by (simp add: cleared_Nil)
  have first: "delete_boat s req boat_id = nullLoadsAndDelete bk b ?t"
    using delete_boat_run[OF h] .
  have owned: "delete_boat_owned s req boat_id = nullLoadsAndDelete bk b ?t"
    if "req_accepts_json req" "boat_owner b = Some sub"
    using delete_boat_owned_run[OF h that] .
  show ?thesis
  proof (intro conjI impI)
    show "fst (delete_boat s req boat_id) = Responded 204 NoBody"
      "Boats (snd (delete_boat s req boat_id)) = (Boats s)(bk := None)"
      "Boats (snd (delete_boat s req boat_id)) bk = None"
      "list_all (\<lambda>e. case Loads (snd (delete_boat s req boat_id)) (ref_id e) of
                           None \<Rightarrow> Loads s (ref_id e) = None
                         | Some l \<Rightarrow> load_carrier l = None)
                   (boat_loads b)"
      "Loads (snd (delete_boat s req boat_id)) = cleared (boat_loads b) (Loads s)"
      unfolding first using sum by blast+
    show "Loads (snd (delete_boat s req boat_id)) = Loads s"
      "issued s (snd (delete_boat s req boat_id))
         = [(Fetch, USERS), (Fetch, BOATS), (Remove, BOATS), (WriteAll 0, LOADS)]"
      if "boat_loads b = []"
      unfolding first using calls untouched that by blast+
    show "issued s (snd (delete_boat s req boat_id))
            = [(Fetch, USERS), (Fetch, BOATS), (FetchAll (length (boat_loads b)), LOADS),
               (Remove, BOATS),
               (WriteAll (length (filter (\<lambda>e. Loads s (ref_id e) \<noteq> None) (boat_loads b))),
                LOADS)]"
      if "boat_loads b \<noteq> []"
      unfolding first using calls that by blast
  next
    assume o: "req_accepts_json req \<and> boat_owner b = Some sub"
    then have run: "delete_boat_owned s req boat_id = nullLoadsAndDelete bk b ?t"
      using owned by blast
    show "fst (delete_boat_owned s req boat_id) = Responded 204 NoBody"
      "Boats (snd (delete_boat_owned s req boat_id)) = (Boats s)(bk := None)"
      "Boats (snd (delete_boat_owned s req boat_id)) bk = None"
      "list_all (\<lambda>e. case Loads (snd (delete_boat_owned s req boat_id)) (ref_id e) of
                           None \<Rightarrow> Loads s (ref_id e) = None
                         | Some l \<Rightarrow> load_carrier l = None)
                   (boat_loads b)"
      "Loads (snd (delete_boat_owned s req boat_id)) = cleared (boat_loads b) (Loads s)"
      unfolding run using sum by blast+
    show "Loads (snd (delete_boat_owned s req boat_id)) = Loads s"
      "issued s (snd (delete_boat_owned s req boat_id))
         = [(Fetch, USERS), (Fetch, BOATS), (Remove, BOATS), (WriteAll 0, LOADS)]"
      if "boat_loads b = []"
      unfolding run using calls untouched that by blast+
    show "issued s (snd (delete_boat_owned s req boat_id))
            = [(Fetch, USERS), (Fetch, BOATS), (FetchAll (length (boat_loads b)), LOADS),
               (Remove, BOATS),
               (WriteAll (length (filter (\<lambda>e. Loads s (ref_id e) \<noteq> None) (boat_loads b))),
                LOADS)]"
      if "boat_loads b \<noteq> []"
      unfolding run using calls that by blast
  qed
qed

text \<open>
  The theorem at boat 1 carrying load 7 (requested by its owner), and at boat 1 with no
  load.
\<close>

theorem delete_boat_clears_carriers_witness:
  "((parseInt [0x31] = Some 1 \<and>
       Boats laden 1 = Some (sloop\<lparr>boat_loads := [\<lparr>ref_id = 7, ref_self = None\<rparr>]\<rparr>)) \<and>
    (req_user_sub aliceAsks = Some ''alice'' \<and> ''alice'' \<in> Users laden) \<and>
    (req_accepts_json aliceAsks \<and>
       boat_owner (sloop\<lparr>boat_loads := [\<lparr>ref_id = 7, ref_self = None\<rparr>]\<rparr>) = Some ''alice'') \<and>
    fst (delete_boat laden aliceAsks [0x31]) = Responded 204 NoBody \<and>
    Boats (snd (delete_boat laden aliceAsks [0x31])) 1 = None \<and>
    Loads (snd (delete_boat laden aliceAsks [0x31])) 7 = Some crate \<and>
    issued laden (snd (delete_boat laden aliceAsks [0x31]))
      = [(Fetch, USERS), (Fetch, BOATS), (FetchAll 1, LOADS), (Remove, BOATS), (WriteAll 1, LOADS)] \<and>
    fst (delete_boat_owned laden aliceAsks [0x31]) = Responded 204 NoBody \<and>
    Boats (snd (delete_boat_owned laden aliceAsks [0x31])) 1 = None \<and>
    Loads (snd (delete_boat_owned laden aliceAsks [0x31])) 7 = Some crate \<and>
    issued laden (snd (delete_boat_owned laden aliceAsks [0x31]))
      = [(Fetch, USERS), (Fetch, BOATS), (FetchAll 1, LOADS), (Remove, BOATS), (WriteAll 1, LOADS)]) \<and>
   ((parseInt [0x31] = Some 1 \<and> Boats moored 1 = Some sloop) \<and>
    (req_user_sub aliceAsks = Some ''alice'' \<and> ''alice'' \<in> Users moored) \<and>
    (req_accepts_json aliceAsks \<and> boat_owner sloop = Some ''alice'') \<and>
    boat_loads sloop = [] \<and>
    fst (delete_boat moored aliceAsks [0x31]) = Responded 204 NoBody \<and>
    Boats (snd (delete_boat moored aliceAsks [0x31])) 1 = None \<and>
    Loads (snd (delete_boat moored aliceAsks [0x31])) = Loads moored \<and>
    issued moored (snd (delete_boat moored aliceAsks [0x31]))
      = [(Fetch, USERS), (Fetch, BOATS), (Remove, BOATS), (WriteAll 0, LOADS)] \<and>
    fst (delete_boat_owned moored aliceAsks [0x31]) = Responded 204 NoBody \<and>
    Loads (snd (delete_boat_owned moored aliceAsks [0x31])) = Loads moored \<and>
    issued moored (snd (delete_boat_owned moored aliceAsks [0x31]))
      = [(Fetch, USERS), (Fetch, BOATS), (Remove, BOATS), (WriteAll 0, LOADS)])"
proof -
  let ?b = "sloop\<lparr>boat_loads := [\<lparr>ref_id = 7, ref_self = None\<rparr>]\<rparr>"
  have a1: "parseInt [0x31] = Some 1 \<and> Boats laden 1 = Some ?b"
    and a2: "req_user_sub aliceAsks = Some ''alice'' \<and> ''alice'' \<in> Users laden"
    and a3: "req_accepts_json aliceAsks \<and> boat_owner ?b = Some ''alice''"
    by (simp_all add: parse_1_7 laden_def aliceAsks_def sloop_def)
  have m1: "parseInt [0x31] = Some 1 \<and> Boats moored 1 = Some sloop"
    and m2: "req_user_sub aliceAsks = Some ''alice'' \<and> ''alice'' \<in> Users moored"
    and m3: "req_accepts_json aliceAsks \<and> boat_owner sloop = Some ''alice''"
    and m4: "boat_loads sloop = []"
    by (simp_all add: parse_1_7 moored_def aliceAsks_def sloop_def)
  have c7: "cleared (boat_loads ?b) (Loads laden) 7 = Some crate"
    by (simp add: cleared_def laden_def crate_def)
  have n7: "boat_loads ?b \<noteq> []"
    "length (boat_loads ?b) = 1"
    "length (filter (\<lambda>e. Loads laden (ref_id e) \<noteq> None) (boat_loads ?b)) = 1"
    by (simp_all add: laden_def)
  from delete_boat_clears_carriers[OF a1 a2] a3 c7 n7
  have A: "fst (delete_boat laden aliceAsks [0x31]) = Responded 204 NoBody \<and>
    Boats (snd (delete_boat laden aliceAsks [0x31])) 1 = None \<and>
    Loads (snd (delete_boat laden aliceAsks [0x31])) 7 = Some crate \<and>
    issued laden (snd (delete_boat laden aliceAsks [0x31]))
      = [(Fetch, USERS), (Fetch, BOATS), (FetchAll 1, LOADS), (Remove, BOATS), (WriteAll 1, LOADS)] \<and>
    fst (delete_boat_owned laden aliceAsks [0x31]) = Responded 204 NoBody \<and>
    Boats (snd (delete_boat_owned laden aliceAsks [0x31])) 1 = None \<and>
    Loads (snd (delete_boat_owned laden aliceAsks [0x31])) 7 = Some crate \<and>
    issued laden (snd (delete_boat_owned laden aliceAsks [0x31]))
      = [(Fetch, USERS), (Fetch, BOATS), (FetchAll 1, LOADS), (Remove, BOATS), (WriteAll 1, LOADS)]"
    by simp
  from delete_boat_clears_carriers[OF m1 m2] m3 m4
  have M: "fst (delete_boat moored aliceAsks [0x31]) = Responded 204 NoBody \<and>
    Boats (snd (delete_boat moored aliceAsks [0x31])) 1 = None \<and>
    Loads (snd (delete_boat moored aliceAsks [0x31])) = Loads moored \<and>
    issued moored (snd (delete_boat moored aliceAsks [0x31]))
      = [(Fetch, USERS), (Fetch, BOATS), (Remove, BOATS), (WriteAll 0, LOADS)] \<and>
    fst (delete_boat_owned moored aliceAsks [0x31]) = Responded 204 NoBody \<and>
    Loads (snd (delete_boat_owned moored aliceAsks [0x31])) = Loads moored \<and>
    issued moored (snd (delete_boat_owned moored aliceAsks [0x31]))
      = [(Fetch, USERS), (Fetch, BOATS), (Remove, BOATS), (WriteAll 0, LOADS)]"
    by (simp add: cleared_Nil)
  from A M a1 a2 a3 m1 m2 m3 m4 show ?thesis by blast
qed

section \<open>Deleting a load\<close>

lemma delete_load_carried:
  assumes "parseInt load_id = Some lk" "Loads s lk = Some l"
    and "load_carrier l = Some c" "Boats s (carrier_id c) = Some b"
  shows "delete_load s load_id =
           (Responded 204 NoBody,
            s\<lparr>Loads := (Loads s)(lk := None),
              Boats := (Boats s)(carrier_id c \<mapsto> spliceOut lk b),
              accesses := accesses s @ [(Fetch, LOADS), (Fetch, BOATS), (Remove, LOADS), (Write, BOATS)]\<rparr>)"
  using assms
  by (simp add: delete_load_def findEntity_LOADS_def findEntity_BOATS_def delete_LOADS_def
        update_BOATS_def afterWrites_def firstError_def touch_def)

lemma delete_load_free:
  assumes "parseInt load_id = Some lk" "Loads s lk = Some l" "load_carrier l = None"
  shows "delete_load s load_id =
           (Responded 500 (ErrorBody ''Something went wrong. We will fix it shortly.''),
            s\<lparr>Loads := (Loads s)(lk := None),
              accesses := accesses s @ [(Fetch, LOADS), (Remove, LOADS)]\<rparr>)"
  using assms
  by (simp add: delete_load_def findEntity_LOADS_def delete_LOADS_def handleServerError_def
        touch_def)

lemma delete_load_acc_carried:
  assumes "parseInt load_id = Some lk" "Loads s lk = Some l"
    and "load_carrier l = Some c" "Boats s (carrier_id c) = Some b"
    and "req_accepts_json req"
  shows "delete_load_acc s req load_id =
           (Responded 204 NoBody,
            s\<lparr>Loads := (Loads s)(lk := None),
              Boats := (Boats s)(carrier_id c \<mapsto> spliceOut lk b),
              accesses := accesses s @ [(Fetch, LOADS), (Fetch, BOATS), (Remove, LOADS), (Write, BOATS)]\<rparr>)"
  using assms
  by (simp add: delete_load_acc_def isAcceptable_def findEntity_LOADS_def findEntity_BOATS_def
        delete_LOADS_def update_BOATS_def afterWrites_def firstError_def touch_def)

lemma delete_load_acc_free:
  assumes "parseInt load_id = Some lk" "Loads s lk = Some l" "load_carrier l = None"
    and "req_accepts_json req"
  shows "delete_load_acc s req load_id =
           (Responded 204 NoBody,
            s\<lparr>Loads := (Loads s)(lk := None),
              accesses := accesses s @ [(Fetch, LOADS), (Remove, LOADS)]\<rparr>)"
  using assms
  by (simp add: delete_load_acc_def isAcceptable_def findEntity_LOADS_def delete_LOADS_def
        afterWrites_def firstError_def touch_def)

lemma spliceOut_first:
  assumes "lk \<in> ref_id ` set (boat_loads b)"
  shows "\<exists>ys e zs. boat_loads b = ys @ e # zs \<and> ref_id e = lk \<and>
           list_all (\<lambda>y. ref_id y \<noteq> lk) ys \<and> spliceOut lk b = b\<lparr>boat_loads := ys @ zs\<rparr>"
proof -
  from spliceOut_split[OF assms] obtain ys e zs where
    s: "boat_loads b = ys @ e # zs" "ref_id e = lk" "\<forall>y \<in> set ys. ref_id y \<noteq> lk"
       "boat_loads (spliceOut lk b) = ys @ zs" by blast
  have "spliceOut lk b = b\<lparr>boat_loads := boat_loads (spliceOut lk b)\<rparr>"
    by (simp add: spliceOut_def Let_def)
  with s have "spliceOut lk b = b\<lparr>boat_loads := ys @ zs\<rparr>" by simp
  with s show ?thesis by (auto simp: list_all_iff)
qed

text \<open>
  The part of C5 that holds. Let the load be stored. If it has a carrier, the carrier boat
  is stored and the boat's \<open>loads\<close> has an entry with the load's id, then
  \<open>DELETE /loads/load_id\<close> is answered 204 by both loads routers (by the second one for a
  request that accepts JSON), the load is absent, and the boat is stored with the first
  such entry removed and every other entry, in order, kept; nothing else changes. If the
  load has no carrier, the second loads router answers 204, removes the load, changes no
  boat and neither fetches nor writes a boat.
\<close>

lemma delete_load_takes_first_entry:
  assumes "parseInt load_id = Some lk \<and> Loads s lk = Some l"
  shows
    "(load_carrier l = Some c \<and> Boats s (carrier_id c) = Some b \<and>
      lk \<in> ref_id ` set (boat_loads b) \<longrightarrow>
        (\<exists>ys e zs.
           boat_loads b = ys @ e # zs \<and> ref_id e = lk \<and> list_all (\<lambda>y. ref_id y \<noteq> lk) ys \<and>
           fst (delete_load s load_id) = Responded 204 NoBody \<and>
           Boats (snd (delete_load s load_id))
             = (Boats s)(carrier_id c \<mapsto> b\<lparr>boat_loads := ys @ zs\<rparr>) \<and>
           Loads (snd (delete_load s load_id)) = (Loads s)(lk := None) \<and>
           (req_accepts_json req \<longrightarrow>
              fst (delete_load_acc s req load_id) = Responded 204 NoBody \<and>
              Boats (snd (delete_load_acc s req load_id))
                = (Boats s)(carrier_id c \<mapsto> b\<lparr>boat_loads := ys @ zs\<rparr>) \<and>
              Loads (snd (delete_load_acc s req load_id)) = (Loads s)(lk := None)))) \<and>
     (load_carrier l = None \<and> req_accepts_json req \<longrightarrow>
        fst (delete_load_acc s req load_id) = Responded 204 NoBody \<and>
        Loads (snd (delete_load_acc s req load_id)) = (Loads s)(lk := None) \<and>
        Boats (snd (delete_load_acc s req load_id)) = Boats s \<and>
        issued s (snd (delete_load_acc s req load_id)) = [(Fetch, LOADS), (Remove, LOADS)])"
proof (intro conjI impI)
  from assms have p: "parseInt load_id = Some lk" and l: "Loads s lk = Some l" by simp_all
  {
    assume h: "load_carrier l = Some c \<and> Boats s (carrier_id c) = Some b \<and>
               lk \<in> ref_id ` set (boat_loads b)"
    then have c: "load_carrier l = Some c" and b: "Boats s (carrier_id c) = Some b"
      and listed: "lk \<in> ref_id ` set (boat_loads b)" by simp_all
    from spliceOut_first[OF listed] obtain ys e zs where
      s: "boat_loads b = ys @ e # zs" "ref_id e = lk" "list_all (\<lambda>y. ref_id y \<noteq> lk) ys"
         "spliceOut lk b = b\<lparr>boat_loads := ys @ zs\<rparr>" by blast
    have first: "fst (delete_load s load_id) = Responded 204 NoBody \<and>
           Boats (snd (delete_load s load_id))
             = (Boats s)(carrier_id c \<mapsto> b\<lparr>boat_loads := ys @ zs\<rparr>) \<and>
           Loads (snd (delete_load s load_id)) = (Loads s)(lk := None)"
      unfolding delete_load_carried[OF p l c b] s(4) by simp
    have second: "fst (delete_load_acc s req load_id) = Responded 204 NoBody \<and>
              Boats (snd (delete_load_acc s req load_id))
                = (Boats s)(carrier_id c \<mapsto> b\<lparr>boat_loads := ys @ zs\<rparr>) \<and>
              Loads (snd (delete_load_acc s req load_id)) = (Loads s)(lk := None)"
      if "req_accepts_json req"
      unfolding delete_load_acc_carried[OF p l c b that] s(4) by simp
    from s first second
    show "\<exists>ys e zs.
           boat_loads b = ys @ e # zs \<and> ref_id e = lk \<and> list_all (\<lambda>y. ref_id y \<noteq> lk) ys \<and>
           fst (delete_load s load_id) = Responded 204 NoBody \<and>
           Boats (snd (delete_load s load_id))
             = (Boats s)(carrier_id c \<mapsto> b\<lparr>boat_loads := ys @ zs\<rparr>) \<and>
           Loads (snd (delete_load s load_id)) = (Loads s)(lk := None) \<and>
           (req_accepts_json req \<longrightarrow>
              fst (delete_load_acc s req load_id) = Responded 204 NoBody \<and>
              Boats (snd (delete_load_acc s req load_id))
                = (Boats s)(carrier_id c \<mapsto> b\<lparr>boat_loads := ys @ zs\<rparr>) \<and>
              Loads (snd (delete_load_acc s req load_id)) = (Loads s)(lk := None))"
      by blast
  }
  {
    assume n: "load_carrier l = None \<and> req_accepts_json req"
    then have g: "delete_load_acc s req load_id =
           (Responded 204 NoBody,
            s\<lparr>Loads := (Loads s)(lk := None),
              accesses := accesses s @ [(Fetch, LOADS), (Remove, LOADS)]\<rparr>)"
      using delete_load_acc_free[OF p l] by blast
    show "fst (delete_load_acc s req load_id) = Responded 204 NoBody"
      "Loads (snd (delete_load_acc s req load_id)) = (Loads s)(lk := None)"
      "Boats (snd (delete_load_acc s req load_id)) = Boats s"
      "issued s (snd (delete_load_acc s req load_id)) = [(Fetch, LOADS), (Remove, LOADS)]"
      unfolding g by (simp_all add: issued_def)
  }
qed

text \<open>
  When the carrier boat does not list the load, both routers remove the boat's last
  entry instead: \<open>findIndex\<close> gives \<open>-1\<close>, which is passed to \<open>splice\<close> unchecked. Load 7
  names boat 1, which lists load 8 only; \<open>DELETE /loads/7\<close> is answered 204 and boat 1 is
  stored without its entry for load 8.
\<close>

lemma delete_load_removes_other_entry:
  "(parseInt [0x37] = Some 7 \<and>
      Loads astray 7 = Some (crate\<lparr>load_carrier := Some \<lparr>carrier_id = 1, carrier_name = JStr ''Orca''\<rparr>\<rparr>)) \<and>
   Boats astray 1 = Some (sloop\<lparr>boat_loads := [\<lparr>ref_id = 8, ref_self = None\<rparr>]\<rparr>) \<and>
   fst (delete_load astray [0x37]) = Responded 204 NoBody \<and>
   Boats (snd (delete_load astray [0x37])) 1 = Some (sloop\<lparr>boat_loads := []\<rparr>) \<and>
   fst (delete_load_acc astray aliceAsks [0x37]) = Responded 204 NoBody \<and>
   Boats (snd (delete_load_acc astray aliceAsks [0x37])) 1 = Some (sloop\<lparr>boat_loads := []\<rparr>)"
proof -
  let ?b = "sloop\<lparr>boat_loads := [\<lparr>ref_id = 8, ref_self = None\<rparr>]\<rparr>"
  let ?c = "\<lparr>carrier_id = 1, carrier_name = JStr ''Orca''\<rparr>"
  let ?l = "crate\<lparr>load_carrier := Some ?c\<rparr>"
  have l: "Loads astray 7 = Some ?l" and b: "Boats astray (carrier_id ?c) = Some ?b"
    and b1: "Boats astray 1 = Some ?b"
    by (simp_all add: astray_def)
  have c: "load_carrier ?l = Some ?c" by simp
  have r: "req_accepts_json aliceAsks" by (simp add: aliceAsks_def)
  have sp: "spliceOut 7 ?b = sloop\<lparr>boat_loads := []\<rparr>"
    by (simp add: spliceOut_def splice1_def Let_def sloop_def)
  show ?thesis
    unfolding delete_load_carried[OF parse_1_7(2) l c b] delete_load_acc_carried[OF parse_1_7(2) l c b r] sp
    using l b1 by (simp add: parse_1_7)
qed

text \<open>
  C5 at the failing input. Load 7 is stored and has no carrier. The first loads router
  ends its handler with \<open>Promise.all([datastore.delete(key), datastore.update(carrier || {})])\<close>:
  the load is removed, the update of the object without a key is rejected, and
  \<open>DELETE /loads/7\<close> is answered 500 instead of 204. The second loads router, whose
  second action is \<open>Promise.resolve\<close> when there is no carrier, answers the same request
  with 204. Both leave the boats as they were and make the same two calls.
\<close>

theorem delete_load_without_carrier_is_server_error:
  "Loads moored 7 = Some crate \<and> load_carrier crate = None \<and>
   delete_load moored [0x37] =
     (Responded 500 (ErrorBody ''Something went wrong. We will fix it shortly.''),
      moored\<lparr>Loads := Map.empty, accesses := [(Fetch, LOADS), (Remove, LOADS)]\<rparr>) \<and>
   delete_load_acc moored aliceAsks [0x37] =
     (Responded 204 NoBody,
      moored\<lparr>Loads := Map.empty, accesses := [(Fetch, LOADS), (Remove, LOADS)]\<rparr>)"
proof -
  have l: "Loads moored 7 = Some crate" by (simp add: moored_def)
  have c: "load_carrier crate = None" by (simp add: crate_def)
  have r: "req_accepts_json aliceAsks" by (simp add: aliceAsks_def)
  have e: "(Loads moored)(7 := None) = Map.empty" "accesses moored = []"
    by (simp_all add: moored_def)
  from l c show ?thesis
    unfolding delete_load_free[OF parse_1_7(2) l c] delete_load_acc_free[OF parse_1_7(2) l c r] e
    by simp
qed

section \<open>Replacing and patching a boat or a load\<close>

lemma boats_router_use_status:
  "fst (boats_router_use req s) = Inl (Responded n bdy) \<Longrightarrow> n = 401 \<or> n = 403 \<or> n = 406 \<or> n = 500"
  by (simp add: boats_router_use_def checkJwt_def checkRegistered_def findEntity_USERS_def
        isAcceptable_def handleClientError_def split: option.splits if_splits)

lemma boats_router_use_Uncaught:
  "fst (boats_router_use req s) \<noteq> Inl Uncaught"
  by (simp add: boats_router_use_def checkJwt_def checkRegistered_def findEntity_USERS_def
        isAcceptable_def handleClientError_def split: option.splits if_splits)

lemma updateBoatAndReply_stored:
  assumes "Boats t k = Some stored"
  shows "updateBoatAndReply k updated req t =
           (Responded 200 (BoatBody (fst (boatRepr_owned k updated (req_serverName req) True))),
            t\<lparr>Boats := (Boats t)(k \<mapsto> updated), accesses := accesses t @ [(Write, BOATS)]\<rparr>)"
  using assms by (simp add: updateBoatAndReply_def update_BOATS_def touch_def)

text \<open>
  The outcomes of \<open>PUT /boats/:boat_id\<close>: either no table changes and the answer is not
  200, or the boat is stored with the three properties of the body and its former owner
  and loads, and the answer is 200.
\<close>

lemma put_boat_cases:
  "(Boats (snd (put_boat s req boat_id)) = Boats s \<and>
      (\<forall>bdy. fst (put_boat s req boat_id) \<noteq> Responded 200 bdy)) \<or>
   (\<exists>k stored. parseInt boat_id = Some k \<and> Boats s k = Some stored \<and>
      Boats (snd (put_boat s req boat_id)) = (Boats s)(k \<mapsto> replaceBoat stored (getBoatProps req)))"
  and put_boat_others:
  "Loads (snd (put_boat s req boat_id)) = Loads s \<and> Users (snd (put_boat s req boat_id)) = Users s"
proof -
  obtain g s0 where use: "boats_router_use req s = (g, s0)" by (cases "boats_router_use req s")
  from use boats_router_use_tables[of req s]
  have s0: "Boats s0 = Boats s" "Loads s0 = Loads s" "Users s0 = Users s" by simp_all
  let ?A = "(Boats (snd (put_boat s req boat_id)) = Boats s \<and>
      (\<forall>bdy. fst (put_boat s req boat_id) \<noteq> Responded 200 bdy)) \<or>
   (\<exists>k stored. parseInt boat_id = Some k \<and> Boats s k = Some stored \<and>
      Boats (snd (put_boat s req boat_id)) = (Boats s)(k \<mapsto> replaceBoat stored (getBoatProps req)))"
  let ?B = "Loads (snd (put_boat s req boat_id)) = Loads s \<and> Users (snd (put_boat s req boat_id)) = Users s"
  have "?A \<and> ?B"
  proof (cases g)
    case (Inl r0)
    with use have run: "put_boat s req boat_id = (r0, s0)" by (simp add: put_boat_def)
    from use Inl boats_router_use_status[of req s] have "\<forall>bdy. r0 \<noteq> Responded 200 bdy"
      by fastforce
    with run s0 show ?thesis by simp
  next
    case (Inr sub)
    show ?thesis
    proof (cases "isBadRequest_boat (getBoatProps req)")
      case True
      with Inr use have "put_boat s req boat_id = (handleClientError 400 BAD_REQUEST, s0)"
        by (simp add: put_boat_def)
      with s0 show ?thesis by (simp add: handleClientError_def)
    next
      case ok: False
      show ?thesis
      proof (cases "parseInt boat_id")
        case None
        with ok Inr use have "put_boat s req boat_id = (handleClientError 404 BOAT_NOT_FOUND, s0)"
          by (simp add: put_boat_def findEntity_BOATS_def onLookupError_def)
        with s0 show ?thesis by (simp add: handleClientError_def)
      next
        case (Some k)
        let ?t = "touch Fetch BOATS s0"
        have t: "Boats ?t = Boats s" "Loads ?t = Loads s" "Users ?t = Users s"
          using s0 by (simp_all add: touch_def)
        show ?thesis
        proof (cases "Boats s k")
          case None
          with Some ok Inr use s0 have "put_boat s req boat_id = (handleClientError 404 BOAT_NOT_FOUND, ?t)"
            by (simp add: put_boat_def findEntity_BOATS_def)
          with t show ?thesis by (simp add: handleClientError_def)
        next
          case st: (Some stored)
          show ?thesis
          proof (cases "boat_owner stored = Some sub")
            case False
            with st Some ok Inr use s0 have "put_boat s req boat_id = (handleClientError 403 NOT_OWNER, ?t)"
              by (simp add: put_boat_def findEntity_BOATS_def)
            with t show ?thesis by (simp add: handleClientError_def)
          next
            case True
            with st Some ok Inr use s0
            have "put_boat s req boat_id =
                    updateBoatAndReply k (replaceBoat stored (getBoatProps req)) req ?t"
              by (simp add: put_boat_def findEntity_BOATS_def)
            moreover from st t have "Boats ?t k = Some stored" by simp
            ultimately have "put_boat s req boat_id =
               (Responded 200 (BoatBody (fst (boatRepr_owned k (replaceBoat stored (getBoatProps req)) (req_serverName req) True))),
                ?t\<lparr>Boats := (Boats ?t)(k \<mapsto> replaceBoat stored (getBoatProps req)),
                    accesses := accesses ?t @ [(Write, BOATS)]\<rparr>)"
              by (simp add: updateBoatAndReply_stored)
            with t st Some show ?thesis by simp
          qed
        qed
      qed
    qed
  qed
  then show ?A and ?B by blast+
qed

lemma patch_boat_cases:
  "(Boats (snd (patch_boat s req boat_id)) = Boats s \<and>
      (\<forall>bdy. fst (patch_boat s req boat_id) \<noteq> Responded 200 bdy)) \<or>
   (\<exists>k stored. parseInt boat_id = Some k \<and> Boats s k = Some stored \<and>
      Boats (snd (patch_boat s req boat_id))
        = (Boats s)(k \<mapsto> replaceBoat stored (missingBoatProps stored (getBoatProps req))))"
  and patch_boat_others:
  "Loads (snd (patch_boat s req boat_id)) = Loads s \<and> Users (snd (patch_boat s req boat_id)) = Users s"
proof -
  obtain g s0 where use: "boats_router_use req s = (g, s0)" by (cases "boats_router_use req s")
  from use boats_router_use_tables[of req s]
  have s0: "Boats s0 = Boats s" "Loads s0 = Loads s" "Users s0 = Users s" by simp_all
  let ?A = "(Boats (snd (patch_boat s req boat_id)) = Boats s \<and>
      (\<forall>bdy. fst (patch_boat s req boat_id) \<noteq> Responded 200 bdy)) \<or>
   (\<exists>k stored. parseInt boat_id = Some k \<and> Boats s k = Some stored \<and>
      Boats (snd (patch_boat s req boat_id))
        = (Boats s)(k \<mapsto> replaceBoat stored (missingBoatProps stored (getBoatProps req))))"
  let ?B = "Loads (snd (patch_boat s req boat_id)) = Loads s \<and> Users (snd (patch_boat s req boat_id)) = Users s"
  have "?A \<and> ?B"
  proof (cases g)
    case (Inl r0)
    with use have run: "patch_boat s req boat_id = (r0, s0)" by (simp add: patch_boat_def)
    from use Inl boats_router_use_status[of req s] have "\<forall>bdy. r0 \<noteq> Responded 200 bdy"
      by fastforce
    with run s0 show ?thesis by simp
  next
    case (Inr sub)
    show ?thesis
    proof (cases "parseInt boat_id")
      case None
      with Inr use have "patch_boat s req boat_id = (handleClientError 404 BOAT_NOT_FOUND, s0)"
        by (simp add: patch_boat_def findEntity_BOATS_def onLookupError_def)
      with s0 show ?thesis by (simp add: handleClientError_def)
    next
      case (Some k)
      let ?t = "touch Fetch BOATS s0"
      have t: "Boats ?t = Boats s" "Loads ?t = Loads s" "Users ?t = Users s"
        using s0 by (simp_all add: touch_def)
      show ?thesis
      proof (cases "Boats s k")
        case None
        with Some Inr use s0 have "patch_boat s req boat_id = (handleClientError 404 BOAT_NOT_FOUND, ?t)"
          by (simp add: patch_boat_def findEntity_BOATS_def)
        with t show ?thesis by (simp add: handleClientError_def)
      next
        case st: (Some stored)
        show ?thesis
        proof (cases "boat_owner stored = Some sub")
          case False
          with st Some Inr use s0 have "patch_boat s req boat_id = (handleClientError 403 NOT_OWNER, ?t)"
            by (simp add: patch_boat_def findEntity_BOATS_def)
          with t show ?thesis by (simp add: handleClientError_def)
        next
          case True
          let ?u = "replaceBoat stored (missingBoatProps stored (getBoatProps req))"
          from True st Some Inr use s0
          have "patch_boat s req boat_id = updateBoatAndReply k ?u req ?t"
            by (simp add: patch_boat_def findEntity_BOATS_def)
          moreover from st t have "Boats ?t k = Some stored" by simp
          ultimately have "patch_boat s req boat_id =
             (Responded 200 (BoatBody (fst (boatRepr_owned k ?u (req_serverName req) True))),
              ?t\<lparr>Boats := (Boats ?t)(k \<mapsto> ?u), accesses := accesses ?t @ [(Write, BOATS)]\<rparr>)"
            by (simp add: updateBoatAndReply_stored)
          with t st Some show ?thesis by simp
        qed
      qed
    qed
  qed
  then show ?A and ?B by blast+
qed

lemma updateLoadAndReply_stored:
  assumes "Loads t k = Some stored"
  shows "updateLoadAndReply fmt k updated req t =
           (case loadRepr fmt k updated (req_serverName req) of
              None \<Rightarrow> Uncaught | Some r \<Rightarrow> Responded 200 (LoadBody r),
            t\<lparr>Loads := (Loads t)(k \<mapsto> updated), accesses := accesses t @ [(Write, LOADS)]\<rparr>)"
  using assms by (simp add: updateLoadAndReply_def update_LOADS_def touch_def split: option.splits)

lemma isAcceptable_status: "isAcceptable req = Some r \<Longrightarrow> \<forall>bdy. r \<noteq> Responded 200 bdy"
  by (auto simp: isAcceptable_def handleClientError_def split: if_splits)

lemma put_load_cases:
  "(Loads (snd (put_load dp fmt s req load_id)) = Loads s \<and>
      (\<forall>bdy. fst (put_load dp fmt s req load_id) \<noteq> Responded 200 bdy)) \<or>
   (\<exists>k stored. parseInt load_id = Some k \<and> Loads s k = Some stored \<and>
      Loads (snd (put_load dp fmt s req load_id))
        = (Loads s)(k \<mapsto> replaceLoad stored
             ((getLoadProps_raw req)\<lparr>p_creation_date := new_Date dp (p_creation_date (getLoadProps_raw req))\<rparr>)))"
  and put_load_others:
  "Boats (snd (put_load dp fmt s req load_id)) = Boats s \<and>
   Users (snd (put_load dp fmt s req load_id)) = Users s"
proof -
  let ?A = "(Loads (snd (put_load dp fmt s req load_id)) = Loads s \<and>
      (\<forall>bdy. fst (put_load dp fmt s req load_id) \<noteq> Responded 200 bdy)) \<or>
   (\<exists>k stored. parseInt load_id = Some k \<and> Loads s k = Some stored \<and>
      Loads (snd (put_load dp fmt s req load_id))
        = (Loads s)(k \<mapsto> replaceLoad stored
             ((getLoadProps_raw req)\<lparr>p_creation_date := new_Date dp (p_creation_date (getLoadProps_raw req))\<rparr>)))"
  let ?B = "Boats (snd (put_load dp fmt s req load_id)) = Boats s \<and>
   Users (snd (put_load dp fmt s req load_id)) = Users s"
  have "?A \<and> ?B"
  proof (cases "isAcceptable req")
    case (Some r0)
    then have "put_load dp fmt s req load_id = (r0, s)" by (simp add: put_load_def)
    with isAcceptable_status[OF Some] show ?thesis by simp
  next
    case None
    show ?thesis
    proof (cases "isBadRequest_load (getLoadProps_raw req)")
      case True
      with None have "put_load dp fmt s req load_id = (handleClientError 400 BAD_REQUEST, s)"
        by (simp add: put_load_def)
      then show ?thesis by (simp add: handleClientError_def)
    next
      case ok: False
      show ?thesis
      proof (cases "parseInt load_id")
        case nan: None
        with ok None have "put_load dp fmt s req load_id = (handleClientError 404 LOAD_NOT_FOUND, s)"
          by (simp add: put_load_def findEntity_LOADS_def onLookupError_def)
        then show ?thesis by (simp add: handleClientError_def)
      next
        case (Some k)
        let ?t = "touch Fetch LOADS s"
        have t: "Boats ?t = Boats s" "Loads ?t = Loads s" "Users ?t = Users s"
          by (simp_all add: touch_def)
        show ?thesis
        proof (cases "Loads s k")
          case absent: None
          with Some ok None have "put_load dp fmt s req load_id = (handleClientError 404 LOAD_NOT_FOUND, ?t)"
            by (simp add: put_load_def findEntity_LOADS_def)
          with t show ?thesis by (simp add: handleClientError_def)
        next
          case st: (Some stored)
          let ?u = "replaceLoad stored
             ((getLoadProps_raw req)\<lparr>p_creation_date := new_Date dp (p_creation_date (getLoadProps_raw req))\<rparr>)"
          from st Some ok None
          have "put_load dp fmt s req load_id = updateLoadAndReply fmt k ?u req ?t"
            by (simp add: put_load_def findEntity_LOADS_def Let_def)
          moreover from st t have "Loads ?t k = Some stored" by simp
          ultimately have "put_load dp fmt s req load_id =
             (case loadRepr fmt k ?u (req_serverName req) of
                None \<Rightarrow> Uncaught | Some r \<Rightarrow> Responded 200 (LoadBody r),
              ?t\<lparr>Loads := (Loads ?t)(k \<mapsto> ?u), accesses := accesses ?t @ [(Write, LOADS)]\<rparr>)"
            by (simp add: updateLoadAndReply_stored)
          with t st Some show ?thesis by simp
        qed
      qed
    qed
  qed
  then show ?A and ?B by blast+
qed

lemma patch_load_cases:
  "(Loads (snd (patch_load fmt s req load_id)) = Loads s \<and>
      (\<forall>bdy. fst (patch_load fmt s req load_id) \<noteq> Responded 200 bdy)) \<or>
   (\<exists>k stored. parseInt load_id = Some k \<and> Loads s k = Some stored \<and>
      Loads (snd (patch_load fmt s req load_id))
        = (Loads s)(k \<mapsto> replaceLoad stored (missingLoadProps stored (getLoadProps_raw req))))"
  and patch_load_others:
  "Boats (snd (patch_load fmt s req load_id)) = Boats s \<and>
   Users (snd (patch_load fmt s req load_id)) = Users s"
proof -
  let ?A = "(Loads (snd (patch_load fmt s req load_id)) = Loads s \<and>
      (\<forall>bdy. fst (patch_load fmt s req load_id) \<noteq> Responded 200 bdy)) \<or>
   (\<exists>k stored. parseInt load_id = Some k \<and> Loads s k = Some stored \<and>
      Loads (snd (patch_load fmt s req load_id))
        = (Loads s)(k \<mapsto> replaceLoad stored (missingLoadProps stored (getLoadProps_raw req))))"
  let ?B = "Boats (snd (patch_load fmt s req load_id)) = Boats s \<and>
   Users (snd (patch_load fmt s req load_id)) = Users s"
  have "?A \<and> ?B"
  proof (cases "isAcceptable req")
    case (Some r0)
    then have "patch_load fmt s req load_id = (r0, s)" by (simp add: patch_load_def)
    with isAcceptable_status[OF Some] show ?thesis by simp
  next
    case None
    show ?thesis
    proof (cases "parseInt load_id")
      case nan: None
      with None have "patch_load fmt s req load_id = (handleClientError 404 LOAD_NOT_FOUND, s)"
        by (simp add: patch_load_def findEntity_LOADS_def onLookupError_def)
      then show ?thesis by (simp add: handleClientError_def)
    next
      case (Some k)
      let ?t = "touch Fetch LOADS s"
      have t: "Boats ?t = Boats s" "Loads ?t = Loads s" "Users ?t = Users s"
        by (simp_all add: touch_def)
      show ?thesis
      proof (cases "Loads s k")
        case absent: None
        with Some None have "patch_load fmt s req load_id = (handleClientError 404 LOAD_NOT_FOUND, ?t)"
          by (simp add: patch_load_def findEntity_LOADS_def)
        with t show ?thesis by (simp add: handleClientError_def)
      next
        case st: (Some stored)
        let ?u = "replaceLoad stored (missingLoadProps stored (getLoadProps_raw req))"
        from st Some None
        have "patch_load fmt s req load_id = updateLoadAndReply fmt k ?u req ?t"
          by (simp add: patch_load_def findEntity_LOADS_def)
        moreover from st t have "Loads ?t k = Some stored" by simp
        ultimately have "patch_load fmt s req load_id =
           (case loadRepr fmt k ?u (req_serverName req) of
              None \<Rightarrow> Uncaught | Some r \<Rightarrow> Responded 200 (LoadBody r),
            ?t\<lparr>Loads := (Loads ?t)(k \<mapsto> ?u), accesses := accesses ?t @ [(Write, LOADS)]\<rparr>)"
          by (simp add: updateLoadAndReply_stored)
        with t st Some show ?thesis by simp
      qed
    qed
  qed
  then show ?A and ?B by blast+
qed

lemma put_boat_ok:
  assumes "req_user_sub req = Some sub" "sub \<in> Users s" "req_accepts_json req"
    and "\<not> isBadRequest_boat (getBoatProps req)"
    and "parseInt boat_id = Some k" "Boats s k = Some stored" "boat_owner stored = Some sub"
  shows "fst (put_boat s req boat_id) =
           Responded 200 (BoatBody (fst (boatRepr_owned k (replaceBoat stored (getBoatProps req))
                                           (req_serverName req) True)))"
  using assms(4-7)
  by (simp add: put_boat_def boats_router_use_pass[OF assms(1-3)] findEntity_BOATS_def touch_def
        updateBoatAndReply_def update_BOATS_def)

lemma patch_boat_ok:
  assumes "req_user_sub req = Some sub" "sub \<in> Users s" "req_accepts_json req"
    and "parseInt boat_id = Some k" "Boats s k = Some stored" "boat_owner stored = Some sub"
  shows "fst (patch_boat s req boat_id) =
           Responded 200 (BoatBody (fst (boatRepr_owned k
              (replaceBoat stored (missingBoatProps stored (getBoatProps req)))
              (req_serverName req) True)))"
  using assms(4-6)
  by (simp add: patch_boat_def boats_router_use_pass[OF assms(1-3)] findEntity_BOATS_def touch_def
        updateBoatAndReply_def update_BOATS_def)

lemma put_load_ok:
  assumes "req_accepts_json req" "\<not> isBadRequest_load (getLoadProps_raw req)"
    and "parseInt load_id = Some k" "Loads s k = Some stored"
  shows "fst (put_load dp fmt s req load_id) =
           (case loadRepr fmt k (replaceLoad stored
                   ((getLoadProps_raw req)\<lparr>p_creation_date :=
                        new_Date dp (p_creation_date (getLoadProps_raw req))\<rparr>))
                   (req_serverName req) of
              None \<Rightarrow> Uncaught | Some r \<Rightarrow> Responded 200 (LoadBody r))"
  using assms
  by (simp add: put_load_def isAcceptable_def findEntity_LOADS_def touch_def Let_def
        updateLoadAndReply_def update_LOADS_def split: option.splits)

lemma patch_load_ok:
  assumes "req_accepts_json req" "parseInt load_id = Some k" "Loads s k = Some stored"
  shows "fst (patch_load fmt s req load_id) =
           (case loadRepr fmt k (replaceLoad stored (missingLoadProps stored (getLoadProps_raw req)))
                   (req_serverName req) of
              None \<Rightarrow> Uncaught | Some r \<Rightarrow> Responded 200 (LoadBody r))"
  using assms
  by (simp add: patch_load_def isAcceptable_def findEntity_LOADS_def touch_def Let_def
        updateLoadAndReply_def update_LOADS_def split: option.splits)

text \<open>
  C6. \<open>PUT\<close> and \<open>PATCH /boats/:boat_id\<close> (authenticated boats router), whatever the
  request and the answer, leave the owner and the loads of every stored boat as they
  were, and the loads table untouched; \<open>PUT\<close> and \<open>PATCH /loads/:load_id\<close> leave the
  carrier of every stored load as it was, and the boats table untouched. When the answer
  is 200, \<open>PUT\<close> has stored \<open>name\<close>, \<open>type\<close>, \<open>length\<close> (for a load \<open>volume\<close>,
  \<open>content\<close> and \<open>new Date(creation_date)\<close>) of the body in place of the former ones,
  and \<open>PATCH\<close> has stored each of them where the body has it and the former value where
  the body has not.
\<close>

theorem put_patch_keep_owner_loads_carrier:
  "((\<forall>j. map_option boat_owner (Boats (snd (put_boat s req boat_id)) j) = map_option boat_owner (Boats s j) \<and>
         map_option boat_loads (Boats (snd (put_boat s req boat_id)) j) = map_option boat_loads (Boats s j)) \<and>
    Loads (snd (put_boat s req boat_id)) = Loads s \<and>
    (fst (put_boat s req boat_id) = Responded 200 bdy1 \<longrightarrow>
       (\<exists>k stored. parseInt boat_id = Some k \<and> Boats s k = Some stored \<and>
          Boats (snd (put_boat s req boat_id)) k =
            Some \<lparr>boat_name = req_body req ''name'', boat_type = req_body req ''type'',
                  boat_length = req_body req ''length'',
                  boat_owner = boat_owner stored, boat_loads = boat_loads stored\<rparr>))) \<and>
   ((\<forall>j. map_option boat_owner (Boats (snd (patch_boat s req boat_id)) j) = map_option boat_owner (Boats s j) \<and>
         map_option boat_loads (Boats (snd (patch_boat s req boat_id)) j) = map_option boat_loads (Boats s j)) \<and>
    Loads (snd (patch_boat s req boat_id)) = Loads s \<and>
    (fst (patch_boat s req boat_id) = Responded 200 bdy2 \<longrightarrow>
       (\<exists>k stored. parseInt boat_id = Some k \<and> Boats s k = Some stored \<and>
          Boats (snd (patch_boat s req boat_id)) k =
            Some \<lparr>boat_name = (if req_body req ''name'' = JUndefined then boat_name stored
                               else req_body req ''name''),
                  boat_type = (if req_body req ''type'' = JUndefined then boat_type stored
                               else req_body req ''type''),
                  boat_length = (if req_body req ''length'' = JUndefined then boat_length stored
                                 else req_body req ''length''),
                  boat_owner = boat_owner stored, boat_loads = boat_loads stored\<rparr>))) \<and>
   ((\<forall>j. map_option load_carrier (Loads (snd (put_load dp fmt s req load_id)) j)
           = map_option load_carrier (Loads s j)) \<and>
    Boats (snd (put_load dp fmt s req load_id)) = Boats s \<and>
    (fst (put_load dp fmt s req load_id) = Responded 200 bdy3 \<longrightarrow>
       (\<exists>k stored. parseInt load_id = Some k \<and> Loads s k = Some stored \<and>
          Loads (snd (put_load dp fmt s req load_id)) k =
            Some \<lparr>load_volume = req_body req ''volume'', load_content = req_body req ''content'',
                  load_creation_date = new_Date dp (req_body req ''creation_date''),
                  load_carrier = load_carrier stored\<rparr>))) \<and>
   ((\<forall>j. map_option load_carrier (Loads (snd (patch_load fmt s req load_id)) j)
           = map_option load_carrier (Loads s j)) \<and>
    Boats (snd (patch_load fmt s req load_id)) = Boats s \<and>
    (fst (patch_load fmt s req load_id) = Responded 200 bdy4 \<longrightarrow>
       (\<exists>k stored. parseInt load_id = Some k \<and> Loads s k = Some stored \<and>
          Loads (snd (patch_load fmt s req load_id)) k =
            Some \<lparr>load_volume = (if req_body req ''volume'' = JUndefined then load_volume stored
                                 else req_body req ''volume''),
                  load_content = (if req_body req ''content'' = JUndefined then load_content stored
                                  else req_body req ''content''),
                  load_creation_date =
                    (if req_body req ''creation_date'' = JUndefined then load_creation_date stored
                     else req_body req ''creation_date''),
                  load_carrier = load_carrier stored\<rparr>)))"
proof (intro conjI)
  note pb = put_boat_cases[of s req boat_id]
  show "\<forall>j. map_option boat_owner (Boats (snd (put_boat s req boat_id)) j) = map_option boat_owner (Boats s j) \<and>
         map_option boat_loads (Boats (snd (put_boat s req boat_id)) j) = map_option boat_loads (Boats s j)"
    using pb by (auto simp: replaceBoat_def)
  show "Loads (snd (put_boat s req boat_id)) = Loads s" using put_boat_others[of s req boat_id] by simp
  show "fst (put_boat s req boat_id) = Responded 200 bdy1 \<longrightarrow>
       (\<exists>k stored. parseInt boat_id = Some k \<and> Boats s k = Some stored \<and>
          Boats (snd (put_boat s req boat_id)) k =
            Some \<lparr>boat_name = req_body req ''name'', boat_type = req_body req ''type'',
                  boat_length = req_body req ''length'',
                  boat_owner = boat_owner stored, boat_loads = boat_loads stored\<rparr>)"
    using pb by (auto simp: replaceBoat_def getBoatProps_def)
next
  note pb = patch_boat_cases[of s req boat_id]
  show "\<forall>j. map_option boat_owner (Boats (snd (patch_boat s req boat_id)) j) = map_option boat_owner (Boats s j) \<and>
         map_option boat_loads (Boats (snd (patch_boat s req boat_id)) j) = map_option boat_loads (Boats s j)"
    using pb by (auto simp: replaceBoat_def)
  show "Loads (snd (patch_boat s req boat_id)) = Loads s" using patch_boat_others[of s req boat_id] by simp
  show "fst (patch_boat s req boat_id) = Responded 200 bdy2 \<longrightarrow>
       (\<exists>k stored. parseInt boat_id = Some k \<and> Boats s k = Some stored \<and>
          Boats (snd (patch_boat s req boat_id)) k =
            Some \<lparr>boat_name = (if req_body req ''name'' = JUndefined then boat_name stored
                               else req_body req ''name''),
                  boat_type = (if req_body req ''type'' = JUndefined then boat_type stored
                               else req_body req ''type''),
                  boat_length = (if req_body req ''length'' = JUndefined then boat_length stored
                                 else req_body req ''length''),
                  boat_owner = boat_owner stored, boat_loads = boat_loads stored\<rparr>)"
    using pb by (auto simp: replaceBoat_def missingBoatProps_def orStored_def getBoatProps_def)
next
  note pl = put_load_cases[of dp fmt s req load_id]
  show "\<forall>j. map_option load_carrier (Loads (snd (put_load dp fmt s req load_id)) j)
           = map_option load_carrier (Loads s j)"
    using pl by (auto simp: replaceLoad_def)
  show "Boats (snd (put_load dp fmt s req load_id)) = Boats s"
    using put_load_others[of dp fmt s req load_id] by simp
  show "fst (put_load dp fmt s req load_id) = Responded 200 bdy3 \<longrightarrow>
       (\<exists>k stored. parseInt load_id = Some k \<and> Loads s k = Some stored \<and>
          Loads (snd (put_load dp fmt s req load_id)) k =
            Some \<lparr>load_volume = req_body req ''volume'', load_content = req_body req ''content'',
                  load_creation_date = new_Date dp (req_body req ''creation_date''),
                  load_carrier = load_carrier stored\<rparr>)"
    using pl by (auto simp: replaceLoad_def getLoadProps_raw_def)
next
  note pl = patch_load_cases[of fmt s req load_id]
  show "\<forall>j. map_option load_carrier (Loads (snd (patch_load fmt s req load_id)) j)
           = map_option load_carrier (Loads s j)"
    using pl by (auto simp: replaceLoad_def)
  show "Boats (snd (patch_load fmt s req load_id)) = Boats s"
    using patch_load_others[of fmt s req load_id] by simp
  show "fst (patch_load fmt s req load_id) = Responded 200 bdy4 \<longrightarrow>
       (\<exists>k stored. parseInt load_id = Some k \<and> Loads s k = Some stored \<and>
          Loads (snd (patch_load fmt s req load_id)) k =
            Some \<lparr>load_volume = (if req_body req ''volume'' = JUndefined then load_volume stored
                                 else req_body req ''volume''),
                  load_content = (if req_body req ''content'' = JUndefined then load_content stored
                                  else req_body req ''content''),
                  load_creation_date =
                    (if req_body req ''creation_date'' = JUndefined then load_creation_date stored
                     else req_body req ''creation_date''),
                  load_carrier = load_carrier stored\<rparr>)"
    using pl by (auto simp: replaceLoad_def missingLoadProps_def orStored_def getLoadProps_raw_def)
qed


theorem put_patch_keep_owner_loads_carrier_witness:
  "(fst (put_boat laden renameAll [0x31]) =
      Responded 200 (BoatBody (fst (boatRepr_owned 1
         \<lparr>boat_name = JStr ''Nessie'', boat_type = JStr ''ketch'', boat_length = JNum 9,
          boat_owner = Some ''alice'', boat_loads = [\<lparr>ref_id = 7, ref_self = None\<rparr>]\<rparr>
         ''http://localhost:8080'' True))) \<and>
    Boats (snd (put_boat laden renameAll [0x31])) 1 =
      Some \<lparr>boat_name = JStr ''Nessie'', boat_type = JStr ''ketch'', boat_length = JNum 9,
            boat_owner = Some ''alice'', boat_loads = [\<lparr>ref_id = 7, ref_self = None\<rparr>]\<rparr>) \<and>
   (fst (patch_boat laden renameOnly [0x31]) =
      Responded 200 (BoatBody (fst (boatRepr_owned 1
         \<lparr>boat_name = JStr ''Nessie'', boat_type = JStr ''sail'', boat_length = JNum 12,
          boat_owner = Some ''alice'', boat_loads = [\<lparr>ref_id = 7, ref_self = None\<rparr>]\<rparr>
         ''http://localhost:8080'' True))) \<and>
    Boats (snd (patch_boat laden renameOnly [0x31])) 1 =
      Some \<lparr>boat_name = JStr ''Nessie'', boat_type = JStr ''sail'', boat_length = JNum 12,
            boat_owner = Some ''alice'', boat_loads = [\<lparr>ref_id = 7, ref_self = None\<rparr>]\<rparr>) \<and>
   (fst (put_load (\<lambda>x. Some 1634515200000) (\<lambda>d. ''10/18/2021'') laden refill [0x37]) =
      Responded 200 (LoadBody
        \<lparr>lrepr_id = 7, lrepr_volume = JNum 9,
         lrepr_carrier = Some \<lparr>crepr_id = 1, crepr_name = JStr ''Orca'',
                                crepr_self = ''http://localhost:8080/boats/1''\<rparr>,
         lrepr_content = JStr ''bricks'', lrepr_creation_date = ''10/18/2021'',
         lrepr_self = ''http://localhost:8080/loads/7''\<rparr>) \<and>
    Loads (snd (put_load (\<lambda>x. Some 1634515200000) (\<lambda>d. ''10/18/2021'') laden refill [0x37])) 7 =
      Some \<lparr>load_volume = JNum 9, load_content = JStr ''bricks'',
            load_creation_date = JDate (Some 1634515200000),
            load_carrier = Some \<lparr>carrier_id = 1, carrier_name = JStr ''Orca''\<rparr>\<rparr>) \<and>
   (fst (patch_load (\<lambda>d. ''1/1/1970'') laden refillVolume [0x37]) =
      Responded 200 (LoadBody
        \<lparr>lrepr_id = 7, lrepr_volume = JNum 9,
         lrepr_carrier = Some \<lparr>crepr_id = 1, crepr_name = JStr ''Orca'',
                                crepr_self = ''http://localhost:8080/boats/1''\<rparr>,
         lrepr_content = JStr ''LEGO'', lrepr_creation_date = ''1/1/1970'',
         lrepr_self = ''http://localhost:8080/loads/7''\<rparr>) \<and>
    Loads (snd (patch_load (\<lambda>d. ''1/1/1970'') laden refillVolume [0x37])) 7 =
      Some \<lparr>load_volume = JNum 9, load_content = JStr ''LEGO'',
            load_creation_date = JDate (Some 0),
            load_carrier = Some \<lparr>carrier_id = 1, carrier_name = JStr ''Orca''\<rparr>\<rparr>)"
proof -
  let ?dp = "\<lambda>x::string. Some (1634515200000::int)"
  let ?f1 = "\<lambda>d::int option. ''10/18/2021''"
  let ?f2 = "\<lambda>d::int option. ''1/1/1970''"
  let ?b = "sloop\<lparr>boat_loads := [\<lparr>ref_id = 7, ref_self = None\<rparr>]\<rparr>"
  let ?l = "crate\<lparr>load_carrier := Some \<lparr>carrier_id = 1, carrier_name = JStr ''Orca''\<rparr>\<rparr>"
  have b: "Boats laden 1 = Some ?b" and l: "Loads laden 7 = Some ?l" by (simp_all add: laden_def)
  have own: "boat_owner ?b = Some ''alice''" by (simp add: sloop_def)
  have u: "''alice'' \<in> Users laden" by (simp add: laden_def)
  have r1: "req_user_sub renameAll = Some ''alice''" "req_accepts_json renameAll"
    "\<not> isBadRequest_boat (getBoatProps renameAll)"
    by (simp_all add: renameAll_def aliceAsks_def isBadRequest_boat_def getBoatProps_def)
  have r2: "req_user_sub renameOnly = Some ''alice''" "req_accepts_json renameOnly"
    by (simp_all add: renameOnly_def aliceAsks_def)
  have r3: "req_accepts_json refill" "\<not> isBadRequest_load (getLoadProps_raw refill)"
    by (simp_all add: refill_def isBadRequest_load_def getLoadProps_raw_def)
  have r4: "req_accepts_json refillVolume" by (simp add: refillVolume_def refill_def)
  have f1: "fst (put_boat laden renameAll [0x31]) =
      Responded 200 (BoatBody (fst (boatRepr_owned 1
         \<lparr>boat_name = JStr ''Nessie'', boat_type = JStr ''ketch'', boat_length = JNum 9,
          boat_owner = Some ''alice'', boat_loads = [\<lparr>ref_id = 7, ref_self = None\<rparr>]\<rparr>
         ''http://localhost:8080'' True)))"
    unfolding put_boat_ok[OF r1(1) u r1(2,3) parse_1_7(1) b own]
    by (simp add: replaceBoat_def getBoatProps_def renameAll_def aliceAsks_def sloop_def)
  have f2: "fst (patch_boat laden renameOnly [0x31]) =
      Responded 200 (BoatBody (fst (boatRepr_owned 1
         \<lparr>boat_name = JStr ''Nessie'', boat_type = JStr ''sail'', boat_length = JNum 12,
          boat_owner = Some ''alice'', boat_loads = [\<lparr>ref_id = 7, ref_self = None\<rparr>]\<rparr>
         ''http://localhost:8080'' True)))"
    unfolding patch_boat_ok[OF r2(1) u r2(2) parse_1_7(1) b own]
    by (simp add: replaceBoat_def missingBoatProps_def orStored_def getBoatProps_def
          renameOnly_def aliceAsks_def sloop_def)
  have f3: "fst (put_load ?dp ?f1 laden refill [0x37]) =
      Responded 200 (LoadBody
        \<lparr>lrepr_id = 7, lrepr_volume = JNum 9,
         lrepr_carrier = Some \<lparr>crepr_id = 1, crepr_name = JStr ''Orca'',
                                crepr_self = ''http://localhost:8080/boats/1''\<rparr>,
         lrepr_content = JStr ''bricks'', lrepr_creation_date = ''10/18/2021'',
         lrepr_self = ''http://localhost:8080/loads/7''\<rparr>)"
    unfolding put_load_ok[OF r3 parse_1_7(2) l]
    by (simp add: replaceLoad_def getLoadProps_raw_def refill_def loadRepr_def crate_def
          numString_def)
  have f4: "fst (patch_load ?f2 laden refillVolume [0x37]) =
      Responded 200 (LoadBody
        \<lparr>lrepr_id = 7, lrepr_volume = JNum 9,
         lrepr_carrier = Some \<lparr>crepr_id = 1, crepr_name = JStr ''Orca'',
                                crepr_self = ''http://localhost:8080/boats/1''\<rparr>,
         lrepr_content = JStr ''LEGO'', lrepr_creation_date = ''1/1/1970'',
         lrepr_self = ''http://localhost:8080/loads/7''\<rparr>)"
    unfolding patch_load_ok[OF r4 parse_1_7(2) l]
    by (simp add: replaceLoad_def missingLoadProps_def orStored_def getLoadProps_raw_def
          refillVolume_def refill_def loadRepr_def crate_def numString_def)
  from put_patch_keep_owner_loads_carrier[of laden renameAll "[0x31]" _ _ ?dp ?f1 "[0x37]"] f1
  obtain k1 st1 where "parseInt [0x31] = Some k1" "Boats laden k1 = Some st1"
    "Boats (snd (put_boat laden renameAll [0x31])) k1 =
            Some \<lparr>boat_name = req_body renameAll ''name'', boat_type = req_body renameAll ''type'',
                  boat_length = req_body renameAll ''length'',
                  boat_owner = boat_owner st1, boat_loads = boat_loads st1\<rparr>"
    by blast
  with b have g1: "Boats (snd (put_boat laden renameAll [0x31])) 1 =
      Some \<lparr>boat_name = JStr ''Nessie'', boat_type = JStr ''ketch'', boat_length = JNum 9,
            boat_owner = Some ''alice'', boat_loads = [\<lparr>ref_id = 7, ref_self = None\<rparr>]\<rparr>"
    by (auto simp: parse_1_7 renameAll_def sloop_def)
  from put_patch_keep_owner_loads_carrier[of laden renameOnly "[0x31]" _ _ ?dp ?f1 "[0x37]"] f2
  obtain k2 st2 where "parseInt [0x31] = Some k2" "Boats laden k2 = Some st2"
    "Boats (snd (patch_boat laden renameOnly [0x31])) k2 =
            Some \<lparr>boat_name = (if req_body renameOnly ''name'' = JUndefined then boat_name st2
                               else req_body renameOnly ''name''),
                  boat_type = (if req_body renameOnly ''type'' = JUndefined then boat_type st2
                               else req_body renameOnly ''type''),
                  boat_length = (if req_body renameOnly ''length'' = JUndefined then boat_length st2
                                 else req_body renameOnly ''length''),
                  boat_owner = boat_owner st2, boat_loads = boat_loads st2\<rparr>"
    by blast
  with b have g2: "Boats (snd (patch_boat laden renameOnly [0x31])) 1 =
      Some \<lparr>boat_name = JStr ''Nessie'', boat_type = JStr ''sail'', boat_length = JNum 12,
            boat_owner = Some ''alice'', boat_loads = [\<lparr>ref_id = 7, ref_self = None\<rparr>]\<rparr>"
    by (auto simp: parse_1_7 renameOnly_def sloop_def)
  from put_patch_keep_owner_loads_carrier[of laden refill "[0x31]" _ _ ?dp ?f1 "[0x37]"] f3
  obtain k3 st3 where "parseInt [0x37] = Some k3" "Loads laden k3 = Some st3"
    "Loads (snd (put_load ?dp ?f1 laden refill [0x37])) k3 =
            Some \<lparr>load_volume = req_body refill ''volume'', load_content = req_body refill ''content'',
                  load_creation_date = new_Date ?dp (req_body refill ''creation_date''),
                  load_carrier = load_carrier st3\<rparr>"
    by blast
  with l have g3: "Loads (snd (put_load ?dp ?f1 laden refill [0x37])) 7 =
      Some \<lparr>load_volume = JNum 9, load_content = JStr ''bricks'',
            load_creation_date = JDate (Some 1634515200000),
            load_carrier = Some \<lparr>carrier_id = 1, carrier_name = JStr ''Orca''\<rparr>\<rparr>"
    by (auto simp: parse_1_7 refill_def)
  from put_patch_keep_owner_loads_carrier[of laden refillVolume "[0x31]" _ _ ?dp ?f2 "[0x37]"] f4
  obtain k4 st4 where "parseInt [0x37] = Some k4" "Loads laden k4 = Some st4"
    "Loads (snd (patch_load ?f2 laden refillVolume [0x37])) k4 =
            Some \<lparr>load_volume = (if req_body refillVolume ''volume'' = JUndefined then load_volume st4
                                 else req_body refillVolume ''volume''),
                  load_content = (if req_body refillVolume ''content'' = JUndefined then load_content st4
                                  else req_body refillVolume ''content''),
                  load_creation_date =
                    (if req_body refillVolume ''creation_date'' = JUndefined then load_creation_date st4
                     else req_body refillVolume ''creation_date''),
                  load_carrier = load_carrier st4\<rparr>"
    by blast
  with l have g4: "Loads (snd (patch_load ?f2 laden refillVolume [0x37])) 7 =
      Some \<lparr>load_volume = JNum 9, load_content = JStr ''LEGO'',
            load_creation_date = JDate (Some 0),
            load_carrier = Some \<lparr>carrier_id = 1, carrier_name = JStr ''Orca''\<rparr>\<rparr>"
    by (auto simp: parse_1_7 refillVolume_def refill_def crate_def)
  from f1 g1 f2 g2 f3 g3 f4 g4 show ?thesis by blast
qed

section \<open>The representation builders\<close>




section \<open>Validation of a new boat or load\<close>

text \<open>
  The part of C10 that holds. \<open>POST /boats\<close> (first boats router, token of a registered
  user) with a falsy \<open>name\<close>, \<open>type\<close> or \<open>length\<close> is answered 400 with the
  missing-attributes message and creates nothing; so is \<open>POST /loads\<close> on the first
  loads router with a falsy \<open>volume\<close> or \<open>content\<close>, and on the second loads router
  with a falsy \<open>volume\<close>, \<open>content\<close> or \<open>creation_date\<close>.
\<close>

lemma falsy_field_is_bad_request:
  "(req_user_sub req = Some sub \<and> sub \<in> Users s \<and>
    (\<not> truthy (req_body req ''name'') \<or> \<not> truthy (req_body req ''type'') \<or>
     \<not> truthy (req_body req ''length'')) \<longrightarrow>
      fst (post_boat newId s req) =
        Responded 400 (ErrorBody ''The request object is missing at least one of the required attributes'') \<and>
      noWrites s (snd (post_boat newId s req))) \<and>
   (\<not> truthy (req_body req ''volume'') \<or> \<not> truthy (req_body req ''content'') \<longrightarrow>
      post_load dp fmt newId s req =
        (Responded 400 (ErrorBody ''The request object is missing at least one of the required attributes''), s)) \<and>
   (req_accepts_json req \<and>
    (\<not> truthy (req_body req ''volume'') \<or> \<not> truthy (req_body req ''content'') \<or>
     \<not> truthy (req_body req ''creation_date'')) \<longrightarrow>
      post_load_acc dp fmt newId s req =
        (Responded 400 (ErrorBody ''The request object is missing at least one of the required attributes''), s))"
proof (intro conjI impI)
  assume h: "req_user_sub req = Some sub \<and> sub \<in> Users s \<and>
    (\<not> truthy (req_body req ''name'') \<or> \<not> truthy (req_body req ''type'') \<or>
     \<not> truthy (req_body req ''length''))"
  then have bad: "isBadRequest_boat (getBoatProps req)"
    by (auto simp: isBadRequest_boat_def getBoatProps_def)
  from h bad have run: "post_boat newId s req =
      (handleClientError 400 BAD_REQUEST, s\<lparr>accesses := accesses s @ [(Fetch, USERS)]\<rparr>)"
    by (simp add: post_boat_def checkJwt_def checkRegistered_def findEntity_USERS_def touch_def)
  show "fst (post_boat newId s req) =
        Responded 400 (ErrorBody ''The request object is missing at least one of the required attributes'')"
    unfolding run by (simp add: handleClientError_def BAD_REQUEST_def)
  show "noWrites s (snd (post_boat newId s req))"
    unfolding run by (simp add: noWrites_fetches)
next
  assume "\<not> truthy (req_body req ''volume'') \<or> \<not> truthy (req_body req ''content'')"
  then have "isBadRequest_load (getLoadProps dp req)"
    by (auto simp: isBadRequest_load_def getLoadProps_def)
  then show "post_load dp fmt newId s req =
        (Responded 400 (ErrorBody ''The request object is missing at least one of the required attributes''), s)"
    by (simp add: post_load_def handleClientError_def BAD_REQUEST_def)
next
  assume h: "req_accepts_json req \<and>
    (\<not> truthy (req_body req ''volume'') \<or> \<not> truthy (req_body req ''content'') \<or>
     \<not> truthy (req_body req ''creation_date''))"
  then have "isBadRequest_load (getLoadProps_raw req)"
    by (auto simp: isBadRequest_load_def getLoadProps_raw_def)
  with h show "post_load_acc dp fmt newId s req =
        (Responded 400 (ErrorBody ''The request object is missing at least one of the required attributes''), s)"
    by (simp add: post_load_acc_def isAcceptable_def handleClientError_def BAD_REQUEST_def)
qed

text \<open>
  C10 at the failing input. The first loads router wraps \<open>creation_date\<close> in
  \<open>new Date(...)\<close> before \<open>isBadRequest\<close> looks at it, and a \<open>Date\<close> is always truthy.
  \<open>POST /loads\<close> with the body \<open>{volume: 5, content: "LEGO", creation_date: 0}\<close>,
  whose \<open>creation_date\<close> is falsy, is answered 201 and the load is created; the second
  loads router answers the same request with 400.
\<close>

theorem post_load_accepts_falsy_creation_date:
  "\<not> truthy (req_body epochLoad ''creation_date'') \<and>
   post_load dp fmt 7 emptyStore epochLoad =
     (Responded 201 (LoadBody
        \<lparr>lrepr_id = 7, lrepr_volume = JNum 5, lrepr_carrier = None, lrepr_content = JStr ''LEGO'',
         lrepr_creation_date = fmt (Some 0), lrepr_self = ''http://localhost:8080/loads/7''\<rparr>),
      emptyStore\<lparr>Loads := [7 \<mapsto> \<lparr>load_volume = JNum 5, load_content = JStr ''LEGO'',
                                     load_creation_date = JDate (Some 0), load_carrier = None\<rparr>],
                 accesses := [(Create, LOADS)]\<rparr>) \<and>
   post_load_acc dp fmt 7 emptyStore epochLoad =
     (Responded 400 (ErrorBody ''The request object is missing at least one of the required attributes''),
      emptyStore)"
  by (simp add: post_load_def post_load_acc_def getLoadProps_def getLoadProps_raw_def
        isBadRequest_load_def isAcceptable_def insert_LOADS_def touch_def loadRepr_def
        handleClientError_def BAD_REQUEST_def numString_def epochLoad_def refill_def emptyStore_def)

end
